theory Spec2Isabelle
  imports Complex_Main
begin

section \<open>JavaScript numbers\<close>

text \<open>
  The script computes with JavaScript numbers. A number is modelled as an exact real or one
  of the three special values of the language: \<open>Infinity\<close>, \<open>-Infinity\<close> and \<open>NaN\<close>.
  The arithmetic follows the language on the special values (a division by zero gives an
  infinity, \<open>0 * Infinity\<close> and \<open>Infinity - Infinity\<close> give \<open>NaN\<close>, every comparison
  with \<open>NaN\<close> is false); on finite values it is exact, so the rounding of binary64, its
  overflow to an infinity beyond about \<open>1.8 * 10^308\<close> and the sign of zero are not part
  of the model (a zero divisor counts as \<open>+0\<close>, which is what the subtractions and lengths
  that feed the divisions of this script produce).
\<close>

datatype jsnum = Fin real | PInf | NInf | NaN

instantiation jsnum :: "{plus, minus, uminus, times, inverse, ord}"
begin

fun plus_jsnum :: "jsnum \<Rightarrow> jsnum \<Rightarrow> jsnum" where
  "plus_jsnum NaN _ = NaN"
| "plus_jsnum _ NaN = NaN"
| "plus_jsnum (Fin a) (Fin b) = Fin (a + b)"
| "plus_jsnum PInf NInf = NaN"
| "plus_jsnum NInf PInf = NaN"
| "plus_jsnum PInf _ = PInf"
| "plus_jsnum _ PInf = PInf"
| "plus_jsnum NInf _ = NInf"
| "plus_jsnum _ NInf = NInf"

fun uminus_jsnum :: "jsnum \<Rightarrow> jsnum" where
  "uminus_jsnum (Fin a) = Fin (- a)"
| "uminus_jsnum PInf = NInf"
| "uminus_jsnum NInf = PInf"
| "uminus_jsnum NaN = NaN"

definition minus_jsnum :: "jsnum \<Rightarrow> jsnum \<Rightarrow> jsnum" where
  "minus_jsnum a b = a + (- b)"

fun times_jsnum :: "jsnum \<Rightarrow> jsnum \<Rightarrow> jsnum" where
  "times_jsnum NaN _ = NaN"
| "times_jsnum _ NaN = NaN"
| "times_jsnum (Fin a) (Fin b) = Fin (a * b)"
| "times_jsnum (Fin a) PInf = (if a = 0 then NaN else if 0 < a then PInf else NInf)"
| "times_jsnum (Fin a) NInf = (if a = 0 then NaN else if 0 < a then NInf else PInf)"
| "times_jsnum PInf (Fin b) = (if b = 0 then NaN else if 0 < b then PInf else NInf)"
| "times_jsnum NInf (Fin b) = (if b = 0 then NaN else if 0 < b then NInf else PInf)"
| "times_jsnum PInf PInf = PInf"
| "times_jsnum NInf NInf = PInf"
| "times_jsnum PInf NInf = NInf"
| "times_jsnum NInf PInf = NInf"

fun divide_jsnum :: "jsnum \<Rightarrow> jsnum \<Rightarrow> jsnum" where
  "divide_jsnum NaN _ = NaN"
| "divide_jsnum _ NaN = NaN"
| "divide_jsnum (Fin a) (Fin b) =
     (if b = 0 then (if a = 0 then NaN else if 0 < a then PInf else NInf) else Fin (a / b))"
| "divide_jsnum (Fin a) _ = Fin 0"
| "divide_jsnum PInf (Fin b) = (if 0 \<le> b then PInf else NInf)"
| "divide_jsnum NInf (Fin b) = (if 0 \<le> b then NInf else PInf)"
| "divide_jsnum _ _ = NaN"

definition inverse_jsnum :: "jsnum \<Rightarrow> jsnum" where
  "inverse_jsnum a = divide (Fin 1) a"

fun less_jsnum :: "jsnum \<Rightarrow> jsnum \<Rightarrow> bool" where
  "less_jsnum (Fin a) (Fin b) = (a < b)"
| "less_jsnum (Fin a) PInf = True"
| "less_jsnum NInf (Fin b) = True"
| "less_jsnum NInf PInf = True"
| "less_jsnum _ _ = False"

definition less_eq_jsnum :: "jsnum \<Rightarrow> jsnum \<Rightarrow> bool" where
  "less_eq_jsnum a b = (a < b \<or> (a = b \<and> a \<noteq> NaN))"

instance ..

end

definition Math_PI :: jsnum where
  "Math_PI = Fin pi"

text \<open>
  \<open>Math.tan\<close> and \<open>Math.log\<close>: \<open>NaN\<close> on \<open>NaN\<close> and on an infinite argument of the
  tangent, \<open>-Infinity\<close> for the logarithm of zero, \<open>NaN\<close> for the logarithm of a negative
  number. At a pole of the real tangent (no binary64 number is one) the model answers
  \<open>NaN\<close>.
\<close>

fun Math_tan :: "jsnum \<Rightarrow> jsnum" where
  "Math_tan (Fin r) = (if cos r = 0 then NaN else Fin (tan r))"
| "Math_tan _ = NaN"

fun Math_log :: "jsnum \<Rightarrow> jsnum" where
  "Math_log (Fin r) = (if r < 0 then NaN else if r = 0 then NInf else Fin (ln r))"
| "Math_log PInf = PInf"
| "Math_log _ = NaN"

section \<open>The coordinate projector\<close>

text \<open>
  \<^verbatim>\<open>
  function mercatorProject(lon, lat){
    const lam = lon * Math.PI / 180;
    const phi = lat * Math.PI / 180;
    const x = lam;
    const y = Math.log(Math.tan(Math.PI/4 + phi/2));
    return [x, y];
  }
  \<close>
\<close>

definition mercatorProject :: "jsnum \<Rightarrow> jsnum \<Rightarrow> jsnum \<times> jsnum" where
  "mercatorProject lon lat =
     (let lam = lon * Math_PI / Fin 180;
          phi = lat * Math_PI / Fin 180;
          x = lam;
          y = Math_log (Math_tan (Math_PI / Fin 4 + phi / Fin 2))
      in (x, y))"

section \<open>Boundary data\<close>

text \<open>
  A boundary collection is a feature collection: each feature has optional properties
  (the region code \<open>icb23cd\<close> and two names) and a geometry, which may be \<open>null\<close>. The
  coordinates of a polygon are an array of rings and those of a multi-polygon an array of
  polygons; a ring is an array of positions \<open>[lon, lat]\<close>. Nothing in the script checks
  that the data has this shape, so every level may hold a value of another kind, written
  \<open>None\<close>:
  \<^item> for the coordinates of a polygon or of a multi-polygon, and for a polygon of a
    multi-polygon: a value that is no array, which is \<open>undefined\<close> (the member is missing),
    \<open>null\<close>, a number, a boolean or a plain object;
  \<^item> for a ring: \<open>null\<close> or \<open>undefined\<close>;
  \<^item> for a position: \<open>null\<close>, \<open>undefined\<close>, a number, a boolean or a plain object.

  A position that is present is a pair of numbers. Strings, rings that are numbers or
  objects, and positions with fewer than two numbers are not among the modelled values. A
  geometry of any other type carries whatever value its \<open>coordinates\<close> member holds: a
  number, an array, or something else (\<open>JOther\<close>: \<open>undefined\<close>, \<open>null\<close> or a plain
  object).
\<close>

type_synonym point = "jsnum \<times> jsnum"

datatype jsval = JNum jsnum | JArr "jsval list" | JOther

datatype geometry =
    Polygon "point option list option list option"
  | MultiPolygon "point option list option list option list option"
  | OtherGeom jsval

record props =
  icb23cd :: "string option"
  icb_name_short :: "string option"
  icb23nm :: "string option"

record feature =
  properties :: "props option"
  geometry :: "geometry option"

record geojson =
  features :: "feature list"

text \<open>
  What a function of the script can throw: the \<open>TypeError\<close> of the language (iterating
  or calling a method of a value that is no array, destructuring a value that cannot be
  iterated), or whatever a function passed to it throws (\<open>OtherError\<close>).
\<close>

datatype js_error = TypeError | OtherError

section \<open>Visiting the coordinates of a geometry\<close>

text \<open>
  \<^verbatim>\<open>
  function forEachCoord(geom, cb){
    if (!geom) return;
    const type = geom.type;
    const coords = geom.coordinates;
    if (type === 'Polygon'){
      for (const ring of coords){
        for (const pt of ring) cb(pt);
      }
      return;
    }
    if (type === 'MultiPolygon'){
      for (const poly of coords){
        for (const ring of poly){
          for (const pt of ring) cb(pt);
        }
      }
      return;
    }
    if (Array.isArray(coords)){
      (function walk(arr){
        if (typeof arr[0] === 'number' && typeof arr[1] === 'number'){
          cb(arr);
          return;
        }
        for (const item of arr) walk(item);
      })(coords);
    }
  }
  \<close>
  The model returns the arguments of the calls of \<open>cb\<close> in their order, or the error the
  iteration throws: \<open>for (... of v)\<close> is a \<open>TypeError\<close> when \<open>v\<close> is no array, in the
  two typed branches and in the fallback walk. An argument is itself a position or a value
  of another kind; what happens to it is the callback's business. The one callback of the
  script throws nothing but a \<open>TypeError\<close> and an error from either side ends the caller,
  so the order in which the iteration and the callback would fail is not kept.
\<close>

fun ringsCoords :: "point option list option list \<Rightarrow> js_error + point option list" where
  "ringsCoords [] = Inr []"
| "ringsCoords (None # rings) = Inl TypeError"
| "ringsCoords (Some ring # rings) =
     (case ringsCoords rings of Inl e \<Rightarrow> Inl e | Inr pts \<Rightarrow> Inr (ring @ pts))"

fun polysCoords :: "point option list option list option list \<Rightarrow> js_error + point option list" where
  "polysCoords [] = Inr []"
| "polysCoords (None # polys) = Inl TypeError"
| "polysCoords (Some poly # polys) =
     (case ringsCoords poly of
        Inl e \<Rightarrow> Inl e
      | Inr pts \<Rightarrow> (case polysCoords polys of Inl e \<Rightarrow> Inl e | Inr qts \<Rightarrow> Inr (pts @ qts)))"

fun walk :: "jsval \<Rightarrow> js_error + point list"
  and walkItems :: "jsval list \<Rightarrow> js_error + point list" where
  "walk (JArr (JNum a # JNum b # rest)) = Inr [(a, b)]"
| "walk (JArr items) = walkItems items"
| "walk (JNum n) = Inl TypeError"
| "walk JOther = Inl TypeError"
| "walkItems [] = Inr []"
| "walkItems (item # items) =
     (case walk item of
        Inl e \<Rightarrow> Inl e
      | Inr pts \<Rightarrow> (case walkItems items of Inl e \<Rightarrow> Inl e | Inr qts \<Rightarrow> Inr (pts @ qts)))"

fun forEachCoord :: "geometry option \<Rightarrow> js_error + point option list" where
  "forEachCoord None = Inr []"
| "forEachCoord (Some (Polygon None)) = Inl TypeError"
| "forEachCoord (Some (Polygon (Some coords))) = ringsCoords coords"
| "forEachCoord (Some (MultiPolygon None)) = Inl TypeError"
| "forEachCoord (Some (MultiPolygon (Some coords))) = polysCoords coords"
| "forEachCoord (Some (OtherGeom (JArr items))) =
     (case walk (JArr items) of Inl e \<Rightarrow> Inl e | Inr pts \<Rightarrow> Inr (map Some pts))"
| "forEachCoord (Some (OtherGeom coords)) = Inr []"

section \<open>The bounds fitter\<close>

text \<open>
  \<^verbatim>\<open>
  function buildGeoProjection(geo, W, H){
    let minX = Infinity, minY = Infinity, maxX = -Infinity, maxY = -Infinity;
    for (const feat of geo.features){
      forEachCoord(feat.geometry, ([lon,lat]) => {
        const [x,y] = mercatorProject(lon,lat);
        if (x < minX) minX = x;
        if (x > maxX) maxX = x;
        if (y < minY) minY = y;
        if (y > maxY) maxY = y;
      });
    }
    const dx = maxX - minX;
    const dy = maxY - minY;
    const pad = 0.96;
    const scale = pad * Math.min(W/dx, H/dy);
    const mapW = dx * scale;
    const mapH = dy * scale;
    const tx = (W - mapW)/2 - minX*scale;
    const ty = (H - mapH)/2 + maxY*scale;
    return { project: ([lon,lat]) => {
        const [x,y] = mercatorProject(lon,lat);
        const px = x*scale + tx;
        const py = (-y)*scale + ty;
        return [px,py]; } };
  }
  \<close>
  The four running extremes are a record; \<open>track\<close> is the body of the callback, and
  \<open>trackAll\<close> runs the callback on the arguments \<open>forEachCoord\<close> calls it with: its
  parameter \<open>[lon, lat]\<close> destructures the argument, a \<open>TypeError\<close> when the argument is
  no position. The closure the function returns is the record of the three numbers it
  captures, and \<open>project\<close> is its body.
\<close>

record bounds =
  minX :: jsnum
  minY :: jsnum
  maxX :: jsnum
  maxY :: jsnum

definition initialBounds :: bounds where
  "initialBounds = \<lparr>minX = PInf, minY = PInf, maxX = NInf, maxY = NInf\<rparr>"

definition track :: "bounds \<Rightarrow> point \<Rightarrow> bounds" where
  "track b pt =
     (case pt of (lon, lat) \<Rightarrow>
        (case mercatorProject lon lat of (x, y) \<Rightarrow>
           (let b1 = (if x < minX b then b\<lparr>minX := x\<rparr> else b);
                b2 = (if x > maxX b1 then b1\<lparr>maxX := x\<rparr> else b1);
                b3 = (if y < minY b2 then b2\<lparr>minY := y\<rparr> else b2);
                b4 = (if y > maxY b3 then b3\<lparr>maxY := y\<rparr> else b3)
            in b4)))"

fun trackAll :: "bounds \<Rightarrow> point option list \<Rightarrow> js_error + bounds" where
  "trackAll b [] = Inr b"
| "trackAll b (None # pts) = Inl TypeError"
| "trackAll b (Some pt # pts) = trackAll (track b pt) pts"

fun scanFeatures :: "feature list \<Rightarrow> bounds \<Rightarrow> js_error + bounds" where
  "scanFeatures [] b = Inr b"
| "scanFeatures (feat # feats) b =
     (case forEachCoord (geometry feat) of
        Inl e \<Rightarrow> Inl e
      | Inr pts \<Rightarrow>
          (case trackAll b pts of
             Inl e \<Rightarrow> Inl e
           | Inr b' \<Rightarrow> scanFeatures feats b'))"

text \<open>\<open>Math.min\<close> of two numbers: \<open>NaN\<close> when either is.\<close>

definition Math_min :: "jsnum \<Rightarrow> jsnum \<Rightarrow> jsnum" where
  "Math_min a b = (if a = NaN \<or> b = NaN then NaN else if b < a then b else a)"

record projection =
  scale :: jsnum
  tx :: jsnum
  ty :: jsnum

definition fitBounds :: "bounds \<Rightarrow> jsnum \<Rightarrow> jsnum \<Rightarrow> projection" where
  "fitBounds b W H =
     (let dx = maxX b - minX b;
          dy = maxY b - minY b;
          pad = Fin 0.96;
          scale = pad * Math_min (W / dx) (H / dy);
          mapW = dx * scale;
          mapH = dy * scale;
          tx = (W - mapW) / Fin 2 - minX b * scale;
          ty = (H - mapH) / Fin 2 + maxY b * scale
      in \<lparr>scale = scale, tx = tx, ty = ty\<rparr>)"

definition buildGeoProjection :: "geojson \<Rightarrow> jsnum \<Rightarrow> jsnum \<Rightarrow> js_error + projection" where
  "buildGeoProjection geo W H =
     (case scanFeatures (features geo) initialBounds of
        Inl e \<Rightarrow> Inl e
      | Inr b \<Rightarrow> Inr (fitBounds b W H))"

definition project :: "projection \<Rightarrow> point \<Rightarrow> point" where
  "project pr pt =
     (case pt of (lon, lat) \<Rightarrow>
        (case mercatorProject lon lat of (x, y) \<Rightarrow>
           (let px = x * scale pr + tx pr;
                py = (- y) * scale pr + ty pr
            in (px, py))))"

section \<open>The positions of a collection\<close>

text \<open>
  The positions of a geometry, as a set: every position that is present in a ring of a
  polygon or a multi-polygon; for another type, every array of the \<open>coordinates\<close> value
  that starts with two numbers and is not inside such an array. A position is valid when
  both numbers are finite and the latitude lies strictly between the poles.
\<close>

fun positions :: "jsval \<Rightarrow> point set"
  and positionsOfItems :: "jsval list \<Rightarrow> point set" where
  "positions (JArr (JNum a # JNum b # rest)) = {(a, b)}"
| "positions (JArr items) = positionsOfItems items"
| "positions (JNum n) = {}"
| "positions JOther = {}"
| "positionsOfItems [] = {}"
| "positionsOfItems (item # items) = positions item \<union> positionsOfItems items"

fun ringPoints :: "point option list option \<Rightarrow> point set" where
  "ringPoints None = {}"
| "ringPoints (Some ring) = (\<Union>pt \<in> set ring. set_option pt)"

fun ringsPoints :: "point option list option list option \<Rightarrow> point set" where
  "ringsPoints None = {}"
| "ringsPoints (Some rings) = (\<Union>ring \<in> set rings. ringPoints ring)"

fun geometryPoints :: "geometry option \<Rightarrow> point set" where
  "geometryPoints None = {}"
| "geometryPoints (Some (Polygon coords)) = ringsPoints coords"
| "geometryPoints (Some (MultiPolygon None)) = {}"
| "geometryPoints (Some (MultiPolygon (Some coords))) = (\<Union>poly \<in> set coords. ringsPoints poly)"
| "geometryPoints (Some (OtherGeom coords)) = positions coords"

definition geoPoints :: "geojson \<Rightarrow> point set" where
  "geoPoints geo = (\<Union>feat \<in> set (features geo). geometryPoints (geometry feat))"

fun validCoord :: "point \<Rightarrow> bool" where
  "validCoord (Fin lon, Fin lat) = (- 90 < lat \<and> lat < 90)"
| "validCoord pt = False"

text \<open>
  A position on the map of the regions: a longitude between -180 and 180 degrees and a
  latitude between -89 and 89 degrees.
\<close>

fun mapCoord :: "point \<Rightarrow> bool" where
  "mapCoord (Fin lon, Fin lat) = (- 180 \<le> lon \<and> lon \<le> 180 \<and> - 89 \<le> lat \<and> lat \<le> 89)"
| "mapCoord pt = False"

text \<open>\<open>Number.isFinite\<close>: the value is neither an infinity nor \<open>NaN\<close>.\<close>

fun isFinite :: "jsnum \<Rightarrow> bool" where
  "isFinite (Fin r) = True"
| "isFinite v = False"

text \<open>
  What the scan of a collection of valid positions leaves in the four extremes: finite
  numbers, the minimum not above the maximum, that enclose the projection of every
  position of a set.
\<close>

definition boxed :: "bounds \<Rightarrow> point set \<Rightarrow> bool" where
  "boxed b S = (\<exists>x0 y0 x1 y1.
      b = \<lparr>minX = Fin x0, minY = Fin y0, maxX = Fin x1, maxY = Fin y1\<rparr> \<and> x0 \<le> x1 \<and> y0 \<le> y1 \<and>
      (\<forall>p\<in>S. \<exists>x y. mercatorProject (fst p) (snd p) = (Fin x, Fin y) \<and>
                 x0 \<le> x \<and> x \<le> x1 \<and> y0 \<le> y \<and> y \<le> y1))"

section \<open>Fixed-point notation\<close>

text \<open>
  \<open>Number.prototype.toFixed(f)\<close>, as the language defines it: the words \<open>NaN\<close>,
  \<open>Infinity\<close> and \<open>-Infinity\<close> for the special values; otherwise the sign, then the
  integer \<open>n\<close> nearest to \<open>x * 10^f\<close> (the larger one of two) written in decimal, padded
  with zeros to more than \<open>f\<close> digits, with a point before the last \<open>f\<close> digits. From
  \<open>10^21\<close> on the language switches to the exponent notation of \<open>Number::toString\<close>,
  whose digits depend on the binary64 representation: \<open>Number_toString_exp\<close> stands for
  it and is left unspecified.
\<close>

definition digit_char :: "nat \<Rightarrow> char" where
  "digit_char d = ''0123456789'' ! d"

fun digits :: "nat \<Rightarrow> string" where
  "digits n = (if n < 10 then [digit_char n] else digits (n div 10) @ [digit_char (n mod 10)])"

definition Number_toString_exp :: "real \<Rightarrow> string" where
  "Number_toString_exp = undefined"

fun toFixed :: "nat \<Rightarrow> jsnum \<Rightarrow> string" where
  "toFixed f NaN = ''NaN''"
| "toFixed f PInf = ''Infinity''"
| "toFixed f NInf = ''-Infinity''"
| "toFixed f (Fin r) =
     (let s = (if r < 0 then ''-'' else '''');
          x = \<bar>r\<bar>
      in if 10 ^ 21 \<le> x then s @ Number_toString_exp x
         else
           (let n = nat \<lfloor>x * 10 ^ f + 1 / 2\<rfloor>;
                m = digits n
            in if f = 0 then s @ m
               else
                 (let m' = (if length m \<le> f then replicate (f + 1 - length m) (CHR ''0'') @ m else m);
                      k = length m'
                  in s @ take (k - f) m' @ ''.'' @ drop (k - f) m')))"

section \<open>The geometry-to-path compiler\<close>

text \<open>
  \<^verbatim>\<open>
  function geomToPath(geom, project){
    if (!geom) return '';
    const type = geom.type;
    const coords = geom.coordinates;
    const ringToPath = (ring) => {
      if (!ring || ring.length === 0) return '';
      let d = '';
      for (let i=0; i<ring.length; i++){
        const [lon,lat] = ring[i];
        const [x,y] = project([lon,lat]);
        d += (i===0 ? 'M' : 'L') + x.toFixed(2) + ' ' + y.toFixed(2);
      }
      return d + 'Z';
    };
    if (type === 'Polygon') return coords.map(ringToPath).join('');
    if (type === 'MultiPolygon')
      return coords.map(poly => poly.map(ringToPath).join('')).join('');
    return '';
  }
  \<close>
  \<open>ringLoop\<close> is the \<open>for\<close> loop of \<open>ringToPath\<close>: the positions from index \<open>i\<close>
  on, and the string \<open>d\<close> built so far. The function throws where the language does:
  \<open>const [lon,lat] = ring[i]\<close> is a \<open>TypeError\<close> when the entry is no position,
  \<open>coords.map\<close> and \<open>poly.map\<close> are one when the value is no array. The parameter
  \<open>project\<close> is any function of the caller: a call of it returns a pair of numbers, or
  it fails, with the error it throws or with the \<open>TypeError\<close> of destructuring or of
  \<open>toFixed\<close> on what it returns instead of a pair of numbers. \<open>Array_map_join\<close> is
  \<open>xs.map(f).join('')\<close> for a function \<open>f\<close> that returns a string or throws: the
  first call that throws ends the expression.
\<close>

fun ringLoop ::
  "(point \<Rightarrow> js_error + point) \<Rightarrow> point option list \<Rightarrow> nat \<Rightarrow> string \<Rightarrow> js_error + string" where
  "ringLoop proj [] i d = Inr d"
| "ringLoop proj (None # pts) i d = Inl TypeError"
| "ringLoop proj (Some (lon, lat) # pts) i d =
     (case proj (lon, lat) of
        Inl e \<Rightarrow> Inl e
      | Inr (x, y) \<Rightarrow>
          ringLoop proj pts (i + 1)
            (d @ (if i = 0 then ''M'' else ''L'') @ toFixed 2 x @ '' '' @ toFixed 2 y))"

fun ringToPath :: "(point \<Rightarrow> js_error + point) \<Rightarrow> point option list option \<Rightarrow> js_error + string" where
  "ringToPath proj None = Inr ''''"
| "ringToPath proj (Some []) = Inr ''''"
| "ringToPath proj (Some ring) =
     (case ringLoop proj ring 0 '''' of Inl e \<Rightarrow> Inl e | Inr d \<Rightarrow> Inr (d @ ''Z''))"

fun Array_map_join :: "('a \<Rightarrow> js_error + string) \<Rightarrow> 'a list \<Rightarrow> js_error + string" where
  "Array_map_join f [] = Inr ''''"
| "Array_map_join f (x # xs) =
     (case f x of
        Inl e \<Rightarrow> Inl e
      | Inr s \<Rightarrow> (case Array_map_join f xs of Inl e \<Rightarrow> Inl e | Inr t \<Rightarrow> Inr (s @ t)))"

fun geomToPath :: "geometry option \<Rightarrow> (point \<Rightarrow> js_error + point) \<Rightarrow> js_error + string" where
  "geomToPath None proj = Inr ''''"
| "geomToPath (Some (Polygon None)) proj = Inl TypeError"
| "geomToPath (Some (Polygon (Some coords))) proj = Array_map_join (ringToPath proj) coords"
| "geomToPath (Some (MultiPolygon None)) proj = Inl TypeError"
| "geomToPath (Some (MultiPolygon (Some coords))) proj =
     Array_map_join
       (\<lambda>poly. case poly of
                  None \<Rightarrow> Inl TypeError
                | Some rings \<Rightarrow> Array_map_join (ringToPath proj) rings) coords"
| "geomToPath (Some (OtherGeom coords)) proj = Inr ''''"

text \<open>
  A projection function that returns for every position: it wraps a function from
  positions to pixels. The text of one projected point in a path, and the shape of a
  number written with exactly two decimal places: an optional minus sign, one or more
  digits, a point, two digits.
\<close>

definition returning :: "(point \<Rightarrow> point) \<Rightarrow> point \<Rightarrow> js_error + point" where
  "returning f pt = Inr (f pt)"

definition pointText :: "(point \<Rightarrow> point) \<Rightarrow> point \<Rightarrow> string" where
  "pointText f pt = toFixed 2 (fst (f pt)) @ '' '' @ toFixed 2 (snd (f pt))"

definition isDigit :: "char \<Rightarrow> bool" where
  "isDigit c = (c \<in> set ''0123456789'')"

definition twoDecimals :: "string \<Rightarrow> bool" where
  "twoDecimals s =
     (let body = (case s of c # cs \<Rightarrow> (if c = CHR ''-'' then cs else s) | [] \<Rightarrow> s);
          n = length body
      in 4 \<le> n \<and> list_all isDigit (take (n - 3) body) \<and> body ! (n - 3) = CHR ''.''
         \<and> isDigit (body ! (n - 2)) \<and> isDigit (body ! (n - 1)))"

text \<open>
  The inputs on which the compiler throws: a position that is no position or on which
  the projection function fails, in a ring that is present; coordinates or a polygon
  that are no array.
\<close>

definition pointThrows :: "(point \<Rightarrow> js_error + point) \<Rightarrow> point option \<Rightarrow> bool" where
  "pointThrows proj pt = (case pt of None \<Rightarrow> True | Some p \<Rightarrow> isl (proj p))"

definition ringThrows :: "(point \<Rightarrow> js_error + point) \<Rightarrow> point option list option \<Rightarrow> bool" where
  "ringThrows proj ring = (case ring of None \<Rightarrow> False | Some pts \<Rightarrow> list_ex (pointThrows proj) pts)"

definition ringsThrow ::
  "(point \<Rightarrow> js_error + point) \<Rightarrow> point option list option list option \<Rightarrow> bool" where
  "ringsThrow proj rings =
     (case rings of None \<Rightarrow> True | Some rs \<Rightarrow> list_ex (ringThrows proj) rs)"

fun geomThrows :: "geometry option \<Rightarrow> (point \<Rightarrow> js_error + point) \<Rightarrow> bool" where
  "geomThrows None proj = False"
| "geomThrows (Some (Polygon coords)) proj = ringsThrow proj coords"
| "geomThrows (Some (MultiPolygon None)) proj = True"
| "geomThrows (Some (MultiPolygon (Some coords))) proj = list_ex (ringsThrow proj) coords"
| "geomThrows (Some (OtherGeom coords)) proj = False"

section \<open>Drawing elements\<close>

text \<open>
  An element of the drawing: its tag, its attributes in the order they were set, its
  children and its text content. The script hands every attribute value to
  \<open>String(v)\<close>; a value that is a number is kept as the number (\<open>ANum\<close>), and so is a
  label made by \<open>String\<close> of a number (\<open>NumText\<close>): the decimal digits \<open>String\<close>
  chooses for a binary64 number are not part of the model.
  \<^verbatim>\<open>
  const el = (tag, attrs = {}, children = []) => {
    const node = document.createElementNS('http://www.w3.org/2000/svg', tag);
    Object.entries(attrs).forEach(([k,v]) => node.setAttribute(k, String(v)));
    for (const child of children) node.appendChild(child);
    return node;
  };
  \<close>
  \<open>Map_set\<close> is \<open>Map.prototype.set\<close> on a map kept in insertion order: the value of a
  key that is present is replaced where it stands, a new key goes to the end.
  \<open>setAttribute\<close> treats the attributes of an element the same way.
\<close>

datatype attrval = AStr string | ANum jsnum

datatype label = Text string | NumText jsnum

datatype node =
  Node (tag: string) (attrs: "(string \<times> attrval) list") (children: "node list")
    (textContent: "label option")

fun Map_set :: "'k \<Rightarrow> 'v \<Rightarrow> ('k \<times> 'v) list \<Rightarrow> ('k \<times> 'v) list" where
  "Map_set k v [] = [(k, v)]"
| "Map_set k v ((k', v') # m) = (if k' = k then (k, v) # m else (k', v') # Map_set k v m)"

definition setAttribute :: "string \<Rightarrow> attrval \<Rightarrow> node \<Rightarrow> node" where
  "setAttribute k v n = Node (tag n) (Map_set k v (attrs n)) (children n) (textContent n)"

definition getAttribute :: "node \<Rightarrow> string \<Rightarrow> attrval option" where
  "getAttribute n k = map_of (attrs n) k"

definition setTextContent :: "label \<Rightarrow> node \<Rightarrow> node" where
  "setTextContent l n = Node (tag n) (attrs n) (children n) (Some l)"

definition appendChild :: "node \<Rightarrow> node \<Rightarrow> node" where
  "appendChild parent child =
     Node (tag parent) (attrs parent) (children parent @ [child]) (textContent parent)"

definition createElementNS :: "string \<Rightarrow> node" where
  "createElementNS t = Node t [] [] None"

definition el :: "string \<Rightarrow> (string \<times> attrval) list \<Rightarrow> node list \<Rightarrow> node" where
  "el t as cs =
     foldl appendChild (foldl (\<lambda>node (k, v). setAttribute k v node) (createElementNS t) as) cs"

definition BRAND_BLUE :: string where
  "BRAND_BLUE = ''#141B8C''"

definition REFERRALS_GREY :: string where
  "REFERRALS_GREY = ''#D1D5DB''"

definition STROKE_GREY :: string where
  "STROKE_GREY = ''#ffffff''"

section \<open>The region map renderer\<close>

text \<open>
  \<^verbatim>\<open>
  function renderMap(container, geo, onPick){
    const W = 1000; const H = 680;
    container.innerHTML = '';
    const svg = el('svg', { viewBox: `0 0 ${W} ${H}`, role: 'img', 'aria-label': 'ICB map' });
    const proj = buildGeoProjection(geo, W, H);
    const pathsByCd = new Map();
    for (const feat of geo.features){
      const cd = feat.properties?.icb23cd;
      const nm = feat.properties?.icb_name_short || feat.properties?.icb23nm || cd || 'ICB';
      const pathD = geomToPath(feat.geometry, proj.project);
      const path = el('path', { d: pathD, fill: '#c7cdd9', stroke: STROKE_GREY,
        'stroke-width': 1, 'fill-rule': 'evenodd', tabindex: 0, 'data-icb23cd': cd || '' });
      const title = el('title', {}, []);
      title.textContent = nm;
      path.appendChild(title);
      ... click and keydown listeners that call onPick(cd) when cd is truthy ...
      svg.appendChild(path);
      if (cd) pathsByCd.set(cd, path);
    }
    svg.classList.add('icb-map');
    container.appendChild(svg);
    return {
      setSelected: (cd) => {
        for (const [k, path] of pathsByCd.entries()){
          path.setAttribute('fill', k === cd ? BRAND_BLUE : '#c7cdd9');
          path.setAttribute('opacity', k === cd ? '1' : '0.95');
        }
      }
    };
  }
  \<close>
  The state the handle works on is the list of path elements of the drawing, in document
  order, and the map \<open>pathsByCd\<close>, whose values refer to paths by their index in that
  list. A string is truthy when it is present and not empty; \<open>firstTruthy\<close> is a chain
  of \<open>||\<close> that ends in a literal. The listeners are not part of the state.
  \<open>featurePath\<close> is the part of the loop body that builds the path element of a
  feature; it throws when \<open>geomToPath\<close> does, and then \<open>renderMap\<close> returns no handle.
\<close>

fun firstTruthy :: "string option list \<Rightarrow> string \<Rightarrow> string" where
  "firstTruthy [] d = d"
| "firstTruthy (Some (c # cs) # rest) d = c # cs"
| "firstTruthy (v # rest) d = firstTruthy rest d"

definition featureCd :: "feature \<Rightarrow> string option" where
  "featureCd feat = (case properties feat of None \<Rightarrow> None | Some p \<Rightarrow> icb23cd p)"

definition featureName :: "feature \<Rightarrow> string" where
  "featureName feat =
     (case properties feat of
        None \<Rightarrow> ''ICB''
      | Some p \<Rightarrow> firstTruthy [icb_name_short p, icb23nm p, icb23cd p] ''ICB'')"

definition featurePath :: "(point \<Rightarrow> js_error + point) \<Rightarrow> feature \<Rightarrow> js_error + node" where
  "featurePath proj feat =
     (let cd = featureCd feat;
          nm = featureName feat
      in case geomToPath (geometry feat) proj of
           Inl e \<Rightarrow> Inl e
         | Inr pathD \<Rightarrow>
             (let path = el ''path''
                    [(''d'', AStr pathD), (''fill'', AStr ''#c7cdd9''), (''stroke'', AStr STROKE_GREY),
                     (''stroke-width'', ANum (Fin 1)), (''fill-rule'', AStr ''evenodd''),
                     (''tabindex'', ANum (Fin 0)), (''data-icb23cd'', AStr (firstTruthy [cd] ''''))] [];
                  title = setTextContent (Text nm) (el ''title'' [] [])
              in Inr (appendChild path title)))"

record map_state =
  shapes :: "node list"
  pathsByCd :: "(string \<times> nat) list"

fun addFeatures ::
  "(point \<Rightarrow> js_error + point) \<Rightarrow> feature list \<Rightarrow> map_state \<Rightarrow> js_error + map_state" where
  "addFeatures proj [] st = Inr st"
| "addFeatures proj (feat # feats) st =
     (case featurePath proj feat of
        Inl e \<Rightarrow> Inl e
      | Inr path \<Rightarrow>
          (let i = length (shapes st);
               st1 = st\<lparr>shapes := shapes st @ [path]\<rparr>;
               st2 = (case featureCd feat of
                        Some (c # cs) \<Rightarrow> st1\<lparr>pathsByCd := Map_set (c # cs) i (pathsByCd st1)\<rparr>
                      | _ \<Rightarrow> st1)
           in addFeatures proj feats st2))"

definition renderMap :: "geojson \<Rightarrow> js_error + map_state" where
  "renderMap geo =
     (case buildGeoProjection geo (Fin 1000) (Fin 680) of
        Inl e \<Rightarrow> Inl e
      | Inr proj \<Rightarrow>
          addFeatures (returning (project proj)) (features geo) \<lparr>shapes = [], pathsByCd = []\<rparr>)"

definition recolor :: "string \<Rightarrow> string \<Rightarrow> node \<Rightarrow> node" where
  "recolor cd k path =
     setAttribute ''opacity'' (AStr (if k = cd then ''1'' else ''0.95''))
       (setAttribute ''fill'' (AStr (if k = cd then BRAND_BLUE else ''#c7cdd9'')) path)"

definition setSelected :: "string \<Rightarrow> map_state \<Rightarrow> map_state" where
  "setSelected cd st =
     st\<lparr>shapes := foldl (\<lambda>sh (k, i). sh[i := recolor cd k (sh ! i)]) (shapes st) (pathsByCd st)\<rparr>"

text \<open>
  What a selection leaves to see: for every path of the drawing, in document order, its
  region code attribute, its fill and its opacity.
\<close>

definition styleOf :: "node \<Rightarrow> attrval option \<times> attrval option \<times> attrval option" where
  "styleOf n = (getAttribute n ''data-icb23cd'', getAttribute n ''fill'', getAttribute n ''opacity'')"

definition selectedStyles ::
  "geojson \<Rightarrow> string \<Rightarrow> js_error + (attrval option \<times> attrval option \<times> attrval option) list" where
  "selectedStyles geo cd =
     (case renderMap geo of
        Inl e \<Rightarrow> Inl e
      | Inr st \<Rightarrow> Inr (map styleOf (shapes (setSelected cd st))))"

text \<open>
  The feature a region code is registered for: the last feature of the collection that
  carries the code, a code being a string that is not empty.
\<close>

definition registeredAt :: "feature list \<Rightarrow> string \<Rightarrow> nat \<Rightarrow> bool" where
  "registeredAt feats k i =
     (i < length feats \<and> k \<noteq> [] \<and> featureCd (feats ! i) = Some k \<and>
      (\<forall>j. i < j \<and> j < length feats \<longrightarrow> featureCd (feats ! j) \<noteq> Some k))"

section \<open>Numbers in the chart renderers\<close>

text \<open>
  \<open>Math.max\<close> of a list of arguments (\<open>-Infinity\<close> for none, \<open>NaN\<close> when one is),
  \<open>Math.ceil\<close>, \<open>Math.round\<close> and the test \<open>t % 1 === 0\<close>. A numeric property of
  an input row holds a number, or \<open>null\<close>, or is absent (\<open>undefined\<close>); the
  conversion to a number that arithmetic and \<open>Number\<close> apply gives 0 for \<open>null\<close> and
  \<open>NaN\<close> for \<open>undefined\<close>.
\<close>

definition Math_max2 :: "jsnum \<Rightarrow> jsnum \<Rightarrow> jsnum" where
  "Math_max2 a b = (if a = NaN \<or> b = NaN then NaN else if a < b then b else a)"

definition Math_max :: "jsnum list \<Rightarrow> jsnum" where
  "Math_max args = foldl Math_max2 NInf args"

fun Math_ceil :: "jsnum \<Rightarrow> jsnum" where
  "Math_ceil (Fin r) = Fin (of_int \<lceil>r\<rceil>)"
| "Math_ceil v = v"

fun Math_round :: "jsnum \<Rightarrow> jsnum" where
  "Math_round (Fin r) = Fin (of_int \<lfloor>r + 1 / 2\<rfloor>)"
| "Math_round v = v"

fun isInteger :: "jsnum \<Rightarrow> bool" where
  "isInteger (Fin r) = (of_int \<lfloor>r\<rfloor> = r)"
| "isInteger v = False"

datatype jsfield = Undefined | Null | Num jsnum

fun toNumber :: "jsfield \<Rightarrow> jsnum" where
  "toNumber Undefined = NaN"
| "toNumber Null = Fin 0"
| "toNumber (Num v) = v"

section \<open>Layout shared by the two charts\<close>

text \<open>
  Both renderers draw on a 1000 by 680 surface inside margins. The gridline loop
  \<^verbatim>\<open>for (let t = t0; t <= yMax + 1e-9; t += step) { ... }\<close>
  appends what its body draws for \<open>t\<close>; it need not end (a step of zero, an infinite
  maximum), so its result is optional. The counter is advanced by the exact sum: the
  ticks of the model are \<open>t0 + k * step\<close>, where binary64 accumulates the rounding of
  each addition (the fifth tick of the single-line chart is 7.999999999999998 there, and
  is labelled \<open>8.0\<close>, not \<open>8\<close>), and from \<open>2^52\<close> on a binary64 counter no longer
  advances by a step of 0.5.
\<close>

definition chartW :: jsnum where
  "chartW = Fin 1000"

definition chartH :: jsnum where
  "chartH = Fin 680"

record margins =
  m_top :: jsnum
  m_right :: jsnum
  m_bottom :: jsnum
  m_left :: jsnum

definition innerW :: "margins \<Rightarrow> jsnum" where
  "innerW m = chartW - m_left m - m_right m"

definition innerH :: "margins \<Rightarrow> jsnum" where
  "innerH m = chartH - m_top m - m_bottom m"

partial_function (option) gridLoop ::
  "(jsnum \<Rightarrow> node list) \<Rightarrow> jsnum \<Rightarrow> jsnum \<Rightarrow> jsnum \<Rightarrow> node list \<Rightarrow> node list option" where
  "gridLoop body t yMax step svg =
     (if t \<le> yMax + Fin (1 / 10 ^ 9) then gridLoop body (t + step) yMax step (svg @ body t)
      else Some svg)"

definition gridLine :: "margins \<Rightarrow> jsnum \<Rightarrow> node" where
  "gridLine m y =
     el ''line''
       [(''x1'', ANum (m_left m)), (''x2'', ANum (m_left m + innerW m)), (''y1'', ANum y),
        (''y2'', ANum y), (''stroke'', AStr ''#d1d5db''), (''stroke-width'', ANum (Fin 1))] []"

definition gridText :: "margins \<Rightarrow> jsnum \<Rightarrow> jsnum \<Rightarrow> label \<Rightarrow> node" where
  "gridText m y fontSize l =
     setTextContent l
       (el ''text''
          [(''x'', ANum (m_left m - Fin 10)), (''y'', ANum (y + Fin 5)), (''text-anchor'', AStr ''end''),
           (''font-size'', ANum fontSize), (''font-weight'', ANum (Fin 600)),
           (''fill'', AStr ''#d1d5db'')] [])"

definition axesLines :: "margins \<Rightarrow> jsnum \<Rightarrow> node list" where
  "axesLines m y0 =
     [el ''line''
        [(''x1'', ANum (m_left m)), (''x2'', ANum (m_left m)), (''y1'', ANum (m_top m)),
         (''y2'', ANum y0), (''stroke'', AStr ''#6b7280''), (''stroke-width'', ANum (Fin 1.5))] [],
      el ''line''
        [(''x1'', ANum (m_left m)), (''x2'', ANum (m_left m + innerW m)), (''y1'', ANum y0),
         (''y2'', ANum y0), (''stroke'', AStr ''#6b7280''), (''stroke-width'', ANum (Fin 1.5))] []]"

definition xLabel :: "jsnum \<Rightarrow> jsnum \<Rightarrow> string \<Rightarrow> node" where
  "xLabel x y0 l =
     setTextContent (Text l)
       (el ''text''
          [(''x'', ANum x), (''y'', ANum (y0 + Fin 46)), (''text-anchor'', AStr ''middle''),
           (''font-size'', ANum (Fin 18)), (''font-weight'', ANum (Fin 700)),
           (''fill'', AStr ''#d1d5db'')] [])"

section \<open>The grouped-bar renderer\<close>

text \<open>
  \<^verbatim>\<open>
  function renderReferralsChart(container, series){
    const W = 1000; const H = 680;
    const margin = { top: 70, right: 30, bottom: 70, left: 80 };
    const innerW = W - margin.left - margin.right;
    const innerH = H - margin.top - margin.bottom;
    container.innerHTML = '';
    const svg = el('svg', { viewBox: `0 0 ${W} ${H}`, role: 'img',
                            'aria-label': 'Referrals and accessed services' });
    const dataM = series.map(d => ({ year: d.year, referrals: d.referrals / 1e6,
                                     accessed: d.accessed / 1e6 }));
    const maxVal = Math.max(...dataM.flatMap(d => [d.referrals, d.accessed, 0]));
    const step = (maxVal <= 0.2) ? 0.05 : (maxVal <= 0.5) ? 0.1 : (maxVal <= 1.0) ? 0.2 : 0.5;
    const yMax = Math.max(step, Math.ceil((maxVal * 1.12) / step) * step);
    const yScale = (v) => margin.top + (1 - (v / yMax)) * innerH;
    const xBand = innerW / dataM.length;
    const y0 = yScale(0);
    for (let t = 0; t <= yMax + 1e-9; t += step){
      const y = yScale(t);
      svg.appendChild(el('line', {...}));
      svg.appendChild(el('text', {...})).textContent =
        (t % 1 === 0) ? String(Math.round(t))
                      : t.toFixed(2).replace(/0+$/,'').replace(/\.$/,'');
    }
    ... the two axis lines, the two legend items ...
    for (let i=0; i<dataM.length; i++){
      const d = dataM[i];
      const groupX = margin.left + i * xBand;
      const barTotal = xBand * 0.62;
      const barGap = barTotal * 0.10;
      const barW = (barTotal - barGap) / 2;
      const offset = (xBand - barTotal) / 2;
      const xRef = groupX + offset;
      const xAcc = xRef + barW + barGap;
      const yRef = yScale(d.referrals);
      const yAcc = yScale(d.accessed);
      svg.appendChild(el('rect', { x: xRef, y: yRef, width: barW,
                                   height: Math.max(0, y0 - yRef), fill: REFERRALS_GREY }));
      svg.appendChild(el('rect', { x: xAcc, y: yAcc, width: barW,
                                   height: Math.max(0, y0 - yAcc), fill: BRAND_BLUE }));
      svg.appendChild(el('text', {...})).textContent = d.year;
    }
    container.appendChild(svg);
  }
  \<close>
  The renderer replaces the content of the container by the \<open>svg\<close> element; the model
  returns that element with its children in the order the source appends them, or
  nothing when the gridline loop does not end.
\<close>

record referral_row =
  year :: string
  referrals :: jsfield
  accessed :: jsfield

record referral_m =
  yearM :: string
  referralsM :: jsnum
  accessedM :: jsnum

definition referralsMargin :: margins where
  "referralsMargin = \<lparr>m_top = Fin 70, m_right = Fin 30, m_bottom = Fin 70, m_left = Fin 80\<rparr>"

definition referralsDataM :: "referral_row list \<Rightarrow> referral_m list" where
  "referralsDataM series =
     map (\<lambda>d. \<lparr>yearM = year d,
                referralsM = toNumber (referrals d) / Fin 1000000,
                accessedM = toNumber (accessed d) / Fin 1000000\<rparr>) series"

definition referralsMaxVal :: "referral_m list \<Rightarrow> jsnum" where
  "referralsMaxVal dataM = Math_max (concat (map (\<lambda>d. [referralsM d, accessedM d, Fin 0]) dataM))"

definition gridStep :: "jsnum \<Rightarrow> jsnum" where
  "gridStep maxVal =
     (if maxVal \<le> Fin 0.2 then Fin 0.05
      else if maxVal \<le> Fin 0.5 then Fin 0.1
      else if maxVal \<le> Fin 1.0 then Fin 0.2
      else Fin 0.5)"

definition axisMax :: "jsnum \<Rightarrow> jsnum \<Rightarrow> jsnum" where
  "axisMax maxVal step = Math_max [step, Math_ceil ((maxVal * Fin 1.12) / step) * step]"

definition referralsYScale :: "jsnum \<Rightarrow> jsnum \<Rightarrow> jsnum" where
  "referralsYScale yMax v = m_top referralsMargin + (Fin 1 - (v / yMax)) * innerH referralsMargin"

definition stripZeros :: "string \<Rightarrow> string" where
  "stripZeros s = rev (dropWhile (\<lambda>c. c = CHR ''0'') (rev s))"

definition stripDot :: "string \<Rightarrow> string" where
  "stripDot s = (if s \<noteq> [] \<and> last s = CHR ''.'' then butlast s else s)"

definition referralsTick :: "jsnum \<Rightarrow> label" where
  "referralsTick t =
     (if isInteger t then NumText (Math_round t) else Text (stripDot (stripZeros (toFixed 2 t))))"

definition referralsGridline :: "jsnum \<Rightarrow> jsnum \<Rightarrow> node list" where
  "referralsGridline yMax t =
     (let y = referralsYScale yMax t
      in [gridLine referralsMargin y, gridText referralsMargin y (Fin 16) (referralsTick t)])"

definition legendItem :: "jsnum \<Rightarrow> jsnum \<Rightarrow> string \<Rightarrow> string \<Rightarrow> node list" where
  "legendItem legendY x color l =
     [el ''rect''
        [(''x'', ANum x), (''y'', ANum (legendY - Fin 10)), (''width'', ANum (Fin 14)),
         (''height'', ANum (Fin 14)), (''fill'', AStr color)] [],
      setTextContent (Text l)
        (el ''text''
           [(''x'', ANum (x + Fin 20)), (''y'', ANum (legendY + Fin 2)),
            (''text-anchor'', AStr ''start''), (''font-size'', ANum (Fin 18)),
            (''font-weight'', ANum (Fin 700)), (''fill'', AStr ''#d1d5db'')] [])]"

definition referralsLegend :: "node list" where
  "referralsLegend =
     (let legendY = m_top referralsMargin - Fin 40;
          legendX = m_left referralsMargin + Fin 260
      in legendItem legendY legendX REFERRALS_GREY ''Referrals (m)''
         @ legendItem legendY (legendX + Fin 170) BRAND_BLUE ''Accessed services (m)'')"

text \<open>What one round of the bar loop appends for the period \<open>d\<close> at index \<open>i\<close>.\<close>

definition barGroup :: "jsnum \<Rightarrow> jsnum \<Rightarrow> jsnum \<Rightarrow> referral_m \<Rightarrow> nat \<Rightarrow> node list" where
  "barGroup yMax xBand y0 d i =
     (let groupX = m_left referralsMargin + Fin (real i) * xBand;
          barTotal = xBand * Fin 0.62;
          barGap = barTotal * Fin 0.10;
          barW = (barTotal - barGap) / Fin 2;
          offset = (xBand - barTotal) / Fin 2;
          xRef = groupX + offset;
          xAcc = xRef + barW + barGap;
          yRef = referralsYScale yMax (referralsM d);
          yAcc = referralsYScale yMax (accessedM d)
      in [el ''rect''
            [(''x'', ANum xRef), (''y'', ANum yRef), (''width'', ANum barW),
             (''height'', ANum (Math_max [Fin 0, y0 - yRef])), (''fill'', AStr REFERRALS_GREY)] [],
          el ''rect''
            [(''x'', ANum xAcc), (''y'', ANum yAcc), (''width'', ANum barW),
             (''height'', ANum (Math_max [Fin 0, y0 - yAcc])), (''fill'', AStr BRAND_BLUE)] [],
          xLabel (groupX + xBand / Fin 2) y0 (yearM d)])"

fun barsLoop :: "jsnum \<Rightarrow> jsnum \<Rightarrow> jsnum \<Rightarrow> referral_m list \<Rightarrow> nat \<Rightarrow> node list" where
  "barsLoop yMax xBand y0 [] i = []"
| "barsLoop yMax xBand y0 (d # ds) i = barGroup yMax xBand y0 d i @ barsLoop yMax xBand y0 ds (i + 1)"

definition renderReferralsChart :: "referral_row list \<Rightarrow> node option" where
  "renderReferralsChart series =
     (let dataM = referralsDataM series;
          maxVal = referralsMaxVal dataM;
          step = gridStep maxVal;
          yMax = axisMax maxVal step;
          xBand = innerW referralsMargin / Fin (real (length dataM));
          y0 = referralsYScale yMax (Fin 0)
      in case gridLoop (referralsGridline yMax) (Fin 0) yMax step [] of
           None \<Rightarrow> None
         | Some grid \<Rightarrow>
             Some (el ''svg''
                     [(''viewBox'', AStr ''0 0 1000 680''), (''role'', AStr ''img''),
                      (''aria-label'', AStr ''Referrals and accessed services'')]
                     (grid @ axesLines referralsMargin y0 @ referralsLegend
                      @ barsLoop yMax xBand y0 dataM 0)))"

text \<open>The tags of the children of a drawing, in document order.\<close>

definition childTags :: "node option \<Rightarrow> string list" where
  "childTags drawing = (case drawing of None \<Rightarrow> [] | Some svg \<Rightarrow> map tag (children svg))"

section \<open>The single-line renderer\<close>

text \<open>
  \<^verbatim>\<open>
  function renderSessionsChart(container, series){
    const W = 1000; const H = 680;
    const margin = { top: 40, right: 30, bottom: 70, left: 80 };
    const innerW = W - margin.left - margin.right;
    const innerH = H - margin.top - margin.bottom;
    container.innerHTML = '';
    const svg = el('svg', { viewBox: `0 0 ${W} ${H}`, role: 'img',
                            'aria-label': 'Average sessions per course' });
    svg.appendChild(el('rect', { x: 0, y: 0, width: W, height: H, fill: '#fafbfd' }));
    const data = (series || []).map(d => ({ year: String(d.year), sessions: Number(d.sessions) }));
    // Match the deck axis range and ticks.
    const yMin = 7.6;
    const yMax = 8.5;
    const yStep = 0.1;
    const yScale = (v) => margin.top + (1 - ((v - yMin) / (yMax - yMin))) * innerH;
    const xStep = innerW / Math.max(1, (data.length - 1));
    const xScale = (i) => margin.left + i * xStep;
    for (let t = yMin; t <= yMax + 1e-9; t += yStep){
      const y = yScale(t);
      svg.appendChild(el('line', {...}));
      svg.appendChild(el('text', {...})).textContent =
        (t % 1 === 0) ? String(Math.round(t)) : t.toFixed(1);
    }
    const y0 = yScale(yMin);
    ... the two axis lines ...
    for (let i=0; i<data.length; i++){
      const x = xScale(i);
      svg.appendChild(el('text', {...})).textContent = data[i].year;
    }
    if (data.length){
      let d = '';
      for (let i=0; i<data.length; i++){
        const x = xScale(i);
        const y = yScale(data[i].sessions);
        d += (i === 0 ? 'M' : 'L') + x.toFixed(2) + ' ' + y.toFixed(2);
      }
      svg.appendChild(el('path', { d, fill: 'none', stroke: BRAND_BLUE, 'stroke-width': 8,
                                   'stroke-linecap': 'round', 'stroke-linejoin': 'round' }));
      for (let i=0; i<data.length; i++){
        const x = xScale(i);
        const y = yScale(data[i].sessions);
        svg.appendChild(el('circle', { cx: x, cy: y, r: 7, fill: BRAND_BLUE }));
      }
    }
    container.appendChild(svg);
  }
  \<close>
  The series may be \<open>null\<close>. The closures \<open>yScale\<close> and \<open>xScale\<close> take the constants
  they capture as arguments, and \<open>sessionsDrawing\<close> is the body of the renderer after
  the three constants of the axis; \<open>renderSessionsChart\<close> binds the constants as the
  source does.
\<close>

record session_row =
  s_year :: string
  sessions :: jsfield

record session_point =
  p_year :: string
  p_sessions :: jsnum

definition sessionsMargin :: margins where
  "sessionsMargin = \<lparr>m_top = Fin 40, m_right = Fin 30, m_bottom = Fin 70, m_left = Fin 80\<rparr>"

definition sessionsData :: "session_row list option \<Rightarrow> session_point list" where
  "sessionsData series =
     map (\<lambda>d. \<lparr>p_year = s_year d, p_sessions = toNumber (sessions d)\<rparr>)
       (case series of None \<Rightarrow> [] | Some rows \<Rightarrow> rows)"

definition sessionsYScale :: "jsnum \<Rightarrow> jsnum \<Rightarrow> jsnum \<Rightarrow> jsnum" where
  "sessionsYScale yMin yMax v =
     m_top sessionsMargin + (Fin 1 - ((v - yMin) / (yMax - yMin))) * innerH sessionsMargin"

definition sessionsXScale :: "jsnum \<Rightarrow> nat \<Rightarrow> jsnum" where
  "sessionsXScale xStep i = m_left sessionsMargin + Fin (real i) * xStep"

definition sessionsTick :: "jsnum \<Rightarrow> label" where
  "sessionsTick t = (if isInteger t then NumText (Math_round t) else Text (toFixed 1 t))"

definition sessionsGridline :: "jsnum \<Rightarrow> jsnum \<Rightarrow> jsnum \<Rightarrow> node list" where
  "sessionsGridline yMin yMax t =
     (let y = sessionsYScale yMin yMax t
      in [gridLine sessionsMargin y, gridText sessionsMargin y (Fin 18) (sessionsTick t)])"

fun sessionsXLabels :: "jsnum \<Rightarrow> jsnum \<Rightarrow> session_point list \<Rightarrow> nat \<Rightarrow> node list" where
  "sessionsXLabels xStep y0 [] i = []"
| "sessionsXLabels xStep y0 (p # ps) i =
     xLabel (sessionsXScale xStep i) y0 (p_year p) # sessionsXLabels xStep y0 ps (i + 1)"

fun lineLoop :: "jsnum \<Rightarrow> jsnum \<Rightarrow> jsnum \<Rightarrow> session_point list \<Rightarrow> nat \<Rightarrow> string \<Rightarrow> string" where
  "lineLoop yMin yMax xStep [] i d = d"
| "lineLoop yMin yMax xStep (p # ps) i d =
     (let x = sessionsXScale xStep i;
          y = sessionsYScale yMin yMax (p_sessions p)
      in lineLoop yMin yMax xStep ps (i + 1)
           (d @ (if i = 0 then ''M'' else ''L'') @ toFixed 2 x @ '' '' @ toFixed 2 y))"

fun markers :: "jsnum \<Rightarrow> jsnum \<Rightarrow> jsnum \<Rightarrow> session_point list \<Rightarrow> nat \<Rightarrow> node list" where
  "markers yMin yMax xStep [] i = []"
| "markers yMin yMax xStep (p # ps) i =
     (let x = sessionsXScale xStep i;
          y = sessionsYScale yMin yMax (p_sessions p)
      in el ''circle'' [(''cx'', ANum x), (''cy'', ANum y), (''r'', ANum (Fin 7)),
                        (''fill'', AStr BRAND_BLUE)] []
         # markers yMin yMax xStep ps (i + 1))"

definition sessionsMarks :: "jsnum \<Rightarrow> jsnum \<Rightarrow> jsnum \<Rightarrow> session_point list \<Rightarrow> node list" where
  "sessionsMarks yMin yMax xStep pts =
     (if pts \<noteq> [] then
        el ''path''
          [(''d'', AStr (lineLoop yMin yMax xStep pts 0 '''')), (''fill'', AStr ''none''),
           (''stroke'', AStr BRAND_BLUE), (''stroke-width'', ANum (Fin 8)),
           (''stroke-linecap'', AStr ''round''), (''stroke-linejoin'', AStr ''round'')] []
        # markers yMin yMax xStep pts 0
      else [])"

definition sessionsBackground :: node where
  "sessionsBackground =
     el ''rect'' [(''x'', ANum (Fin 0)), (''y'', ANum (Fin 0)), (''width'', ANum chartW),
                  (''height'', ANum chartH), (''fill'', AStr ''#fafbfd'')] []"

definition sessionsDrawing :: "jsnum \<Rightarrow> jsnum \<Rightarrow> jsnum \<Rightarrow> session_row list option \<Rightarrow> node option" where
  "sessionsDrawing yMin yMax yStep series =
     (let pts = sessionsData series;
          xStep = innerW sessionsMargin / Math_max [Fin 1, Fin (real (length pts)) - Fin 1];
          y0 = sessionsYScale yMin yMax yMin
      in case gridLoop (sessionsGridline yMin yMax) yMin yMax yStep [sessionsBackground] of
           None \<Rightarrow> None
         | Some grid \<Rightarrow>
             Some (el ''svg''
                     [(''viewBox'', AStr ''0 0 1000 680''), (''role'', AStr ''img''),
                      (''aria-label'', AStr ''Average sessions per course'')]
                     (grid @ axesLines sessionsMargin y0 @ sessionsXLabels xStep y0 pts 0
                      @ sessionsMarks yMin yMax xStep pts)))"

definition renderSessionsChart :: "session_row list option \<Rightarrow> node option" where
  "renderSessionsChart series =
     (let yMin = Fin 7.6;
          yMax = Fin 8.5;
          yStep = Fin 0.1
      in sessionsDrawing yMin yMax yStep series)"

text \<open>
  The single-line renderer as the specification words it: the range and the step of the
  vertical axis are supplied by the caller with the series.
\<close>

definition renderSessionsChart_spec ::
  "session_row list option \<Rightarrow> jsnum \<Rightarrow> jsnum \<Rightarrow> jsnum \<Rightarrow> node option" where
  "renderSessionsChart_spec series yMin yMax yStep = sessionsDrawing yMin yMax yStep series"

section \<open>Example inputs\<close>

text \<open>
  Collections the theorems below are evaluated on: one with no feature; one whose only
  ring is two coincident points; one with a region of three positions, two of them
  distinct; one whose positions differ in longitude alone.
\<close>

definition emptyGeo :: geojson where
  "emptyGeo = \<lparr>features = []\<rparr>"

definition pointRing :: "geometry option" where
  "pointRing = Some (Polygon (Some [Some [Some (Fin 0, Fin 0), Some (Fin 0, Fin 0)]]))"

definition pointGeo :: geojson where
  "pointGeo = \<lparr>features = [\<lparr>properties = None, geometry = pointRing\<rparr>]\<rparr>"

definition exampleRegion :: feature where
  "exampleRegion =
     \<lparr>properties = Some \<lparr>icb23cd = Some ''E54000008'', icb_name_short = Some ''North'',
                          icb23nm = None\<rparr>,
      geometry = Some (Polygon (Some [Some [Some (Fin 0, Fin 0), Some (Fin 90, Fin 45),
                                            Some (Fin 0, Fin 0)]]))\<rparr>"

definition exampleGeo :: geojson where
  "exampleGeo = \<lparr>features = [exampleRegion]\<rparr>"

text \<open>A collection whose only ring lies on the equator, between the longitudes 0 and 90.\<close>

definition equatorGeo :: geojson where
  "equatorGeo =
     \<lparr>features = [\<lparr>properties = None,
                    geometry = Some (Polygon (Some [Some [Some (Fin 0, Fin 0), Some (Fin 90, Fin 0)]]))\<rparr>]\<rparr>"

text \<open>A projection that moves the origin to the pixel \<open>(12, -3)\<close>.\<close>

definition shiftProjection :: projection where
  "shiftProjection = \<lparr>scale = Fin 1, tx = Fin 12, ty = Fin (- 3)\<rparr>"

text \<open>
  Geometries that are not as the data model has them: a polygon with no \<open>coordinates\<close>
  member, a multi-polygon one of whose polygons is \<open>null\<close>, and a polygon one of whose
  positions is \<open>null\<close>.
\<close>

definition missingCoordinates :: "geometry option" where
  "missingCoordinates = Some (Polygon None)"

definition nullPolygon :: "geometry option" where
  "nullPolygon = Some (MultiPolygon (Some [None]))"

definition nullPoint :: "geometry option" where
  "nullPoint = Some (Polygon (Some [Some [Some (Fin 0, Fin 0), None]]))"

text \<open>A collection of two regions: the example region, and one with no properties.\<close>

definition unnamedRegion :: feature where
  "unnamedRegion = \<lparr>properties = None, geometry = pointRing\<rparr>"

definition mapGeo :: geojson where
  "mapGeo = \<lparr>features = [exampleRegion, unnamedRegion]\<rparr>"

text \<open>
  Series for the grouped-bar renderer: one period with both values; one period whose
  referrals are zero and whose accessed value is \<open>null\<close>; one period whose referrals are
  absent.
\<close>

definition exampleSeries :: "referral_row list" where
  "exampleSeries = [\<lparr>year = ''2021'', referrals = Num (Fin 430000), accessed = Num (Fin 300000)\<rparr>]"

definition zeroSeries :: "referral_row list" where
  "zeroSeries = [\<lparr>year = ''2021'', referrals = Num (Fin 0), accessed = Null\<rparr>]"

definition missingSeries :: "referral_row list" where
  "missingSeries = [\<lparr>year = ''2021'', referrals = Undefined, accessed = Num (Fin 80)\<rparr>]"

section \<open>Properties of the coordinate projector\<close>

lemma mercator_argument_range:
  assumes "- 90 < lat" and "lat < (90::real)"
  shows "0 < pi / 4 + lat * pi / 180 / 2" and "pi / 4 + lat * pi / 180 / 2 < pi / 2"
proof -
  have 1: "lat * pi < 90 * pi" using assms by simp
  have 2: "- 90 * pi < lat * pi"
    using mult_strict_right_mono[OF assms(1) pi_gt_zero] by simp
  show "0 < pi / 4 + lat * pi / 180 / 2" using 2 by linarith
  show "pi / 4 + lat * pi / 180 / 2 < pi / 2" using 1 by linarith
qed

lemma mercator_tan_positive:
  assumes "- 90 < lat" and "lat < (90::real)"
  shows "0 < cos (pi / 4 + lat * pi / 180 / 2)" and "0 < tan (pi / 4 + lat * pi / 180 / 2)"
proof -
  let ?a = "pi / 4 + lat * pi / 180 / 2"
  have a: "0 < ?a" "?a < pi / 2" using mercator_argument_range[OF assms] by blast+
  have "- (pi / 2) < ?a" using a(1) pi_gt_zero by linarith
  then show "0 < cos ?a" using a(2) by (rule cos_gt_zero_pi)
  show "0 < tan ?a" using a by (rule tan_gt_zero)
qed

lemma mercatorProject_Fin:
  assumes "- 90 < lat" and "lat < 90"
  shows "mercatorProject (Fin lon) (Fin lat)
         = (Fin (lon * pi / 180), Fin (ln (tan (pi / 4 + lat * pi / 180 / 2))))"
  using mercator_tan_positive[OF assms]
  by (simp add: mercatorProject_def Math_PI_def Let_def)



section \<open>Properties of the bounds fitter\<close>

lemma ringsCoords_set:
  "ringsCoords rings = Inr pts \<Longrightarrow>
     (\<Union>pt \<in> set pts. set_option pt) = (\<Union>ring \<in> set rings. ringPoints ring)"
proof (induction rings arbitrary: pts)
  case Nil then show ?case by simp
next
  case (Cons r rings)
  then show ?case by (cases r) (auto split: sum.splits)
qed

lemma polysCoords_set:
  "polysCoords polys = Inr pts \<Longrightarrow>
     (\<Union>pt \<in> set pts. set_option pt) = (\<Union>poly \<in> set polys. ringsPoints poly)"
proof (induction polys arbitrary: pts)
  case Nil then show ?case by simp
next
  case (Cons p polys)
  show ?case
  proof (cases p)
    case None then show ?thesis using Cons.prems by simp
  next
    case (Some rings)
    obtain ps qs where ps: "ringsCoords rings = Inr ps" and qs: "polysCoords polys = Inr qs"
      and pts: "pts = ps @ qs"
      using Cons.prems by (auto simp: Some split: sum.splits)
    show ?thesis using ringsCoords_set[OF ps] Cons.IH[OF qs] by (simp add: pts Some)
  qed
qed

lemma walk_set:
  "walk v = Inr pts \<Longrightarrow> set pts = positions v"
  "walkItems vs = Inr pts \<Longrightarrow> set pts = positionsOfItems vs"
proof (induction v and vs arbitrary: pts and pts rule: walk_walkItems.induct)
qed (auto split: sum.splits)

lemma forEachCoord_set:
  "forEachCoord g = Inr pts \<Longrightarrow> (\<Union>pt \<in> set pts. set_option pt) = geometryPoints g"
proof (induction g rule: forEachCoord.induct)
  case (6 items)
  then obtain qs where q: "walk (JArr items) = Inr qs" and pts: "pts = map Some qs"
    by (auto split: sum.splits)
  show ?case using walk_set(1)[OF q] by (simp add: pts)
qed (auto simp: ringsCoords_set polysCoords_set)

lemma trackAll_foldl:
  "trackAll b pts = Inr b' \<Longrightarrow> \<exists>qs. pts = map Some qs \<and> b' = foldl track b qs"
proof (induction pts arbitrary: b)
  case Nil then show ?case by simp
next
  case (Cons pt pts)
  show ?case
  proof (cases pt)
    case None then show ?thesis using Cons.prems by simp
  next
    case (Some p)
    then have "trackAll (track b p) pts = Inr b'" using Cons.prems by simp
    then obtain qs where "pts = map Some qs" "b' = foldl track (track b p) qs"
      using Cons.IH by blast
    then show ?thesis by (intro exI[of _ "p # qs"]) (simp add: Some)
  qed
qed

lemma boxedI:
  assumes "b = \<lparr>minX = Fin x0, minY = Fin y0, maxX = Fin x1, maxY = Fin y1\<rparr>"
    and "x0 \<le> x1" and "y0 \<le> y1"
    and "\<And>p. p \<in> S \<Longrightarrow> \<exists>x y. mercatorProject (fst p) (snd p) = (Fin x, Fin y) \<and>
                 x0 \<le> x \<and> x \<le> x1 \<and> y0 \<le> y \<and> y \<le> y1"
  shows "boxed b S"
  using assms unfolding boxed_def by blast

lemma mercator_valid:
  assumes "validCoord p"
  shows "\<exists>x y. mercatorProject (fst p) (snd p) = (Fin x, Fin y)"
proof -
  obtain lon lat where p: "p = (Fin lon, Fin lat)" and r: "- 90 < lat" "lat < 90"
    using assms by (cases p rule: validCoord.cases) auto
  show ?thesis unfolding p fst_conv snd_conv using mercatorProject_Fin[OF r, of lon] by blast
qed

lemma track_initial:
  assumes "validCoord p"
  shows "boxed (track initialBounds p) {p}"
proof -
  obtain x y where m: "mercatorProject (fst p) (snd p) = (Fin x, Fin y)"
    using mercator_valid[OF assms] by blast
  have "track initialBounds p = \<lparr>minX = Fin x, minY = Fin y, maxX = Fin x, maxY = Fin y\<rparr>"
    using m by (cases p) (simp add: track_def initialBounds_def Let_def)
  then show ?thesis using m by (simp add: boxed_def)
qed

lemma track_boxed:
  assumes "boxed b S" and "validCoord p"
  shows "boxed (track b p) (insert p S)"
proof -
  obtain x y where m: "mercatorProject (fst p) (snd p) = (Fin x, Fin y)"
    using mercator_valid[OF assms(2)] by blast
  obtain x0 y0 x1 y1 where b: "b = \<lparr>minX = Fin x0, minY = Fin y0, maxX = Fin x1, maxY = Fin y1\<rparr>"
    and le: "x0 \<le> x1" "y0 \<le> y1"
    and S: "\<forall>q\<in>S. \<exists>x y. mercatorProject (fst q) (snd q) = (Fin x, Fin y) \<and>
                 x0 \<le> x \<and> x \<le> x1 \<and> y0 \<le> y \<and> y \<le> y1"
    using assms(1) unfolding boxed_def by blast
  have t: "track b p = \<lparr>minX = Fin (min x x0), minY = Fin (min y y0),
                         maxX = Fin (max x x1), maxY = Fin (max y y1)\<rparr>"
    using m by (cases p) (auto simp: track_def b Let_def min_def max_def)
  show ?thesis
  proof (rule boxedI[OF t])
    show "min x x0 \<le> max x x1" using le by simp
    show "min y y0 \<le> max y y1" using le by simp
  next
    fix q assume "q \<in> insert p S"
    then consider "q = p" | "q \<in> S" by blast
    then show "\<exists>xa ya. mercatorProject (fst q) (snd q) = (Fin xa, Fin ya) \<and>
                 min x x0 \<le> xa \<and> xa \<le> max x x1 \<and> min y y0 \<le> ya \<and> ya \<le> max y y1"
    proof cases
      case 1 then show ?thesis using m by simp
    next
      case 2
      then obtain xa ya where "mercatorProject (fst q) (snd q) = (Fin xa, Fin ya)"
        "x0 \<le> xa" "xa \<le> x1" "y0 \<le> ya" "ya \<le> y1" using S by blast
      then show ?thesis by (intro exI[of _ xa] exI[of _ ya]) auto
    qed
  qed
qed

lemma foldl_track_boxed:
  assumes "boxed b S" and "\<forall>p\<in>set ps. validCoord p"
  shows "boxed (foldl track b ps) (S \<union> set ps)"
  using assms
proof (induction ps arbitrary: b S)
  case Nil then show ?case by simp
next
  case (Cons p ps)
  have "boxed (foldl track (track b p) ps) (insert p S \<union> set ps)"
    using Cons.IH[OF track_boxed[OF Cons.prems(1)]] Cons.prems(2) by simp
  then show ?case by simp
qed

lemma foldl_track_initial:
  assumes "ps \<noteq> []" and "\<forall>p\<in>set ps. validCoord p"
  shows "boxed (foldl track initialBounds ps) (set ps)"
proof -
  obtain p qs where ps: "ps = p # qs" using assms(1) by (cases ps) auto
  have "boxed (foldl track (track initialBounds p) qs) ({p} \<union> set qs)"
    using foldl_track_boxed[OF track_initial] assms(2) by (simp add: ps)
  then show ?thesis by (simp add: ps)
qed

lemma scanFeatures_foldl:
  "scanFeatures feats b = Inr b' \<Longrightarrow>
     \<exists>pts. b' = foldl track b pts \<and> set pts = (\<Union>feat \<in> set feats. geometryPoints (geometry feat))"
proof (induction feats arbitrary: b)
  case Nil then show ?case by (intro exI[of _ "[]"]) simp
next
  case (Cons f feats)
  from Cons.prems obtain as b1 where f: "forEachCoord (geometry f) = Inr as"
    and t: "trackAll b as = Inr b1" and r: "scanFeatures feats b1 = Inr b'"
    by (auto split: sum.splits)
  obtain ps where ps: "as = map Some ps" "b1 = foldl track b ps"
    using trackAll_foldl[OF t] by blast
  from Cons.IH[OF r] obtain qs where q: "b' = foldl track b1 qs"
    "set qs = (\<Union>feat \<in> set feats. geometryPoints (geometry feat))" by blast
  have "set ps = geometryPoints (geometry f)"
    using forEachCoord_set[OF f] by (simp add: ps(1))
  then show ?case using q ps(2) by (intro exI[of _ "ps @ qs"]) auto
qed

lemma scan_initial_cases:
  assumes "scanFeatures (features geo) initialBounds = Inr b"
    and "\<forall>p\<in>geoPoints geo. validCoord p"
  shows "(geoPoints geo = {} \<and> b = initialBounds) \<or> (geoPoints geo \<noteq> {} \<and> boxed b (geoPoints geo))"
proof -
  obtain pts where pts: "b = foldl track initialBounds pts" "set pts = geoPoints geo"
    using scanFeatures_foldl[OF assms(1)] unfolding geoPoints_def by blast
  show ?thesis
  proof (cases "pts = []")
    case True then show ?thesis using pts by auto
  next
    case False
    then have "boxed b (geoPoints geo)"
      using foldl_track_initial[of pts] assms(2) pts by auto
    moreover have "geoPoints geo \<noteq> {}" using False pts(2) by auto
    ultimately show ?thesis by simp
  qed
qed

lemma plus_NaN_right: "a + NaN = (NaN::jsnum)"
  by (cases a) simp_all

lemma NaN_arith:
  "a - NaN = (NaN::jsnum)" "NaN - a = (NaN::jsnum)" "NaN + a = (NaN::jsnum)" "NaN / a = (NaN::jsnum)"
  by (cases a; simp add: minus_jsnum_def)+

lemma project_Fin:
  assumes "mercatorProject (fst p) (snd p) = (Fin x, Fin y)"
  shows "project \<lparr>scale = Fin s, tx = Fin t, ty = Fin u\<rparr> p = (Fin (x * s + t), Fin (- y * s + u))"
  using assms by (cases p) (simp add: project_def Let_def)

lemma buildGeoProjection_scan:
  "scanFeatures (features geo) initialBounds = Inr b \<Longrightarrow>
     buildGeoProjection geo W H = Inr (fitBounds b W H)"
  by (simp add: buildGeoProjection_def)

lemma mapCoord_valid: "mapCoord p \<Longrightarrow> validCoord p"
  by (cases p rule: mapCoord.cases) auto

lemma mercator_origin: "mercatorProject (Fin 0) (Fin 0) = (Fin 0, Fin 0)"
  using mercatorProject_Fin[of 0 0] by (simp add: tan_45)

lemma tan_three_eighths: "1 < tan (3 * pi / 8)"
proof -
  have "tan (pi / 4) < tan (3 * pi / 8)"
    by (rule tan_monotone) (use pi_gt_zero in linarith)+
  then show ?thesis by (simp add: tan_45)
qed

lemma mercator_example: "mercatorProject (Fin 90) (Fin 45) = (Fin (pi / 2), Fin (ln (tan (3 * pi / 8))))"
proof -
  have "pi / 4 + 45 * pi / 180 / 2 = 3 * pi / 8" by simp
  then show ?thesis using mercatorProject_Fin[of 45 90] by simp
qed

lemma mercator_equator: "mercatorProject (Fin 90) (Fin 0) = (Fin (pi / 2), Fin 0)"
  using mercatorProject_Fin[of 0 90] by (simp add: tan_45)

lemma example_scan:
  "scanFeatures (features exampleGeo) initialBounds
     = Inr \<lparr>minX = Fin 0, minY = Fin 0, maxX = Fin (pi / 2), maxY = Fin (ln (tan (3 * pi / 8)))\<rparr>"
  using tan_three_eighths
  by (simp add: exampleGeo_def exampleRegion_def initialBounds_def track_def Let_def
      mercator_origin mercator_example)

lemma equator_scan:
  "scanFeatures (features equatorGeo) initialBounds
     = Inr \<lparr>minX = Fin 0, minY = Fin 0, maxX = Fin (pi / 2), maxY = Fin 0\<rparr>"
  by (simp add: equatorGeo_def initialBounds_def track_def Let_def mercator_origin mercator_equator)

lemma point_scan:
  "scanFeatures (features pointGeo) initialBounds
     = Inr \<lparr>minX = Fin 0, minY = Fin 0, maxX = Fin 0, maxY = Fin 0\<rparr>"
  by (simp add: pointGeo_def pointRing_def initialBounds_def track_def Let_def mercator_origin)

lemma fitBounds_initial:
  assumes "0 < W" and "0 < H"
  shows "fitBounds initialBounds (Fin W) (Fin H) = \<lparr>scale = Fin 0, tx = NaN, ty = NaN\<rparr>"
  using assms by (simp add: fitBounds_def initialBounds_def minus_jsnum_def Math_min_def Let_def)

lemma fitBounds_coincident:
  assumes "0 < W" and "0 < H"
  shows "fitBounds \<lparr>minX = Fin x0, minY = Fin y0, maxX = Fin x0, maxY = Fin y0\<rparr> (Fin W) (Fin H)
         = \<lparr>scale = PInf, tx = NaN, ty = NaN\<rparr>"
  using assms by (simp add: fitBounds_def minus_jsnum_def Math_min_def Let_def)

lemma fitBounds_one_extent:
  assumes "x0 \<le> x1" and "y0 \<le> y1" and "x0 < x1 \<or> y0 < y1" and "0 < W" and "0 < H"
  shows "\<exists>s t u. fitBounds \<lparr>minX = Fin x0, minY = Fin y0, maxX = Fin x1, maxY = Fin y1\<rparr> (Fin W) (Fin H)
         = \<lparr>scale = Fin s, tx = Fin t, ty = Fin u\<rparr>"
  using assms by (auto simp: fitBounds_def minus_jsnum_def Math_min_def Let_def)

lemma project_NaN:
  "project \<lparr>scale = s, tx = NaN, ty = NaN\<rparr> q = (NaN, NaN)"
  by (cases q) (simp add: project_def Let_def plus_NaN_right split: prod.splits)

lemma Fin_le: "Fin a \<le> Fin b \<longleftrightarrow> a \<le> b"
  by (auto simp: less_eq_jsnum_def)

text \<open>
  C2, as amended. The fitter substitutes no minimum extent, on the 1000 by 680 canvas.
  When the collection has no position, and when its positions are valid and \<open>dx\<close> and
  \<open>dy\<close> are both zero (all projected points coincide), both translations are \<open>NaN\<close>
  and the projection returns \<open>(NaN, NaN)\<close> for every input. When the collection has a
  position, every position has a longitude between -180 and 180 and a latitude between
  -89 and 89, and at least one of the extents \<open>dx\<close> and \<open>dy\<close> is \<open>10^-6\<close> or more,
  the scale and both translations are finite and every position of the collection maps to
  finite pixel coordinates (an extent of zero in one axis alone is harmless, \<open>Math.min\<close>
  takes the ratio of the other axis). The bounds of the second case keep the scale below
  \<open>10^9\<close> and the translations below \<open>10^10\<close>, far from the overflow of binary64.
\<close>

theorem fitBounds_degenerate:
  assumes "scanFeatures (features geo) initialBounds = Inr b"
  shows "\<exists>pr. buildGeoProjection geo (Fin 1000) (Fin 680) = Inr pr \<and>
      (geoPoints geo = {} \<or>
       ((\<forall>p\<in>geoPoints geo. validCoord p) \<and> maxX b - minX b = Fin 0 \<and> maxY b - minY b = Fin 0)
         \<longrightarrow> tx pr = NaN \<and> ty pr = NaN \<and> (\<forall>q. project pr q = (NaN, NaN))) \<and>
      (geoPoints geo \<noteq> {} \<and> (\<forall>p\<in>geoPoints geo. mapCoord p) \<and>
       (Fin (1 / 10 ^ 6) \<le> maxX b - minX b \<or> Fin (1 / 10 ^ 6) \<le> maxY b - minY b)
         \<longrightarrow> isFinite (scale pr) \<and> isFinite (tx pr) \<and> isFinite (ty pr) \<and>
             (\<forall>p\<in>geoPoints geo. isFinite (fst (project pr p)) \<and> isFinite (snd (project pr p))))"
proof -
  let ?pr = "fitBounds b (Fin 1000) (Fin 680)"
  have build: "buildGeoProjection geo (Fin 1000) (Fin 680) = Inr ?pr"
    by (rule buildGeoProjection_scan[OF assms(1)])
  have none: "tx ?pr = NaN \<and> ty ?pr = NaN \<and> (\<forall>q. project ?pr q = (NaN, NaN))"
    if e: "geoPoints geo = {}"
  proof -
    obtain pts where pts: "b = foldl track initialBounds pts" "set pts = geoPoints geo"
      using scanFeatures_foldl[OF assms(1)] unfolding geoPoints_def by blast
    have "b = initialBounds" using pts e by simp
    then have "?pr = \<lparr>scale = Fin 0, tx = NaN, ty = NaN\<rparr>"
      using fitBounds_initial[of 1000 680] by simp
    then show ?thesis by (simp add: project_NaN)
  qed
  have coincide: "tx ?pr = NaN \<and> ty ?pr = NaN \<and> (\<forall>q. project ?pr q = (NaN, NaN))"
    if z: "maxX b - minX b = Fin 0" "maxY b - minY b = Fin 0"
  proof -
    have "?pr = \<lparr>scale = PInf, tx = NaN, ty = NaN\<rparr>"
      using z by (simp add: fitBounds_def Let_def Math_min_def NaN_arith plus_NaN_right)
    then show ?thesis by (simp add: project_NaN)
  qed
  have finite: "isFinite (scale ?pr) \<and> isFinite (tx ?pr) \<and> isFinite (ty ?pr) \<and>
             (\<forall>p\<in>geoPoints geo. isFinite (fst (project ?pr p)) \<and> isFinite (snd (project ?pr p)))"
    if ne: "geoPoints geo \<noteq> {}" and mc: "\<forall>p\<in>geoPoints geo. mapCoord p"
      and ext: "Fin (1 / 10 ^ 6) \<le> maxX b - minX b \<or> Fin (1 / 10 ^ 6) \<le> maxY b - minY b"
  proof -
    have v: "\<forall>p\<in>geoPoints geo. validCoord p" using mc mapCoord_valid by blast
    have "boxed b (geoPoints geo)" using scan_initial_cases[OF assms(1) v] ne by blast
    then obtain x0 y0 x1 y1 where b: "b = \<lparr>minX = Fin x0, minY = Fin y0, maxX = Fin x1, maxY = Fin y1\<rparr>"
      and le: "x0 \<le> x1" "y0 \<le> y1"
      and S: "\<forall>q\<in>geoPoints geo. \<exists>x y. mercatorProject (fst q) (snd q) = (Fin x, Fin y) \<and>
                 x0 \<le> x \<and> x \<le> x1 \<and> y0 \<le> y \<and> y \<le> y1"
      unfolding boxed_def by blast
    have "x0 < x1 \<or> y0 < y1" using ext by (auto simp: b minus_jsnum_def Fin_le)
    then obtain s t u where f: "?pr = \<lparr>scale = Fin s, tx = Fin t, ty = Fin u\<rparr>"
      using fitBounds_one_extent[OF le, of 1000 680] unfolding b by auto
    have "isFinite (fst (project ?pr p)) \<and> isFinite (snd (project ?pr p))"
      if mem: "p \<in> geoPoints geo" for p
    proof -
      obtain x y where "mercatorProject (fst p) (snd p) = (Fin x, Fin y)" using S mem by blast
      then show ?thesis unfolding f by (simp add: project_Fin)
    qed
    then show ?thesis using f by simp
  qed
  show ?thesis using build none coincide finite by blast
qed

text \<open>
  The claim C2 as stated fails on the collection with no feature (the scale is 0 and the
  translations are \<open>NaN\<close>) and on the collection whose only ring is two coincident
  points (the scale is \<open>Infinity\<close>, the translations are \<open>NaN\<close>, and the point
  itself is drawn at \<open>(NaN, NaN)\<close>).
\<close>

theorem fitBounds_degenerate_counterexample:
  "buildGeoProjection emptyGeo (Fin 1000) (Fin 680) = Inr \<lparr>scale = Fin 0, tx = NaN, ty = NaN\<rparr>
   \<and> buildGeoProjection pointGeo (Fin 1000) (Fin 680) = Inr \<lparr>scale = PInf, tx = NaN, ty = NaN\<rparr>
   \<and> project \<lparr>scale = PInf, tx = NaN, ty = NaN\<rparr> (Fin 0, Fin 0) = (NaN, NaN)
   \<and> \<not> isFinite (scale \<lparr>scale = PInf, tx = NaN, ty = NaN\<rparr>)
   \<and> \<not> isFinite (tx \<lparr>scale = Fin 0, tx = NaN, ty = NaN\<rparr>)"
proof -
  have 1: "buildGeoProjection emptyGeo (Fin 1000) (Fin 680) = Inr \<lparr>scale = Fin 0, tx = NaN, ty = NaN\<rparr>"
    using fitBounds_initial[of 1000 680] by (simp add: buildGeoProjection_def emptyGeo_def)
  have 2: "buildGeoProjection pointGeo (Fin 1000) (Fin 680) = Inr \<lparr>scale = PInf, tx = NaN, ty = NaN\<rparr>"
    using fitBounds_coincident[of 1000 680 0 0] by (simp add: buildGeoProjection_def point_scan)
  show ?thesis using 1 2 by (simp add: project_NaN)
qed

theorem fitBounds_degenerate_witness:
  "geoPoints equatorGeo = {(Fin 0, Fin 0), (Fin 90, Fin 0)}
   \<and> mapCoord (Fin 0, Fin 0) \<and> mapCoord (Fin 90, Fin 0)
   \<and> scanFeatures (features equatorGeo) initialBounds
       = Inr \<lparr>minX = Fin 0, minY = Fin 0, maxX = Fin (pi / 2), maxY = Fin 0\<rparr>
   \<and> Fin (1 / 10 ^ 6) \<le> Fin (pi / 2) - Fin 0
   \<and> (\<exists>pr. buildGeoProjection equatorGeo (Fin 1000) (Fin 680) = Inr pr \<and>
      isFinite (scale pr) \<and> isFinite (tx pr) \<and> isFinite (ty pr) \<and>
      isFinite (fst (project pr (Fin 90, Fin 0))) \<and> isFinite (snd (project pr (Fin 90, Fin 0))))
   \<and> geoPoints pointGeo = {(Fin 0, Fin 0)} \<and> validCoord (Fin 0, Fin 0)
   \<and> (\<exists>pr. buildGeoProjection pointGeo (Fin 1000) (Fin 680) = Inr pr \<and>
      tx pr = NaN \<and> ty pr = NaN \<and> project pr (Fin 0, Fin 0) = (NaN, NaN))
   \<and> geoPoints emptyGeo = {}
   \<and> (\<exists>pr. buildGeoProjection emptyGeo (Fin 1000) (Fin 680) = Inr pr \<and>
      tx pr = NaN \<and> ty pr = NaN \<and> project pr (Fin 0, Fin 0) = (NaN, NaN))"
proof -
  have g: "geoPoints equatorGeo = {(Fin 0, Fin 0), (Fin 90, Fin 0)}"
    by (auto simp: geoPoints_def equatorGeo_def)
  have m: "\<forall>p\<in>geoPoints equatorGeo. mapCoord p" by (simp add: g)
  have "(1::real) / 10 ^ 6 \<le> pi / 2" using pi_ge_two by simp
  then have e: "Fin (1 / 10 ^ 6) \<le> Fin (pi / 2) - Fin 0" by (simp add: minus_jsnum_def Fin_le)
  have 1: "\<exists>pr. buildGeoProjection equatorGeo (Fin 1000) (Fin 680) = Inr pr \<and>
      isFinite (scale pr) \<and> isFinite (tx pr) \<and> isFinite (ty pr) \<and>
      isFinite (fst (project pr (Fin 90, Fin 0))) \<and> isFinite (snd (project pr (Fin 90, Fin 0)))"
    using fitBounds_degenerate[OF equator_scan] m e by (auto simp: g)
  have gp: "geoPoints pointGeo = {(Fin 0, Fin 0)}"
    by (auto simp: geoPoints_def pointGeo_def pointRing_def)
  have vp: "\<forall>p\<in>geoPoints pointGeo. validCoord p" by (simp add: gp)
  have 2: "\<exists>pr. buildGeoProjection pointGeo (Fin 1000) (Fin 680) = Inr pr \<and>
      tx pr = NaN \<and> ty pr = NaN \<and> project pr (Fin 0, Fin 0) = (NaN, NaN)"
    using fitBounds_degenerate[OF point_scan] vp by (auto simp: minus_jsnum_def)
  have ge: "geoPoints emptyGeo = {}" by (simp add: geoPoints_def emptyGeo_def)
  have se: "scanFeatures (features emptyGeo) initialBounds = Inr initialBounds"
    by (simp add: emptyGeo_def)
  have 3: "\<exists>pr. buildGeoProjection emptyGeo (Fin 1000) (Fin 680) = Inr pr \<and>
      tx pr = NaN \<and> ty pr = NaN \<and> project pr (Fin 0, Fin 0) = (NaN, NaN)"
    using fitBounds_degenerate[OF se] ge by auto
  show ?thesis using g equator_scan e 1 gp 2 ge 3 by simp
qed

section \<open>Properties of the geometry-to-path compiler\<close>

declare digits.simps [simp del]

lemma digit_char_isDigit: "d < 10 \<Longrightarrow> isDigit (digit_char d)"
proof -
  assume "d < 10"
  then have "d \<in> {0,1,2,3,4,5,6,7,8,9}" by auto
  then show ?thesis by (auto simp: isDigit_def digit_char_def)
qed

lemma digits_nonempty: "digits n \<noteq> []"
  by (subst digits.simps) simp

lemma digits_isDigit: "list_all isDigit (digits n)"
proof (induction n rule: digits.induct)
  case (1 n)
  show ?case
  proof (cases "n < 10")
    case True
    then show ?thesis by (subst digits.simps) (simp add: digit_char_isDigit)
  next
    case False
    then show ?thesis using 1 by (subst digits.simps) (simp add: digit_char_isDigit)
  qed
qed

lemma twoDecimals_shape:
  assumes "list_all isDigit a" and "a \<noteq> []" and "isDigit x" and "isDigit y"
  shows "twoDecimals (a @ ''.'' @ [x, y])" and "twoDecimals (''-'' @ a @ ''.'' @ [x, y])"
proof -
  let ?body = "a @ ''.'' @ [x, y]"
  obtain c cs where a: "a = c # cs" using assms(2) by (cases a) auto
  have c: "c \<noteq> CHR ''-''" using assms(1) by (auto simp: a isDigit_def)
  have len: "length ?body = length a + 3" by simp
  have core: "4 \<le> length ?body \<and> list_all isDigit (take (length ?body - 3) ?body)
      \<and> ?body ! (length ?body - 3) = CHR ''.''
      \<and> isDigit (?body ! (length ?body - 2)) \<and> isDigit (?body ! (length ?body - 1))"
    unfolding len using assms by (cases a) (simp_all add: nth_append)
  have b: "?body = c # (cs @ ''.'' @ [x, y])" by (simp add: a)
  show "twoDecimals ?body"
    unfolding twoDecimals_def Let_def using core unfolding b using c by simp
  show "twoDecimals (''-'' @ ?body)"
    unfolding twoDecimals_def Let_def using core by simp
qed

lemma last_two:
  assumes "3 \<le> length m"
  shows "\<exists>x y. drop (length m - 2) m = [x, y] \<and> x \<in> set m \<and> y \<in> set m"
proof -
  have "length (drop (length m - 2) m) = 2" using assms by simp
  then obtain x y where d: "drop (length m - 2) m = [x, y]"
    by (cases "drop (length m - 2) m"; cases "tl (drop (length m - 2) m)") auto
  have "set (drop (length m - 2) m) \<subseteq> set m" by (rule set_drop_subset)
  then show ?thesis using d by auto
qed

lemma toFixed_twoDecimals:
  assumes "\<bar>r\<bar> < 10 ^ 21"
  shows "twoDecimals (toFixed 2 (Fin r))"
proof -
  define n where "n = nat \<lfloor>\<bar>r\<bar> * 10 ^ 2 + 1 / 2\<rfloor>"
  define m where "m = (if length (digits n) \<le> 2
                       then replicate (2 + 1 - length (digits n)) (CHR ''0'') @ digits n
                       else digits n)"
  have z: "isDigit (CHR ''0'')" by (simp add: isDigit_def)
  have all: "\<forall>c\<in>set m. isDigit c"
    using digits_isDigit[of n] z by (auto simp: m_def list_all_iff)
  have len: "3 \<le> length m" by (auto simp: m_def)
  obtain x y where d: "drop (length m - 2) m = [x, y]" and xy: "x \<in> set m" "y \<in> set m"
    using last_two[OF len] by blast
  have a: "list_all isDigit (take (length m - 2) m)" "take (length m - 2) m \<noteq> []"
    using all len by (auto simp: list_all_iff dest: in_set_takeD)
  have eq: "toFixed 2 (Fin r)
      = (if r < 0 then ''-'' else '''') @ take (length m - 2) m @ ''.'' @ drop (length m - 2) m"
    using assms by (simp add: Let_def m_def n_def)
  show ?thesis
    unfolding eq d using twoDecimals_shape[OF a, of x y] all xy by (cases "r < 0") simp_all
qed

lemma ringLoop_tail:
  "i \<noteq> 0 \<Longrightarrow> ringLoop (returning f) (map Some pts) i d
                = Inr (d @ concat (map (\<lambda>q. ''L'' @ pointText f q) pts))"
proof (induction pts arbitrary: i d)
  case Nil then show ?case by simp
next
  case (Cons p pts)
  have "ringLoop (returning f) (map Some (p # pts)) i d
        = ringLoop (returning f) (map Some pts) (i + 1) (d @ ''L'' @ pointText f p)"
    using Cons.prems by (cases p) (simp add: pointText_def returning_def split: prod.splits)
  then show ?case using Cons.IH[of "i + 1"] by simp
qed

lemma ringToPath_commands:
  "ringToPath (returning f) (Some (map Some (p # pts)))
     = Inr (''M'' @ pointText f p @ concat (map (\<lambda>q. ''L'' @ pointText f q) pts) @ ''Z'')"
proof -
  have "ringLoop (returning f) (map Some (p # pts)) 0 ''''
          = ringLoop (returning f) (map Some pts) 1 (''M'' @ pointText f p)"
    by (cases p) (simp add: pointText_def returning_def split: prod.splits)
  then show ?thesis using ringLoop_tail[of 1 f pts] by simp
qed

lemma Array_map_join_returns:
  "map g xs = map Inr ss \<Longrightarrow> Array_map_join g xs = Inr (concat ss)"
proof (induction xs arbitrary: ss)
  case Nil then show ?case by simp
next
  case (Cons x xs)
  then obtain s ts where "ss = s # ts" "g x = Inr s" "map g xs = map Inr ts" by (cases ss) auto
  then show ?case using Cons.IH[of ts] by simp
qed

lemma Array_map_join_append:
  "Array_map_join g (xs @ ys) =
     (case Array_map_join g xs of
        Inl e \<Rightarrow> Inl e
      | Inr s \<Rightarrow> (case Array_map_join g ys of Inl e \<Rightarrow> Inl e | Inr t \<Rightarrow> Inr (s @ t)))"
  by (induction xs) (auto split: sum.splits)

lemma Array_map_join_skip:
  "g x = Inr '''' \<Longrightarrow> Array_map_join g (xs @ [x] @ ys) = Array_map_join g (xs @ ys)"
  by (simp add: Array_map_join_append split: sum.splits)

lemma Array_map_join_same:
  assumes "g x = g y"
  shows "Array_map_join g (xs @ [x] @ ys) = Array_map_join g (xs @ [y] @ ys)"
proof -
  have "Array_map_join g (x # ys) = Array_map_join g (y # ys)" using assms by simp
  then show ?thesis
    by (simp add: Array_map_join_append del: Array_map_join.simps cong: sum.case_cong)
qed

lemma Array_map_join_isl: "isl (Array_map_join g xs) = list_ex (\<lambda>x. isl (g x)) xs"
  by (induction xs) (auto split: sum.splits simp: isl_def)

lemma Array_map_join_error:
  "Array_map_join g xs = Inl e \<Longrightarrow> \<exists>x\<in>set xs. g x = Inl e"
  by (induction xs) (auto split: sum.splits)

lemma ringLoop_isl: "isl (ringLoop proj pts i d) = list_ex (pointThrows proj) pts"
proof (induction pts arbitrary: i d)
  case Nil then show ?case by simp
next
  case (Cons pt pts)
  show ?case
  proof (cases pt)
    case None then show ?thesis by (simp add: pointThrows_def)
  next
    case (Some p)
    obtain lon lat where p: "p = (lon, lat)" by (cases p)
    show ?thesis
    proof (cases "proj (lon, lat)")
      case (Inl e) then show ?thesis by (simp add: Some p pointThrows_def)
    next
      case (Inr q)
      then show ?thesis using Cons.IH by (cases q) (simp add: Some p pointThrows_def)
    qed
  qed
qed

lemma ringToPath_isl: "isl (ringToPath proj ring) = ringThrows proj ring"
proof (cases ring)
  case None then show ?thesis by (simp add: ringThrows_def)
next
  case (Some pts)
  show ?thesis
  proof (cases pts)
    case Nil then show ?thesis by (simp add: Some ringThrows_def)
  next
    case (Cons a as)
    have "isl (ringToPath proj (Some (a # as))) = isl (ringLoop proj (a # as) 0 '''')"
      by (simp split: sum.splits)
    then show ?thesis using ringLoop_isl[of proj "a # as" 0 "''''"] by (simp add: Some Cons ringThrows_def)
  qed
qed

lemma ringsToPath_isl:
  "isl (case rings of None \<Rightarrow> Inl TypeError | Some rs \<Rightarrow> Array_map_join (ringToPath proj) rs)
     = ringsThrow proj rings"
  by (cases rings) (simp_all add: ringsThrow_def Array_map_join_isl ringToPath_isl)

lemma geomToPath_isl: "isl (geomToPath geom proj) = geomThrows geom proj"
proof (cases geom)
  case None then show ?thesis by simp
next
  case (Some g)
  show ?thesis
  proof (cases g)
    case (Polygon coords)
    then show ?thesis using ringsToPath_isl[where rings=coords and proj=proj] by (cases coords) (simp_all add: Some)
  next
    case (MultiPolygon coords)
    then show ?thesis
      by (cases coords) (simp_all add: Some Array_map_join_isl ringsToPath_isl)
  next
    case (OtherGeom c) then show ?thesis by (simp add: Some)
  qed
qed

lemma ringLoop_TypeError: "ringLoop (returning f) pts i d = Inl e \<Longrightarrow> e = TypeError"
proof (induction pts arbitrary: i d)
  case Nil then show ?case by simp
next
  case (Cons pt pts)
  show ?case
  proof (cases pt)
    case None then show ?thesis using Cons.prems by simp
  next
    case (Some p)
    then show ?thesis using Cons by (cases p) (auto simp: returning_def split: prod.splits)
  qed
qed

lemma ringToPath_TypeError:
  assumes "ringToPath (returning f) ring = Inl e"
  shows "e = TypeError"
proof (cases ring)
  case None then show ?thesis using assms by simp
next
  case (Some pts)
  show ?thesis
  proof (cases pts)
    case Nil then show ?thesis using assms by (simp add: Some)
  next
    case (Cons b bs)
    then show ?thesis using assms ringLoop_TypeError[of f "b # bs" 0 "''''" e]
      by (auto simp: Some split: sum.splits)
  qed
qed

lemma ringsToPath_TypeError:
  assumes "(case rings of None \<Rightarrow> Inl TypeError
            | Some rs \<Rightarrow> Array_map_join (ringToPath (returning f)) rs) = Inl e"
  shows "e = TypeError"
proof (cases rings)
  case None then show ?thesis using assms by simp
next
  case (Some rs)
  then obtain r where "ringToPath (returning f) r = Inl e"
    using assms Array_map_join_error[of "ringToPath (returning f)" rs e] by auto
  then show ?thesis by (rule ringToPath_TypeError)
qed

lemma geomToPath_TypeError:
  assumes "geomToPath geom (returning f) = Inl e"
  shows "e = TypeError"
proof (cases geom)
  case None then show ?thesis using assms by simp
next
  case (Some g)
  show ?thesis
  proof (cases g)
    case (Polygon coords)
    then show ?thesis using assms ringsToPath_TypeError[where rings=coords and f=f and e=e]
      by (cases coords) (simp_all add: Some)
  next
    case (MultiPolygon coords)
    show ?thesis
    proof (cases coords)
      case None then show ?thesis using assms by (simp add: Some MultiPolygon)
    next
      case inner: (Some polys)
      then obtain poly where
        "(case poly of None \<Rightarrow> Inl TypeError
          | Some rings \<Rightarrow> Array_map_join (ringToPath (returning f)) rings) = Inl e"
        using assms Array_map_join_error[of _ polys e] by (auto simp: Some MultiPolygon)
      then show ?thesis by (rule ringsToPath_TypeError)
    qed
  next
    case (OtherGeom c) then show ?thesis using assms by (simp add: Some)
  qed
qed

text \<open>
  C6, as amended. Under a projection function that returns for every position, a ring
  with a first point, all of whose positions are present, compiles to \<open>M\<close> and the text
  of the first projected point, then \<open>L\<close> and the text of each later projected point in
  order, then \<open>Z\<close>. A polygon compiles to \<open>Array_map_join\<close> of its rings' paths and
  a multi-polygon to \<open>Array_map_join\<close> of its polygons' paths, which is their
  concatenation in order when every one of them compiles to a string. The text of a point
  is \<open>toFixed(2)\<close> of its two pixel coordinates with a space between them. A coordinate
  that is a finite number below \<open>10^21\<close> in magnitude is written with exactly two
  decimal places; \<open>NaN\<close> and the infinities are written as the words \<open>NaN\<close>,
  \<open>Infinity\<close> and \<open>-Infinity\<close>.
\<close>

theorem geomToPath_commands:
  "ringToPath (returning f) (Some (map Some (p # pts)))
     = Inr (''M'' @ pointText f p @ concat (map (\<lambda>q. ''L'' @ pointText f q) pts) @ ''Z'')
   \<and> geomToPath (Some (Polygon (Some rings))) proj = Array_map_join (ringToPath proj) rings
   \<and> geomToPath (Some (MultiPolygon (Some polys))) proj
       = Array_map_join (\<lambda>poly. geomToPath (Some (Polygon poly)) proj) polys
   \<and> (map g xs = map Inr ss \<longrightarrow> Array_map_join g xs = Inr (concat ss))
   \<and> pointText f q = toFixed 2 (fst (f q)) @ '' '' @ toFixed 2 (snd (f q))
   \<and> (\<bar>r\<bar> < 10 ^ 21 \<longrightarrow> twoDecimals (toFixed 2 (Fin r)))
   \<and> toFixed 2 NaN = ''NaN'' \<and> toFixed 2 PInf = ''Infinity'' \<and> toFixed 2 NInf = ''-Infinity''"
proof -
  have "(\<lambda>poly. case poly of None \<Rightarrow> Inl TypeError
                | Some rings \<Rightarrow> Array_map_join (ringToPath proj) rings)
        = (\<lambda>poly. geomToPath (Some (Polygon poly)) proj)"
    by (rule ext) (simp split: option.splits)
  then have "geomToPath (Some (MultiPolygon (Some polys))) proj
       = Array_map_join (\<lambda>poly. geomToPath (Some (Polygon poly)) proj) polys"
    by simp
  then show ?thesis
    using ringToPath_commands[of f p pts] toFixed_twoDecimals[of r] Array_map_join_returns[of g xs ss]
    by (simp add: pointText_def)
qed

lemma digits_1200: "digits 1200 = ''1200''"
  by (simp add: digits.simps digit_char_def)

lemma digits_300: "digits 300 = ''300''"
  by (simp add: digits.simps digit_char_def)

lemma toFixed_example: "toFixed 2 (Fin 12) = ''12.00''" "toFixed 2 (Fin (- 3)) = ''-3.00''"
  by (simp_all add: Let_def digits_1200 digits_300)

lemma shiftProjection_origin: "project shiftProjection (Fin 0, Fin 0) = (Fin 12, Fin (- 3))"
  by (simp add: project_def shiftProjection_def mercator_origin Let_def)

theorem geomToPath_commands_witness:
  "\<bar>12 :: real\<bar> < 10 ^ 21 \<and> twoDecimals (toFixed 2 (Fin 12)) \<and> toFixed 2 (Fin 12) = ''12.00''
   \<and> map (ringToPath (returning (project shiftProjection)))
        [Some [Some (Fin 0, Fin 0), Some (Fin 0, Fin 0)]] = map Inr [''M12.00 -3.00L12.00 -3.00Z'']
   \<and> geomToPath pointRing (returning (project shiftProjection)) = Inr ''M12.00 -3.00L12.00 -3.00Z''"
proof -
  note c = geomToPath_commands[of "project shiftProjection"
        "(Fin 0, Fin 0)" "[(Fin 0, Fin 0)]" "[Some [Some (Fin 0, Fin 0), Some (Fin 0, Fin 0)]]"
        "returning (project shiftProjection)" "[]"
        "ringToPath (returning (project shiftProjection))"
        "[Some [Some (Fin 0, Fin 0), Some (Fin 0, Fin 0)]]" "[''M12.00 -3.00L12.00 -3.00Z'']"
        "(Fin 0, Fin 0)" "12"]
  have r: "ringToPath (returning (project shiftProjection)) (Some [Some (Fin 0, Fin 0), Some (Fin 0, Fin 0)])
      = Inr ''M12.00 -3.00L12.00 -3.00Z''"
    using c
    by (simp add: pointText_def shiftProjection_origin toFixed_example
        del: toFixed.simps ringToPath.simps)
  have m: "map (ringToPath (returning (project shiftProjection)))
        [Some [Some (Fin 0, Fin 0), Some (Fin 0, Fin 0)]] = map Inr [''M12.00 -3.00L12.00 -3.00Z'']"
    using r by simp
  have "geomToPath pointRing (returning (project shiftProjection)) = Inr ''M12.00 -3.00L12.00 -3.00Z''"
    using c m unfolding pointRing_def by (simp del: toFixed.simps ringToPath.simps Array_map_join.simps geomToPath.simps)
  moreover have "twoDecimals (toFixed 2 (Fin 12))" using c by simp
  ultimately show ?thesis using m by (simp add: toFixed_example del: toFixed.simps ringToPath.simps)
qed

text \<open>
  The claim C6 as stated fails on the collection whose only ring is two coincident
  points: the projection \<open>buildGeoProjection\<close> returns for it yields \<open>NaN\<close>, and the
  ring compiles to a path whose coordinates are the word \<open>NaN\<close>, which has no decimal
  places.
\<close>

theorem geomToPath_two_decimals_counterexample:
  "buildGeoProjection pointGeo (Fin 1000) (Fin 680) = Inr \<lparr>scale = PInf, tx = NaN, ty = NaN\<rparr>
   \<and> geomToPath pointRing (returning (project \<lparr>scale = PInf, tx = NaN, ty = NaN\<rparr>))
       = Inr ''MNaN NaNLNaN NaNZ''
   \<and> \<not> twoDecimals ''NaN''"
proof -
  have 1: "buildGeoProjection pointGeo (Fin 1000) (Fin 680) = Inr \<lparr>scale = PInf, tx = NaN, ty = NaN\<rparr>"
    using fitBounds_coincident[of 1000 680 0 0] by (simp add: buildGeoProjection_def point_scan)
  have 2: "geomToPath pointRing (returning (project \<lparr>scale = PInf, tx = NaN, ty = NaN\<rparr>))
       = Inr ''MNaN NaNLNaN NaNZ''"
    by (simp add: pointRing_def project_NaN returning_def)
  have 3: "\<not> twoDecimals ''NaN''" by (simp add: twoDecimals_def)
  show ?thesis using 1 2 3 by blast
qed

text \<open>
  C10, as amended. \<open>geomToPath\<close> is not total. It throws exactly when the coordinates
  of a polygon or of a multi-polygon are no array, when a polygon of a multi-polygon is no
  array, when a ring that is present holds an entry that is no position, or when the
  projection function fails on a position; with a projection function that returns for
  every position the error is a \<open>TypeError\<close>. On every other input it returns a string.
  For a geometry that is \<open>null\<close> and for one of another type the string is empty. A ring
  that is \<open>null\<close> and a ring with no point compile to the empty string, so such a ring
  anywhere in a polygon or in a polygon of a multi-polygon leaves the result what it is
  without it.
\<close>

theorem geomToPath_throws:
  "isl (geomToPath geom proj) = geomThrows geom proj
   \<and> (geomThrows geom (returning f) \<longrightarrow> geomToPath geom (returning f) = Inl TypeError)
   \<and> geomToPath None proj = Inr ''''
   \<and> geomToPath (Some (OtherGeom coords)) proj = Inr ''''
   \<and> ringToPath proj None = Inr '''' \<and> ringToPath proj (Some []) = Inr ''''
   \<and> geomToPath (Some (Polygon (Some (rings @ [None] @ rings')))) proj
       = geomToPath (Some (Polygon (Some (rings @ rings')))) proj
   \<and> geomToPath (Some (Polygon (Some (rings @ [Some []] @ rings')))) proj
       = geomToPath (Some (Polygon (Some (rings @ rings')))) proj
   \<and> geomToPath (Some (MultiPolygon (Some (polys @ [Some (rings @ [None] @ rings')] @ polys')))) proj
       = geomToPath (Some (MultiPolygon (Some (polys @ [Some (rings @ rings')] @ polys')))) proj
   \<and> geomToPath (Some (MultiPolygon (Some (polys @ [Some (rings @ [Some []] @ rings')] @ polys')))) proj
       = geomToPath (Some (MultiPolygon (Some (polys @ [Some (rings @ rings')] @ polys')))) proj"
proof -
  have e: "geomToPath geom (returning f) = Inl TypeError" if "geomThrows geom (returning f)"
  proof -
    have "isl (geomToPath geom (returning f))" using that by (simp add: geomToPath_isl)
    then obtain e where "geomToPath geom (returning f) = Inl e" by (auto simp: isl_def)
    then show ?thesis using geomToPath_TypeError by blast
  qed
  have s: "Array_map_join (ringToPath proj) (rings @ [None] @ rings')
            = Array_map_join (ringToPath proj) (rings @ rings')"
    "Array_map_join (ringToPath proj) (rings @ [Some []] @ rings')
            = Array_map_join (ringToPath proj) (rings @ rings')"
    by (rule Array_map_join_skip, simp)+
  have p: "geomToPath (Some (Polygon (Some (rings @ [None] @ rings')))) proj
       = geomToPath (Some (Polygon (Some (rings @ rings')))) proj"
    "geomToPath (Some (Polygon (Some (rings @ [Some []] @ rings')))) proj
       = geomToPath (Some (Polygon (Some (rings @ rings')))) proj"
    using s by simp_all
  let ?g = "\<lambda>poly. case poly of None \<Rightarrow> Inl TypeError
                    | Some rings \<Rightarrow> Array_map_join (ringToPath proj) rings"
  have "Array_map_join ?g (polys @ [Some (rings @ [None] @ rings')] @ polys')
          = Array_map_join ?g (polys @ [Some (rings @ rings')] @ polys')"
    by (rule Array_map_join_same) (simp only: option.case s)
  then have m1: "geomToPath (Some (MultiPolygon (Some (polys @ [Some (rings @ [None] @ rings')] @ polys')))) proj
       = geomToPath (Some (MultiPolygon (Some (polys @ [Some (rings @ rings')] @ polys')))) proj"
    by (simp only: geomToPath.simps)
  have "Array_map_join ?g (polys @ [Some (rings @ [Some []] @ rings')] @ polys')
          = Array_map_join ?g (polys @ [Some (rings @ rings')] @ polys')"
    by (rule Array_map_join_same) (simp only: option.case s)
  then have m2: "geomToPath (Some (MultiPolygon (Some (polys @ [Some (rings @ [Some []] @ rings')] @ polys')))) proj
       = geomToPath (Some (MultiPolygon (Some (polys @ [Some (rings @ rings')] @ polys')))) proj"
    by (simp only: geomToPath.simps)
  have b: "geomToPath None proj = Inr ''''" "geomToPath (Some (OtherGeom coords)) proj = Inr ''''"
    "ringToPath proj None = Inr ''''" "ringToPath proj (Some []) = Inr ''''"
    by simp_all
  show ?thesis using geomToPath_isl[of geom proj] e b p m1 m2 by blast
qed

theorem geomToPath_throws_witness:
  "geomThrows nullPoint (returning (project shiftProjection))
   \<and> geomToPath nullPoint (returning (project shiftProjection)) = Inl TypeError
   \<and> \<not> geomThrows pointRing (returning (project shiftProjection))
   \<and> \<not> isl (geomToPath pointRing (returning (project shiftProjection)))"
proof -
  have 1: "geomThrows nullPoint (returning (project shiftProjection))"
    by (simp add: nullPoint_def ringsThrow_def ringThrows_def pointThrows_def)
  have 2: "\<not> geomThrows pointRing (returning (project shiftProjection))"
    by (simp add: pointRing_def ringsThrow_def ringThrows_def pointThrows_def returning_def)
  show ?thesis
    using geomToPath_throws[of nullPoint "returning (project shiftProjection)" "project shiftProjection"]
      geomToPath_throws[of pointRing "returning (project shiftProjection)" "project shiftProjection"]
      1 2
    by blast
qed

text \<open>
  The claim C10 as stated fails on a polygon that has no \<open>coordinates\<close> member
  (\<open>coords.map\<close> of \<open>undefined\<close>), on a multi-polygon one of whose polygons is \<open>null\<close>
  (\<open>poly.map\<close> of \<open>null\<close>) and on a ring one of whose positions is \<open>null\<close> (the
  destructuring of \<open>ring[i]\<close>): each call throws a \<open>TypeError\<close>.
\<close>

theorem geomToPath_malformed_counterexample:
  "geomToPath missingCoordinates (returning (project shiftProjection)) = Inl TypeError
   \<and> geomToPath nullPolygon (returning (project shiftProjection)) = Inl TypeError
   \<and> geomToPath nullPoint (returning (project shiftProjection)) = Inl TypeError"
  by (simp add: missingCoordinates_def nullPolygon_def nullPoint_def returning_def
      shiftProjection_origin)

section \<open>Properties of the region map renderer\<close>

lemma map_of_Map_set: "map_of (Map_set k v m) k' = (if k' = k then Some v else map_of m k')"
  by (induction m) auto

lemma keys_Map_set_list:
  "map fst (Map_set k v m) = (if k \<in> fst ` set m then map fst m else map fst m @ [k])"
  by (induction m) force+

lemma keys_Map_set: "set (map fst (Map_set k v m)) = insert k (set (map fst m))"
  unfolding keys_Map_set_list by auto

lemma distinct_Map_set: "distinct (map fst m) \<Longrightarrow> distinct (map fst (Map_set k v m))"
  unfolding keys_Map_set_list by auto

lemma Map_set_same: "map_of m k = Some v \<Longrightarrow> Map_set k v m = m"
  by (induction m) (auto split: if_splits)

lemma Map_set_new: "k \<notin> fst ` set m \<Longrightarrow> Map_set k v m = m @ [(k, v)]"
  by (induction m) auto

lemma setAttributes_fresh:
  "distinct (map fst (bs @ as)) \<Longrightarrow>
     foldl (\<lambda>node (k, v). setAttribute k v node) (Node t bs cs l) as = Node t (bs @ as) cs l"
proof (induction as arbitrary: bs)
  case Nil then show ?case by simp
next
  case (Cons a as)
  obtain k v where a: "a = (k, v)" by (cases a)
  have k: "k \<notin> fst ` set bs" using Cons.prems by (auto simp: a)
  have d: "distinct (map fst ((bs @ [(k, v)]) @ as))" using Cons.prems by (simp add: a)
  show ?case using Cons.IH[OF d] by (simp add: a setAttribute_def Map_set_new[OF k])
qed

lemma appendChildren: "foldl appendChild (Node t as bs l) cs = Node t as (bs @ cs) l"
  by (induction cs arbitrary: bs) (simp_all add: appendChild_def)

text \<open>An element made from attributes with distinct names holds them as listed.\<close>

lemma el_node: "distinct (map fst as) \<Longrightarrow> el t as cs = Node t as cs None"
  using setAttributes_fresh[of "[]" as t "[]" None]
  by (simp add: el_def createElementNS_def appendChildren)

lemma getAttribute_setAttribute:
  "getAttribute (setAttribute k v n) k' = (if k' = k then Some v else getAttribute n k')"
  by (simp add: getAttribute_def setAttribute_def map_of_Map_set)

lemma setAttribute_same: "getAttribute n k = Some v \<Longrightarrow> setAttribute k v n = n"
  by (cases n) (simp add: getAttribute_def setAttribute_def Map_set_same)

lemma recolor_attributes:
  "getAttribute (recolor cd k n) ''fill'' = Some (AStr (if k = cd then BRAND_BLUE else ''#c7cdd9''))"
  "getAttribute (recolor cd k n) ''opacity'' = Some (AStr (if k = cd then ''1'' else ''0.95''))"
  "getAttribute (recolor cd k n) ''data-icb23cd'' = getAttribute n ''data-icb23cd''"
  by (simp_all add: recolor_def getAttribute_setAttribute)

lemma recolor_idem: "recolor cd k (recolor cd k n) = recolor cd k n"
proof -
  let ?n = "recolor cd k n"
  have 1: "setAttribute ''fill'' (AStr (if k = cd then BRAND_BLUE else ''#c7cdd9'')) ?n = ?n"
    by (rule setAttribute_same) (rule recolor_attributes(1))
  have 2: "setAttribute ''opacity'' (AStr (if k = cd then ''1'' else ''0.95'')) ?n = ?n"
    by (rule setAttribute_same) (rule recolor_attributes(2))
  show ?thesis by (subst (1) recolor_def) (simp only: 1 2)
qed

text \<open>The loop of \<open>setSelected\<close> over a map whose values are distinct indices.\<close>

lemma paint_length:
  "length (foldl (\<lambda>sh (k, i). sh[i := f k (sh ! i)]) sh m) = length sh"
  by (induction m arbitrary: sh) (auto split: prod.splits)

lemma paint_other:
  "j \<notin> snd ` set m \<Longrightarrow> foldl (\<lambda>sh (k, i). sh[i := f k (sh ! i)]) sh m ! j = sh ! j"
proof (induction m arbitrary: sh)
  case Nil then show ?case by simp
next
  case (Cons a m)
  obtain k i where a: "a = (k, i)" by (cases a)
  have "i \<noteq> j" "j \<notin> snd ` set m" using Cons.prems by (auto simp: a)
  then show ?case using Cons.IH[of "sh[i := f k (sh ! i)]"] by (simp add: a)
qed

lemma paint_entry:
  assumes "distinct (map snd m)" and "(k, i) \<in> set m" and "i < length sh"
  shows "foldl (\<lambda>sh (k, i). sh[i := f k (sh ! i)]) sh m ! i = f k (sh ! i)"
  using assms
proof (induction m arbitrary: sh)
  case Nil then show ?case by simp
next
  case (Cons a m)
  obtain k' i' where a: "a = (k', i')" by (cases a)
  show ?case
  proof (cases "(k, i) = (k', i')")
    case True
    then have "i \<notin> snd ` set m" using Cons.prems(1) by (auto simp: a)
    then show ?thesis using True Cons.prems(3) by (simp add: a paint_other)
  next
    case False
    then have in_m: "(k, i) \<in> set m" using Cons.prems(2) by (auto simp: a)
    then have "i \<in> snd ` set m" by force
    then have ne: "i' \<noteq> i" using Cons.prems(1) by (auto simp: a)
    have d: "distinct (map snd m)" using Cons.prems(1) by simp
    show ?thesis
      using Cons.IH[OF d in_m, of "sh[i' := f k' (sh ! i')]"] Cons.prems(3) ne by (simp add: a)
  qed
qed

lemma addFeatures_append:
  "addFeatures proj (xs @ ys) st =
     (case addFeatures proj xs st of Inl e \<Rightarrow> Inl e | Inr st' \<Rightarrow> addFeatures proj ys st')"
  by (induction xs arbitrary: st) (simp_all add: Let_def split: sum.splits)

lemma addFeatures_snoc:
  assumes "addFeatures proj (feats @ [f]) st = Inr st'"
  shows "\<exists>st1 path. addFeatures proj feats st = Inr st1 \<and> featurePath proj f = Inr path
           \<and> shapes st' = shapes st1 @ [path]
           \<and> pathsByCd st' = (case featureCd f of
                 Some (c # cs) \<Rightarrow> Map_set (c # cs) (length (shapes st1)) (pathsByCd st1)
               | _ \<Rightarrow> pathsByCd st1)"
proof -
  obtain st1 where 1: "addFeatures proj feats st = Inr st1" and 2: "addFeatures proj [f] st1 = Inr st'"
    using assms by (auto simp: addFeatures_append split: sum.splits)
  obtain path where 3: "featurePath proj f = Inr path" using 2 by (auto split: sum.splits)
  show ?thesis using 1 2 3 by (auto simp: Let_def split: option.splits list.splits)
qed

lemma addFeatures_shapes:
  "addFeatures proj feats st = Inr st' \<Longrightarrow>
     length (shapes st') = length (shapes st) + length feats
     \<and> (\<forall>i<length feats. featurePath proj (feats ! i) = Inr (shapes st' ! (length (shapes st) + i)))
     \<and> (\<forall>i<length (shapes st). shapes st' ! i = shapes st ! i)"
proof (induction feats arbitrary: st' rule: rev_induct)
  case Nil then show ?case by simp
next
  case (snoc f feats)
  obtain st1 path where s: "addFeatures proj feats st = Inr st1" "featurePath proj f = Inr path"
    "shapes st' = shapes st1 @ [path]"
    using addFeatures_snoc[OF snoc.prems] by blast
  note ih = snoc.IH[OF s(1)]
  have len: "length (shapes st1) = length (shapes st) + length feats" using ih by blast
  have a: "featurePath proj ((feats @ [f]) ! i) = Inr (shapes st' ! (length (shapes st) + i))"
    if "i < length (feats @ [f])" for i
  proof (cases "i < length feats")
    case True
    then show ?thesis using ih by (simp add: s(3) nth_append len)
  next
    case False
    then have "i = length feats" using that by simp
    then show ?thesis by (simp add: s(2,3) nth_append len)
  qed
  have b: "shapes st' ! i = shapes st ! i" if "i < length (shapes st)" for i
    using that ih by (simp add: s(3) nth_append len)
  show ?case using a b by (simp add: s(3) len)
qed

lemma registeredAt_snoc_same:
  assumes "k \<noteq> []" and "featureCd f = Some k"
  shows "registeredAt (feats @ [f]) k i \<longleftrightarrow> i = length feats"
proof
  assume r: "registeredAt (feats @ [f]) k i"
  show "i = length feats"
  proof (rule ccontr)
    assume "i \<noteq> length feats"
    then have i: "i < length feats" using r by (simp add: registeredAt_def)
    have "\<forall>j. i < j \<and> j < length (feats @ [f]) \<longrightarrow> featureCd ((feats @ [f]) ! j) \<noteq> Some k"
      using r unfolding registeredAt_def by blast
    then have "featureCd ((feats @ [f]) ! length feats) \<noteq> Some k"
      using i by (auto dest!: spec[of _ "length feats"])
    then show False using assms(2) by simp
  qed
next
  assume "i = length feats"
  then show "registeredAt (feats @ [f]) k i" using assms by (auto simp: registeredAt_def)
qed

lemma registeredAt_snoc_other:
  assumes "featureCd f \<noteq> Some k"
  shows "registeredAt (feats @ [f]) k i \<longleftrightarrow> registeredAt feats k i"
proof
  assume r: "registeredAt (feats @ [f]) k i"
  have "i \<noteq> length feats" using r assms by (auto simp: registeredAt_def)
  then have i: "i < length feats" using r by (simp add: registeredAt_def)
  have "featureCd (feats ! j) \<noteq> Some k" if j: "i < j \<and> j < length feats" for j
  proof -
    have "featureCd ((feats @ [f]) ! j) \<noteq> Some k" using r j by (simp add: registeredAt_def)
    then show ?thesis using j by (simp add: nth_append)
  qed
  then show "registeredAt feats k i" using r i by (simp add: registeredAt_def nth_append)
next
  assume r: "registeredAt feats k i"
  have "featureCd ((feats @ [f]) ! j) \<noteq> Some k" if j: "i < j \<and> j < length (feats @ [f])" for j
  proof (cases "j < length feats")
    case True then show ?thesis using r j by (simp add: registeredAt_def nth_append)
  next
    case False
    then have "j = length feats" using j by simp
    then show ?thesis using assms by simp
  qed
  then show "registeredAt (feats @ [f]) k i"
    using r unfolding registeredAt_def by (simp add: nth_append)
qed

lemma addFeatures_registry:
  assumes "addFeatures proj feats \<lparr>shapes = [], pathsByCd = []\<rparr> = Inr st"
  shows "distinct (map fst (pathsByCd st))
       \<and> (\<forall>k i. map_of (pathsByCd st) k = Some i \<longleftrightarrow> registeredAt feats k i)"
  using assms
proof (induction feats arbitrary: st rule: rev_induct)
  case Nil
  then show ?case by (auto simp: registeredAt_def)
next
  case (snoc f feats)
  obtain st1 where s: "addFeatures proj feats \<lparr>shapes = [], pathsByCd = []\<rparr> = Inr st1"
    and paths: "pathsByCd st = (case featureCd f of
                 Some (c # cs) \<Rightarrow> Map_set (c # cs) (length (shapes st1)) (pathsByCd st1)
               | _ \<Rightarrow> pathsByCd st1)"
    using addFeatures_snoc[OF snoc.prems] by blast
  have len: "length (shapes st1) = length feats" using addFeatures_shapes[OF s] by simp
  have d: "distinct (map fst (pathsByCd st1))"
    and m: "\<And>k i. map_of (pathsByCd st1) k = Some i \<longleftrightarrow> registeredAt feats k i"
    using snoc.IH[OF s] by blast+
  show ?case
  proof (cases "\<exists>c cs. featureCd f = Some (c # cs)")
    case True
    then obtain c cs where cd: "featureCd f = Some (c # cs)" by blast
    have p: "pathsByCd st = Map_set (c # cs) (length feats) (pathsByCd st1)"
      by (simp add: paths cd len)
    have "map_of (pathsByCd st) k = Some i \<longleftrightarrow> registeredAt (feats @ [f]) k i" for k i
    proof (cases "k = c # cs")
      case True
      then show ?thesis
        using registeredAt_snoc_same[of k f feats i] cd by (auto simp: p map_of_Map_set)
    next
      case False
      then have "featureCd f \<noteq> Some k" using cd by simp
      then show ?thesis
        using registeredAt_snoc_other[of f k feats i] False m by (simp add: p map_of_Map_set)
    qed
    then show ?thesis using d by (simp add: p distinct_Map_set)
  next
    case False
    then have p: "pathsByCd st = pathsByCd st1"
      by (auto simp: paths split: option.splits list.splits)
    have "map_of (pathsByCd st) k = Some i \<longleftrightarrow> registeredAt (feats @ [f]) k i" for k i
    proof (cases "k = []")
      case True
      have "map_of (pathsByCd st1) k \<noteq> Some i" using m[of k i] True by (simp add: registeredAt_def)
      then show ?thesis using True by (simp add: p registeredAt_def)
    next
      case ne: False
      then have "featureCd f \<noteq> Some k" using False by (cases k) auto
      then show ?thesis using registeredAt_snoc_other[of f k feats i] m by (simp add: p)
    qed
    then show ?thesis using d by (simp add: p)
  qed
qed

lemma registry_entries:
  assumes "renderMap geo = Inr st"
  shows "distinct (map fst (pathsByCd st))" and "distinct (map snd (pathsByCd st))"
    and "\<And>k i. (k, i) \<in> set (pathsByCd st) \<longleftrightarrow> registeredAt (features geo) k i"
    and "length (shapes st) = length (features geo)"
    and "\<And>i. i < length (features geo) \<Longrightarrow>
           \<exists>proj. featurePath proj (features geo ! i) = Inr (shapes st ! i)"
proof -
  obtain pr where st: "addFeatures (returning (project pr)) (features geo) \<lparr>shapes = [], pathsByCd = []\<rparr>
      = Inr st"
    using assms by (auto simp: renderMap_def split: sum.splits)
  note r = addFeatures_registry[OF st]
  note sh = addFeatures_shapes[OF st]
  show d: "distinct (map fst (pathsByCd st))" using r by blast
  show e: "\<And>k i. (k, i) \<in> set (pathsByCd st) \<longleftrightarrow> registeredAt (features geo) k i"
    using r d by (metis map_of_eq_Some_iff)
  show "distinct (map snd (pathsByCd st))"
  proof -
    have "inj_on snd (set (pathsByCd st))"
    proof (rule inj_onI)
      fix a b assume ab: "a \<in> set (pathsByCd st)" "b \<in> set (pathsByCd st)" "snd a = snd b"
      have "registeredAt (features geo) (fst a) (snd a)" "registeredAt (features geo) (fst b) (snd b)"
        using ab(1,2) e[of "fst a" "snd a"] e[of "fst b" "snd b"] by simp_all
      then have "fst a = fst b" using ab(3) by (simp add: registeredAt_def)
      then show "a = b" using ab(3) by (simp add: prod_eq_iff)
    qed
    moreover have "distinct (pathsByCd st)" using d by (rule distinct_map[THEN iffD1, THEN conjunct1])
    ultimately show ?thesis by (simp add: distinct_map)
  qed
  show "length (shapes st) = length (features geo)" using sh by simp
  show "\<And>i. i < length (features geo) \<Longrightarrow>
           \<exists>proj. featurePath proj (features geo ! i) = Inr (shapes st ! i)"
    using sh by auto
qed

lemma setSelected_paths: "pathsByCd (setSelected c s) = pathsByCd s"
  by (simp add: setSelected_def)

lemma setSelected_length: "length (shapes (setSelected c s)) = length (shapes s)"
  by (simp add: setSelected_def paint_length)

lemma setSelected_other:
  "j \<notin> snd ` set (pathsByCd s) \<Longrightarrow> shapes (setSelected c s) ! j = shapes s ! j"
  by (simp add: setSelected_def paint_other)

lemma setSelected_entry:
  assumes "distinct (map snd (pathsByCd s))" and "(k, i) \<in> set (pathsByCd s)"
    and "i < length (shapes s)"
  shows "shapes (setSelected c s) ! i = recolor c k (shapes s ! i)"
  using paint_entry[OF assms, of "recolor c"] by (simp add: setSelected_def)

lemma selections_frame:
  "pathsByCd (foldl (\<lambda>s c. setSelected c s) s cds) = pathsByCd s
   \<and> length (shapes (foldl (\<lambda>s c. setSelected c s) s cds)) = length (shapes s)
   \<and> (\<forall>j. j \<notin> snd ` set (pathsByCd s) \<longrightarrow>
        shapes (foldl (\<lambda>s c. setSelected c s) s cds) ! j = shapes s ! j)"
proof (induction cds rule: rev_induct)
  case Nil then show ?case by simp
next
  case (snoc c cds)
  then show ?case by (simp add: setSelected_paths setSelected_length setSelected_other)
qed

lemma featurePath_style:
  assumes "featurePath proj feat = Inr n"
  shows "getAttribute n ''fill'' = Some (AStr ''#c7cdd9'')"
    and "getAttribute n ''opacity'' = None"
    and "getAttribute n ''data-icb23cd'' = Some (AStr (firstTruthy [featureCd feat] ''''))"
proof -
  obtain pathD where "n = appendChild
      (el ''path''
         [(''d'', AStr pathD), (''fill'', AStr ''#c7cdd9''), (''stroke'', AStr STROKE_GREY),
          (''stroke-width'', ANum (Fin 1)), (''fill-rule'', AStr ''evenodd''),
          (''tabindex'', ANum (Fin 0)), (''data-icb23cd'', AStr (firstTruthy [featureCd feat] ''''))] [])
      (setTextContent (Text (featureName feat)) (el ''title'' [] []))"
    using assms by (auto simp: featurePath_def Let_def split: sum.splits)
  then show "getAttribute n ''fill'' = Some (AStr ''#c7cdd9'')"
    and "getAttribute n ''opacity'' = None"
    and "getAttribute n ''data-icb23cd'' = Some (AStr (firstTruthy [featureCd feat] ''''))"
    by (simp_all add: getAttribute_def el_node appendChild_def)
qed

lemma setSelected_idem:
  assumes "distinct (map snd (pathsByCd s))"
    and "\<forall>(k, i) \<in> set (pathsByCd s). i < length (shapes s)"
  shows "setSelected c (setSelected c s) = setSelected c s"
proof -
  let ?s1 = "setSelected c s"
  have "shapes (setSelected c ?s1) = shapes ?s1"
  proof (rule nth_equalityI)
    show "length (shapes (setSelected c ?s1)) = length (shapes ?s1)" by (rule setSelected_length)
  next
    fix j assume "j < length (shapes (setSelected c ?s1))"
    then have j: "j < length (shapes s)" by (simp add: setSelected_length)
    show "shapes (setSelected c ?s1) ! j = shapes ?s1 ! j"
    proof (cases "j \<in> snd ` set (pathsByCd s)")
      case False
      then show ?thesis by (simp add: setSelected_other setSelected_paths)
    next
      case True
      then obtain k where k: "(k, j) \<in> set (pathsByCd s)" by force
      have 1: "shapes ?s1 ! j = recolor c k (shapes s ! j)"
        by (rule setSelected_entry[OF assms(1) k j])
      have "shapes (setSelected c ?s1) ! j = recolor c k (shapes ?s1 ! j)"
        by (rule setSelected_entry) (simp_all add: setSelected_paths setSelected_length assms(1) k j)
      then show ?thesis by (simp add: 1 recolor_idem)
    qed
  qed
  then show ?thesis by (simp add: setSelected_def)
qed

text \<open>
  C5, as amended. Let the handle come from \<open>renderMap\<close> and let any selections have been
  made on it before. The drawing has one shape per feature. A shape is registered when
  its feature is the last one of the collection that carries its region code, a string
  that is not empty. \<open>setSelected(cd)\<close> gives the shape registered for \<open>cd\<close> the
  highlight colour and the opacity 1, and every other registered shape the default colour
  and the opacity 0.95. A shape that is not registered (its feature has no region code, or
  a later feature carries the same code) is not touched: it keeps the default colour it
  was built with and has no opacity attribute. A second \<open>setSelected(cd)\<close> changes
  nothing, and when no shape is registered for \<open>cd\<close> every shape has the default colour.
\<close>

theorem setSelected_styles:
  assumes "renderMap geo = Inr st0" and "st = foldl (\<lambda>s c. setSelected c s) st0 cds"
  shows "length (shapes (setSelected cd st)) = length (features geo)
    \<and> (\<forall>i k. registeredAt (features geo) k i \<longrightarrow>
          getAttribute (shapes (setSelected cd st) ! i) ''fill''
            = Some (AStr (if k = cd then BRAND_BLUE else ''#c7cdd9''))
        \<and> getAttribute (shapes (setSelected cd st) ! i) ''opacity''
            = Some (AStr (if k = cd then ''1'' else ''0.95'')))
    \<and> (\<forall>i. i < length (features geo) \<and> (\<forall>k. \<not> registeredAt (features geo) k i) \<longrightarrow>
          getAttribute (shapes (setSelected cd st) ! i) ''fill'' = Some (AStr ''#c7cdd9'')
        \<and> getAttribute (shapes (setSelected cd st) ! i) ''opacity'' = None)
    \<and> setSelected cd (setSelected cd st) = setSelected cd st
    \<and> ((\<forall>i. \<not> registeredAt (features geo) cd i) \<longrightarrow>
          (\<forall>i. i < length (features geo) \<longrightarrow>
             getAttribute (shapes (setSelected cd st) ! i) ''fill'' = Some (AStr ''#c7cdd9'')))"
proof -
  note reg = registry_entries[OF assms(1)]
  have fr: "pathsByCd st = pathsByCd st0" "length (shapes st) = length (shapes st0)"
    "\<And>j. j \<notin> snd ` set (pathsByCd st0) \<Longrightarrow> shapes st ! j = shapes st0 ! j"
    using selections_frame[of st0 cds] unfolding assms(2) by blast+
  have dist: "distinct (map snd (pathsByCd st))" using reg(2) by (simp add: fr(1))
  have ent: "(k, i) \<in> set (pathsByCd st) \<longleftrightarrow> registeredAt (features geo) k i" for k i
    using reg(3) by (simp add: fr(1))
  have len: "length (shapes st) = length (features geo)" using reg(4) fr(2) by simp
  have bound: "\<forall>(k, i) \<in> set (pathsByCd st). i < length (shapes st)"
    using ent len by (auto simp: registeredAt_def)
  have registered: "shapes (setSelected cd st) ! i = recolor cd k (shapes st ! i)"
    if "registeredAt (features geo) k i" for k i
  proof -
    have "(k, i) \<in> set (pathsByCd st)" using that ent by simp
    moreover have "i < length (shapes st)" using that len by (simp add: registeredAt_def)
    ultimately show ?thesis using setSelected_entry[OF dist] by blast
  qed
  have unregistered: "getAttribute (shapes (setSelected cd st) ! i) ''fill'' = Some (AStr ''#c7cdd9'')
        \<and> getAttribute (shapes (setSelected cd st) ! i) ''opacity'' = None"
    if i: "i < length (features geo)" and no: "\<forall>k. \<not> registeredAt (features geo) k i" for i
  proof -
    have ni: "i \<notin> snd ` set (pathsByCd st)" using no ent by force
    then have "shapes (setSelected cd st) ! i = shapes st ! i" by (rule setSelected_other)
    also have "\<dots> = shapes st0 ! i" using ni by (simp add: fr(1) fr(3))
    finally have same: "shapes (setSelected cd st) ! i = shapes st0 ! i" .
    obtain proj where "featurePath proj (features geo ! i) = Inr (shapes st0 ! i)"
      using reg(5)[OF i] by blast
    then show ?thesis using featurePath_style(1,2) by (simp add: same)
  qed
  have 1: "length (shapes (setSelected cd st)) = length (features geo)"
    by (simp add: setSelected_length len)
  have 2: "\<forall>i k. registeredAt (features geo) k i \<longrightarrow>
          getAttribute (shapes (setSelected cd st) ! i) ''fill''
            = Some (AStr (if k = cd then BRAND_BLUE else ''#c7cdd9''))
        \<and> getAttribute (shapes (setSelected cd st) ! i) ''opacity''
            = Some (AStr (if k = cd then ''1'' else ''0.95''))"
    using registered by (simp add: recolor_attributes)
  have 3: "\<forall>i. i < length (features geo) \<and> (\<forall>k. \<not> registeredAt (features geo) k i) \<longrightarrow>
          getAttribute (shapes (setSelected cd st) ! i) ''fill'' = Some (AStr ''#c7cdd9'')
        \<and> getAttribute (shapes (setSelected cd st) ! i) ''opacity'' = None"
    using unregistered by blast
  have 4: "setSelected cd (setSelected cd st) = setSelected cd st"
    by (rule setSelected_idem[OF dist bound])
  have 5: "(\<forall>i. \<not> registeredAt (features geo) cd i) \<longrightarrow>
          (\<forall>i. i < length (features geo) \<longrightarrow>
             getAttribute (shapes (setSelected cd st) ! i) ''fill'' = Some (AStr ''#c7cdd9''))"
  proof (intro impI allI)
    fix i assume none: "\<forall>i. \<not> registeredAt (features geo) cd i" and i: "i < length (features geo)"
    show "getAttribute (shapes (setSelected cd st) ! i) ''fill'' = Some (AStr ''#c7cdd9'')"
    proof (cases "\<exists>k. registeredAt (features geo) k i")
      case True
      then obtain k where k: "registeredAt (features geo) k i" by blast
      then have "k \<noteq> cd" using none by blast
      then show ?thesis using 2 k by simp
    next
      case False
      then show ?thesis using unregistered[OF i] by blast
    qed
  qed
  show ?thesis using 1 2 3 4 5 by blast
qed

lemma map_scan:
  "scanFeatures (features mapGeo) initialBounds
     = Inr \<lparr>minX = Fin 0, minY = Fin 0, maxX = Fin (pi / 2), maxY = Fin (ln (tan (3 * pi / 8)))\<rparr>"
  using tan_three_eighths
  by (simp add: mapGeo_def exampleRegion_def unnamedRegion_def pointRing_def initialBounds_def
      track_def Let_def mercator_origin mercator_example)

lemma featurePath_returns:
  assumes "\<not> geomThrows (geometry feat) proj"
  shows "\<exists>n. featurePath proj feat = Inr n"
proof -
  have "\<not> isl (geomToPath (geometry feat) proj)" using assms by (simp add: geomToPath_isl)
  then obtain d where "geomToPath (geometry feat) proj = Inr d"
    by (cases "geomToPath (geometry feat) proj") auto
  then show ?thesis by (simp add: featurePath_def Let_def)
qed

lemma map_render:
  "\<exists>proj n1 n2. renderMap mapGeo = Inr \<lparr>shapes = [n1, n2], pathsByCd = [(''E54000008'', 0)]\<rparr>
     \<and> featurePath proj exampleRegion = Inr n1 \<and> featurePath proj unnamedRegion = Inr n2"
proof -
  let ?proj = "returning (project (fitBounds \<lparr>minX = Fin 0, minY = Fin 0, maxX = Fin (pi / 2),
          maxY = Fin (ln (tan (3 * pi / 8)))\<rparr> (Fin 1000) (Fin 680)))"
  have cd: "featureCd exampleRegion = Some ''E54000008''" "featureCd unnamedRegion = None"
    by (simp_all add: featureCd_def exampleRegion_def unnamedRegion_def)
  have f: "features mapGeo = [exampleRegion, unnamedRegion]" by (simp add: mapGeo_def)
  have "\<not> geomThrows (geometry exampleRegion) ?proj"
    by (simp add: exampleRegion_def ringsThrow_def ringThrows_def pointThrows_def returning_def)
  then obtain n1 where n1: "featurePath ?proj exampleRegion = Inr n1"
    using featurePath_returns by blast
  have "\<not> geomThrows (geometry unnamedRegion) ?proj"
    by (simp add: unnamedRegion_def pointRing_def ringsThrow_def ringThrows_def pointThrows_def
        returning_def)
  then obtain n2 where n2: "featurePath ?proj unnamedRegion = Inr n2"
    using featurePath_returns by blast
  have "renderMap mapGeo = Inr \<lparr>shapes = [n1, n2], pathsByCd = [(''E54000008'', 0)]\<rparr>"
    unfolding renderMap_def buildGeoProjection_scan[OF map_scan] f
    by (simp add: Let_def cd n1 n2)
  then show ?thesis using n1 n2 by blast
qed

lemma map_registered:
  "registeredAt (features mapGeo) ''E54000008'' 0"
proof -
  have cd: "featureCd exampleRegion = Some ''E54000008''" "featureCd unnamedRegion = None"
    by (simp_all add: featureCd_def exampleRegion_def unnamedRegion_def)
  have "j = 1" if "0 < j \<and> j < 2" for j :: nat using that by simp
  then show ?thesis by (auto simp: registeredAt_def mapGeo_def cd)
qed

lemma map_unregistered:
  "\<not> registeredAt (features mapGeo) k 1" "\<not> registeredAt (features mapGeo) ''X'' i"
proof -
  have cd: "featureCd exampleRegion = Some ''E54000008''" "featureCd unnamedRegion = None"
    by (simp_all add: featureCd_def exampleRegion_def unnamedRegion_def)
  show "\<not> registeredAt (features mapGeo) k 1" by (simp add: registeredAt_def mapGeo_def cd)
  have "i = 0 \<or> i = 1" if "i < 2" using that by auto
  then show "\<not> registeredAt (features mapGeo) ''X'' i"
    by (auto simp: registeredAt_def mapGeo_def cd)
qed

theorem setSelected_styles_witness:
  "\<exists>st0. renderMap mapGeo = Inr st0
     \<and> registeredAt (features mapGeo) ''E54000008'' 0
     \<and> getAttribute (shapes (setSelected ''E54000008'' st0) ! 0) ''fill'' = Some (AStr BRAND_BLUE)
     \<and> getAttribute (shapes (setSelected ''E54000008'' st0) ! 0) ''opacity'' = Some (AStr ''1'')
     \<and> getAttribute (shapes (setSelected ''E54000008'' st0) ! 1) ''fill'' = Some (AStr ''#c7cdd9'')
     \<and> getAttribute (shapes (setSelected ''E54000008'' st0) ! 1) ''opacity'' = None
     \<and> setSelected ''E54000008'' (setSelected ''E54000008'' st0) = setSelected ''E54000008'' st0
     \<and> getAttribute (shapes (setSelected ''X'' st0) ! 0) ''fill'' = Some (AStr ''#c7cdd9'')
     \<and> getAttribute (shapes (setSelected ''X'' st0) ! 0) ''opacity'' = Some (AStr ''0.95'')
     \<and> getAttribute (shapes (setSelected ''X'' st0) ! 1) ''fill'' = Some (AStr ''#c7cdd9'')"
proof -
  obtain st0 where r: "renderMap mapGeo = Inr st0" using map_render by blast
  have s: "st0 = foldl (\<lambda>s c. setSelected c s) st0 []" by simp
  have len: "length (features mapGeo) = 2" by (simp add: mapGeo_def)
  have ne: "''E54000008'' \<noteq> ''X''" by simp
  note a = setSelected_styles[OF r s, of "''E54000008''"]
  note b = setSelected_styles[OF r s, of "''X''"]
  have 1: "getAttribute (shapes (setSelected ''E54000008'' st0) ! 0) ''fill'' = Some (AStr BRAND_BLUE)"
    "getAttribute (shapes (setSelected ''E54000008'' st0) ! 0) ''opacity'' = Some (AStr ''1'')"
    using a map_registered by auto
  have 2: "getAttribute (shapes (setSelected ''E54000008'' st0) ! 1) ''fill'' = Some (AStr ''#c7cdd9'')"
    "getAttribute (shapes (setSelected ''E54000008'' st0) ! 1) ''opacity'' = None"
    using a map_unregistered(1) len by auto
  have 3: "setSelected ''E54000008'' (setSelected ''E54000008'' st0) = setSelected ''E54000008'' st0"
    using a by blast
  have 4: "getAttribute (shapes (setSelected ''X'' st0) ! 0) ''opacity'' = Some (AStr ''0.95'')"
    using b map_registered ne by auto
  have 5: "getAttribute (shapes (setSelected ''X'' st0) ! 0) ''fill'' = Some (AStr ''#c7cdd9'')"
    "getAttribute (shapes (setSelected ''X'' st0) ! 1) ''fill'' = Some (AStr ''#c7cdd9'')"
    using b map_unregistered(2) len by auto
  show ?thesis using r map_registered 1 2 3 4 5 by blast
qed

text \<open>
  The claim C5 as stated fails on a collection of two regions of which the second has no
  region code: selecting the first region leaves the second shape without an opacity
  attribute, not at the reduced opacity the claim gives every other shape.
\<close>

theorem setSelected_every_other_counterexample:
  "selectedStyles mapGeo ''E54000008''
     = Inr [(Some (AStr ''E54000008''), Some (AStr BRAND_BLUE), Some (AStr ''1'')),
            (Some (AStr ''''), Some (AStr ''#c7cdd9''), None)]"
proof -
  obtain proj n1 n2 where r: "renderMap mapGeo
     = Inr \<lparr>shapes = [n1, n2], pathsByCd = [(''E54000008'', 0)]\<rparr>"
    and n: "featurePath proj exampleRegion = Inr n1" "featurePath proj unnamedRegion = Inr n2"
    using map_render by blast
  have cd: "featureCd exampleRegion = Some ''E54000008''" "featureCd unnamedRegion = None"
    by (simp_all add: featureCd_def exampleRegion_def unnamedRegion_def)
  show ?thesis
    by (simp add: selectedStyles_def r setSelected_def styleOf_def recolor_attributes
        featurePath_style[OF n(1)] featurePath_style[OF n(2)] cd)
qed

section \<open>Properties of the chart renderers\<close>

lemma isFinite_iff: "isFinite v \<longleftrightarrow> (\<exists>r. v = Fin r)"
  by (cases v) simp_all

lemma Math_max2_Fin: "Math_max2 (Fin a) (Fin b) = Fin (max a b)"
  by (simp add: Math_max2_def max_def)

lemma Math_max2_NInf: "Math_max2 NInf (Fin b) = Fin b"
  by (simp add: Math_max2_def)

lemma foldl_Math_max2:
  assumes "\<forall>v\<in>set vs. isFinite v"
  shows "\<exists>M. foldl Math_max2 (Fin a) vs = Fin M \<and> a \<le> M \<and> (\<forall>v\<in>set vs. v \<le> Fin M)
             \<and> (M = a \<or> Fin M \<in> set vs)"
  using assms
proof (induction vs arbitrary: a)
  case Nil then show ?case by simp
next
  case (Cons v vs)
  obtain r where v: "v = Fin r" using Cons.prems by (auto simp: isFinite_iff)
  obtain M where M: "foldl Math_max2 (Fin (max a r)) vs = Fin M" "max a r \<le> M"
    "\<forall>v\<in>set vs. v \<le> Fin M" "M = max a r \<or> Fin M \<in> set vs"
    using Cons.IH[of "max a r"] Cons.prems by auto
  show ?case
  proof (intro exI[of _ M] conjI)
    show "foldl Math_max2 (Fin a) (v # vs) = Fin M" by (simp add: v Math_max2_Fin M(1))
    show "a \<le> M" using M(2) by simp
    show "\<forall>w\<in>set (v # vs). w \<le> Fin M" using M(2,3) by (simp add: v Fin_le)
    show "M = a \<or> Fin M \<in> set (v # vs)" using M(4) by (auto simp: v max_def split: if_splits)
  qed
qed

lemma Math_max_finite:
  assumes "vs \<noteq> []" and "\<forall>v\<in>set vs. isFinite v"
  shows "\<exists>M. Math_max vs = Fin M \<and> Fin M \<in> set vs \<and> (\<forall>v\<in>set vs. v \<le> Fin M)"
proof -
  obtain v ws where vs: "vs = v # ws" using assms(1) by (cases vs) auto
  obtain r where v: "v = Fin r" using assms(2) by (auto simp: vs isFinite_iff)
  obtain M where M: "foldl Math_max2 (Fin r) ws = Fin M" "r \<le> M"
    "\<forall>v\<in>set ws. v \<le> Fin M" "M = r \<or> Fin M \<in> set ws"
    using foldl_Math_max2[of ws r] assms(2) by (auto simp: vs)
  show ?thesis
    using M by (intro exI[of _ M]) (auto simp: Math_max_def vs v Math_max2_NInf Fin_le)
qed

lemma gridStep_Fin:
  "gridStep (Fin M) = Fin (if M \<le> 0.2 then 0.05 else if M \<le> 0.5 then 0.1 else if M \<le> 1 then 0.2 else 0.5)"
  by (simp add: gridStep_def Fin_le)

lemma axisMax_Fin:
  assumes "0 < step"
  shows "axisMax (Fin M) (Fin step) = Fin (max step (of_int \<lceil>M * 1.12 / step\<rceil> * step))"
  using assms by (simp add: axisMax_def Math_max_def Math_max2_NInf Math_max2_Fin)

lemma axisMax_multiple:
  fixes M step :: real
  assumes "0 < step" and "0 \<le> M"
  shows "\<exists>k::int. 1 \<le> k \<and> max step (of_int \<lceil>M * 1.12 / step\<rceil> * step) = of_int k * step
           \<and> 1.12 * M \<le> of_int k * step"
proof -
  define q where "q = M * 1.12 / step"
  have q0: "0 \<le> q" using assms by (simp add: q_def)
  have qs: "q * step = 1.12 * M" using assms(1) by (simp add: q_def)
  have up: "q \<le> of_int \<lceil>q\<rceil>" by (rule le_of_int_ceiling)
  have c0: "0 \<le> \<lceil>q\<rceil>" using q0 up by linarith
  have "q * step \<le> of_int \<lceil>q\<rceil> * step" using up assms(1) by (intro mult_right_mono) simp_all
  then have cm: "1.12 * M \<le> of_int \<lceil>q\<rceil> * step" by (simp only: qs)
  have "\<exists>k::int. 1 \<le> k \<and> max step (of_int \<lceil>q\<rceil> * step) = of_int k * step
           \<and> 1.12 * M \<le> of_int k * step"
  proof (cases "\<lceil>q\<rceil> = 0")
    case True
    have "1.12 * M \<le> 0" using cm unfolding True by simp
    then have "1.12 * M \<le> of_int 1 * step" using assms(1) by simp
    moreover have "max step (of_int \<lceil>q\<rceil> * step) = of_int 1 * step"
      unfolding True using assms(1) by simp
    ultimately show ?thesis by (intro exI[of _ 1]) simp
  next
    case False
    then have c1: "1 \<le> \<lceil>q\<rceil>" using c0 by linarith
    then have "(1::real) \<le> of_int \<lceil>q\<rceil>" by linarith
    then have "step \<le> of_int \<lceil>q\<rceil> * step" using assms(1) by simp
    then have "max step (of_int \<lceil>q\<rceil> * step) = of_int \<lceil>q\<rceil> * step" by simp
    then show ?thesis using c1 cm by (intro exI[of _ "\<lceil>q\<rceil>"]) simp
  qed
  then show ?thesis unfolding q_def .
qed

lemma dataM_finite:
  assumes "\<forall>d\<in>set series. isFinite (toNumber (referrals d)) \<and> isFinite (toNumber (accessed d))"
  shows "\<forall>d\<in>set (referralsDataM series). isFinite (referralsM d) \<and> isFinite (accessedM d)"
proof
  fix d assume "d \<in> set (referralsDataM series)"
  then obtain e where e: "e \<in> set series"
    and d: "d = \<lparr>yearM = year e, referralsM = toNumber (referrals e) / Fin 1000000,
                   accessedM = toNumber (accessed e) / Fin 1000000\<rparr>"
    by (auto simp: referralsDataM_def)
  obtain a b where "toNumber (referrals e) = Fin a" "toNumber (accessed e) = Fin b"
    using assms e by (auto simp: isFinite_iff)
  then show "isFinite (referralsM d) \<and> isFinite (accessedM d)" by (simp add: d)
qed

lemma maxVal_finite:
  assumes "dataM \<noteq> []"
    and "\<forall>d\<in>set dataM. isFinite (referralsM d) \<and> isFinite (accessedM d)"
  shows "\<exists>m M. referralsMaxVal dataM = Fin M \<and> M = max m 0
           \<and> (\<exists>d\<in>set dataM. referralsM d = Fin m \<or> accessedM d = Fin m)
           \<and> (\<forall>d\<in>set dataM. referralsM d \<le> Fin m \<and> accessedM d \<le> Fin m)"
proof -
  let ?all = "concat (map (\<lambda>d. [referralsM d, accessedM d, Fin 0]) dataM)"
  let ?vals = "concat (map (\<lambda>d. [referralsM d, accessedM d]) dataM)"
  have ne: "?all \<noteq> []" "?vals \<noteq> []" using assms(1) by (cases dataM; simp)+
  have fin: "\<forall>v\<in>set ?all. isFinite v" "\<forall>v\<in>set ?vals. isFinite v" using assms(2) by auto
  have sub: "set ?all = insert (Fin 0) (set ?vals)" using assms(1) by (cases dataM) auto
  obtain M where M: "Math_max ?all = Fin M" "Fin M \<in> set ?all" "\<forall>v\<in>set ?all. v \<le> Fin M"
    using Math_max_finite[OF ne(1) fin(1)] by blast
  obtain m where m: "Fin m \<in> set ?vals" "\<forall>v\<in>set ?vals. v \<le> Fin m"
    using Math_max_finite[OF ne(2) fin(2)] by blast
  have M2: "Fin M \<in> insert (Fin 0) (set ?vals)" using M(2) unfolding sub .
  have M3: "\<forall>v\<in>insert (Fin 0) (set ?vals). v \<le> Fin M" using M(3) unfolding sub .
  have "Fin 0 \<le> Fin M" using M3 by blast
  then have "0 \<le> M" by (simp only: Fin_le)
  moreover have "Fin m \<le> Fin M" using M3 m(1) by blast
  then have "m \<le> M" by (simp only: Fin_le)
  moreover have "Fin M = Fin 0 \<or> Fin M \<le> Fin m" using M2 m(2) by blast
  then have "M = 0 \<or> M \<le> m" by (simp only: Fin_le jsnum.inject)
  ultimately have eq: "M = max m 0" by (auto simp: max_def)
  have 1: "\<exists>d\<in>set dataM. referralsM d = Fin m \<or> accessedM d = Fin m" using m(1) by auto
  have 2: "\<forall>d\<in>set dataM. referralsM d \<le> Fin m \<and> accessedM d \<le> Fin m" using m(2) by auto
  show ?thesis using M(1) eq 1 2 unfolding referralsMaxVal_def by blast
qed

text \<open>
  C4, as amended. Take a series that is not empty and whose values all convert to finite
  numbers (a number, or \<open>null\<close>), and let \<open>m\<close> be the largest value of the two columns,
  in millions. The renderer's gridline step is 0.05 when \<open>m\<close> is at most 0.2, 0.1 when
  \<open>m\<close> is at most 0.5, 0.2 when \<open>m\<close> is at most 1, and 0.5 otherwise; its axis maximum
  is an integer multiple of that step and is at least 1.12 times \<open>m\<close>.
\<close>

theorem gridStep_axisMax:
  assumes "series \<noteq> []"
    and "\<forall>d\<in>set series. isFinite (toNumber (referrals d)) \<and> isFinite (toNumber (accessed d))"
  shows "\<exists>m step yMax k.
      (\<exists>d\<in>set (referralsDataM series). referralsM d = Fin m \<or> accessedM d = Fin m)
    \<and> (\<forall>d\<in>set (referralsDataM series). referralsM d \<le> Fin m \<and> accessedM d \<le> Fin m)
    \<and> gridStep (referralsMaxVal (referralsDataM series)) = Fin step
    \<and> step = (if m \<le> 0.2 then 0.05 else if m \<le> 0.5 then 0.1 else if m \<le> 1 then 0.2 else 0.5)
    \<and> axisMax (referralsMaxVal (referralsDataM series)) (Fin step) = Fin yMax
    \<and> yMax = real_of_int k * step \<and> 1.12 * m \<le> yMax"
proof -
  let ?dataM = "referralsDataM series"
  have ne: "?dataM \<noteq> []" using assms(1) by (simp add: referralsDataM_def)
  obtain m M where mv: "referralsMaxVal ?dataM = Fin M" and M: "M = max m 0"
    and attained: "\<exists>d\<in>set ?dataM. referralsM d = Fin m \<or> accessedM d = Fin m"
    and upper: "\<forall>d\<in>set ?dataM. referralsM d \<le> Fin m \<and> accessedM d \<le> Fin m"
    using maxVal_finite[OF ne dataM_finite[OF assms(2)]] by blast
  define step :: real where
    "step = (if m \<le> 0.2 then 0.05 else if m \<le> 0.5 then 0.1 else if m \<le> 1 then 0.2 else 0.5)"
  have step_pos: "0 < step" by (simp add: step_def)
  have "(if M \<le> 0.2 then 0.05 else if M \<le> 0.5 then 0.1 else if M \<le> 1 then 0.2 else 0.5) = step"
    unfolding M step_def by (simp add: max_def)
  then have gs: "gridStep (referralsMaxVal ?dataM) = Fin step"
    unfolding mv gridStep_Fin by simp
  have M0: "0 \<le> M" "m \<le> M" by (simp_all add: M)
  obtain k :: int where k: "max step (of_int \<lceil>M * 1.12 / step\<rceil> * step) = of_int k * step"
    "1.12 * M \<le> of_int k * step"
    using axisMax_multiple[OF step_pos M0(1)] by blast
  have am: "axisMax (referralsMaxVal ?dataM) (Fin step) = Fin (of_int k * step)"
    unfolding mv axisMax_Fin[OF step_pos] k(1) ..
  have "1.12 * m \<le> 1.12 * M" using M0(2) by simp
  then have hd: "1.12 * m \<le> of_int k * step" using k(2) by linarith
  show ?thesis
    using attained upper gs am hd step_def by blast
qed

lemma example_dataM:
  "referralsDataM exampleSeries = [\<lparr>yearM = ''2021'', referralsM = Fin 0.43, accessedM = Fin 0.3\<rparr>]"
  by (simp add: referralsDataM_def exampleSeries_def)

lemma example_maxVal: "referralsMaxVal (referralsDataM exampleSeries) = Fin 0.43"
  by (simp add: example_dataM referralsMaxVal_def Math_max_def Math_max2_def)

lemma example_axis:
  "gridStep (Fin 0.43) = Fin 0.1" "axisMax (Fin 0.43) (Fin 0.1) = Fin 0.5"
proof -
  show "gridStep (Fin 0.43) = Fin 0.1" by (simp add: gridStep_Fin)
  have "\<lceil>0.43 * 1.12 / (0.1::real)\<rceil> = 5" by (simp add: ceiling_eq_iff)
  then show "axisMax (Fin 0.43) (Fin 0.1) = Fin 0.5"
    using axisMax_Fin[of "0.1" "0.43"] by simp
qed

theorem gridStep_axisMax_witness:
  "exampleSeries \<noteq> []
   \<and> isFinite (toNumber (Num (Fin 430000))) \<and> isFinite (toNumber (Num (Fin 300000)))
   \<and> referralsMaxVal (referralsDataM exampleSeries) = Fin 0.43
   \<and> gridStep (referralsMaxVal (referralsDataM exampleSeries)) = Fin 0.1
   \<and> axisMax (referralsMaxVal (referralsDataM exampleSeries)) (Fin 0.1) = Fin 0.5
   \<and> (\<exists>k::int. (0.5::real) = real_of_int k * 0.1) \<and> 1.12 * (0.43::real) \<le> 0.5"
proof -
  have ne: "exampleSeries \<noteq> []" by (simp add: exampleSeries_def)
  have fin: "\<forall>d\<in>set exampleSeries. isFinite (toNumber (referrals d)) \<and> isFinite (toNumber (accessed d))"
    by (simp add: exampleSeries_def)
  obtain step yMax :: real and k :: int where
    "gridStep (referralsMaxVal (referralsDataM exampleSeries)) = Fin step"
    "axisMax (referralsMaxVal (referralsDataM exampleSeries)) (Fin step) = Fin yMax"
    "yMax = real_of_int k * step"
    using gridStep_axisMax[OF ne fin] by blast
  then have "\<exists>k::int. (0.5::real) = real_of_int k * 0.1"
    unfolding example_maxVal example_axis by auto
  moreover have "1.12 * (0.43::real) \<le> 0.5" by simp
  moreover have "isFinite (toNumber (Num (Fin 430000)))" "isFinite (toNumber (Num (Fin 300000)))"
    by simp_all
  ultimately show ?thesis using ne unfolding example_maxVal example_axis by blast
qed

lemma missing_facts:
  "referralsDataM missingSeries = [\<lparr>yearM = ''2021'', referralsM = NaN, accessedM = Fin 80 / Fin 1000000\<rparr>]"
  "referralsMaxVal [\<lparr>yearM = ''2021'', referralsM = NaN, accessedM = Fin 80 / Fin 1000000\<rparr>] = NaN"
  "gridStep NaN = Fin 0.5"
  "axisMax NaN (Fin 0.5) = NaN"
  "referralsYScale NaN (Fin 0) = NaN"
  by (simp_all add: referralsDataM_def missingSeries_def referralsMaxVal_def Math_max_def
      Math_max2_def gridStep_def less_eq_jsnum_def axisMax_def referralsYScale_def plus_NaN_right
      minus_jsnum_def referralsMargin_def innerH_def chartH_def)

text \<open>
  The claim C4 as stated fails on a series with an absent value: the value converts to
  \<open>NaN\<close>, so does the maximum the renderer computes, every threshold comparison is
  false and the step is 0.5 although the largest value observed, 0.00008, is below 0.2;
  the axis maximum is \<open>NaN\<close>, which is no multiple of the step.
\<close>

theorem gridStep_axisMax_missing_counterexample:
  "referralsDataM missingSeries
     = [\<lparr>yearM = ''2021'', referralsM = NaN, accessedM = Fin 80 / Fin 1000000\<rparr>]
   \<and> referralsMaxVal (referralsDataM missingSeries) = NaN
   \<and> gridStep (referralsMaxVal (referralsDataM missingSeries)) = Fin 0.5
   \<and> axisMax (referralsMaxVal (referralsDataM missingSeries))
         (gridStep (referralsMaxVal (referralsDataM missingSeries))) = NaN
   \<and> Fin 80 / Fin 1000000 \<le> Fin 0.2"
proof -
  have "Fin 80 / Fin 1000000 \<le> Fin 0.2" by (simp add: Fin_le)
  then show ?thesis unfolding missing_facts by simp
qed

text \<open>The gridline loop ends when the limit is finite and the step is positive.\<close>

lemma gridLoop_unfold:
  "gridLoop body (Fin t) (Fin yMax) (Fin step) svg =
     (if t \<le> yMax + 1 / 10 ^ 9
      then gridLoop body (Fin (t + step)) (Fin yMax) (Fin step) (svg @ body (Fin t))
      else Some svg)"
  by (subst gridLoop.simps) (simp add: Fin_le)

lemma gridLoop_bounded:
  assumes "0 < step"
  shows "yMax + 1 / 10 ^ 9 - t < real k * step \<Longrightarrow>
         \<exists>n. gridLoop body (Fin t) (Fin yMax) (Fin step) svg
               = Some (svg @ concat (map (\<lambda>i. body (Fin (t + real i * step))) [0..<n]))"
proof (induction k arbitrary: t svg)
  case 0
  then have "\<not> t \<le> yMax + 1 / 10 ^ 9" by simp
  then show ?case by (intro exI[of _ 0]) (subst gridLoop_unfold, simp)
next
  case (Suc k)
  show ?case
  proof (cases "t \<le> yMax + 1 / 10 ^ 9")
    case False
    then show ?thesis by (intro exI[of _ 0]) (subst gridLoop_unfold, simp)
  next
    case True
    have "yMax + 1 / 10 ^ 9 - (t + step) < real k * step"
      using Suc.prems by (simp add: algebra_simps)
    then obtain n where n: "gridLoop body (Fin (t + step)) (Fin yMax) (Fin step) (svg @ body (Fin t))
        = Some ((svg @ body (Fin t)) @ concat (map (\<lambda>i. body (Fin (t + step + real i * step))) [0..<n]))"
      using Suc.IH by blast
    have shift: "map (\<lambda>i. body (Fin (t + real i * step))) [0..<Suc n]
        = body (Fin t) # map (\<lambda>i. body (Fin (t + step + real i * step))) [0..<n]"
      by (simp add: upt_conv_Cons map_Suc_upt[symmetric] algebra_simps del: upt_Suc)
    have "gridLoop body (Fin t) (Fin yMax) (Fin step) svg
        = gridLoop body (Fin (t + step)) (Fin yMax) (Fin step) (svg @ body (Fin t))"
      using True by (subst gridLoop_unfold) simp
    then show ?thesis
      unfolding n by (intro exI[of _ "Suc n"]) (simp only: shift, simp)
  qed
qed

lemma gridLoop_terminates:
  assumes "0 < step"
  shows "\<exists>n. gridLoop body (Fin t) (Fin yMax) (Fin step) svg
               = Some (svg @ concat (map (\<lambda>i. body (Fin (t + real i * step))) [0..<n]))"
proof -
  obtain k :: nat where "yMax + 1 / 10 ^ 9 - t < real k * step"
    using reals_Archimedean3[OF assms] by blast
  then show ?thesis by (rule gridLoop_bounded[OF assms])
qed

lemma gridLoop_NaN: "gridLoop body (Fin t) NaN step svg = Some svg"
  by (subst gridLoop.simps) (simp add: less_eq_jsnum_def)

lemma referrals_empty:
  "renderReferralsChart []
     = Some (el ''svg''
               [(''viewBox'', AStr ''0 0 1000 680''), (''role'', AStr ''img''),
                (''aria-label'', AStr ''Referrals and accessed services'')]
               (referralsGridline (Fin 0.05) (Fin 0) @ referralsGridline (Fin 0.05) (Fin 0.05)
                @ axesLines referralsMargin (Fin 610) @ referralsLegend))"
proof -
  have mv: "referralsMaxVal (referralsDataM []) = NInf"
    by (simp add: referralsMaxVal_def referralsDataM_def Math_max_def)
  have st: "gridStep NInf = Fin 0.05" by (simp add: gridStep_def less_eq_jsnum_def)
  have ym: "axisMax NInf (Fin 0.05) = Fin 0.05"
    by (simp add: axisMax_def Math_max_def Math_max2_def)
  have y0: "referralsYScale (Fin 0.05) (Fin 0) = Fin 610"
    by (simp add: referralsYScale_def referralsMargin_def innerH_def chartH_def minus_jsnum_def)
  have grid: "gridLoop (referralsGridline (Fin 0.05)) (Fin 0) (Fin 0.05) (Fin 0.05) []
      = Some (referralsGridline (Fin 0.05) (Fin 0) @ referralsGridline (Fin 0.05) (Fin 0.05))"
    by (simp add: gridLoop_unfold)
  show ?thesis
    unfolding renderReferralsChart_def Let_def mv st ym y0 grid by (simp add: referralsDataM_def)
qed

lemma sessions_grid:
  "gridLoop (sessionsGridline (Fin 7.6) (Fin 8.5)) (Fin 7.6) (Fin 8.5) (Fin 0.1) svg
     = Some (svg @ concat (map (sessionsGridline (Fin 7.6) (Fin 8.5))
          [Fin 7.6, Fin 7.7, Fin 7.8, Fin 7.9, Fin 8, Fin 8.1, Fin 8.2, Fin 8.3, Fin 8.4, Fin 8.5]))"
  by (simp add: gridLoop_unfold)

lemma sessions_empty:
  "renderSessionsChart (Some [])
     = Some (el ''svg''
               [(''viewBox'', AStr ''0 0 1000 680''), (''role'', AStr ''img''),
                (''aria-label'', AStr ''Average sessions per course'')]
               (sessionsBackground
                # concat (map (sessionsGridline (Fin 7.6) (Fin 8.5))
                    [Fin 7.6, Fin 7.7, Fin 7.8, Fin 7.9, Fin 8, Fin 8.1, Fin 8.2, Fin 8.3, Fin 8.4, Fin 8.5])
                @ axesLines sessionsMargin (Fin 610)))"
proof -
  have y0: "sessionsYScale (Fin 7.6) (Fin 8.5) (Fin 7.6) = Fin 610"
    by (simp add: sessionsYScale_def sessionsMargin_def innerH_def chartH_def minus_jsnum_def)
  show ?thesis
    unfolding renderSessionsChart_def sessionsDrawing_def Let_def sessions_grid y0
    by (simp add: sessionsData_def sessionsMarks_def)
qed

lemma digits_5: "digits 5 = ''5''"
  by (simp add: digits.simps digit_char_def)

lemma referralsTick_empty:
  "referralsTick (Fin 0) = NumText (Fin 0)" "referralsTick (Fin (1 / 20)) = Text ''0.05''"
proof -
  have "toFixed 2 (Fin (1 / 20)) = ''0.05''" by (simp add: Let_def digits_5)
  then show "referralsTick (Fin (1 / 20)) = Text ''0.05''"
    by (simp add: referralsTick_def stripZeros_def stripDot_def del: toFixed.simps)
  show "referralsTick (Fin 0) = NumText (Fin 0)" by (simp add: referralsTick_def)
qed

text \<open>
  C9. On the empty series each renderer returns a drawing. The grouped-bar renderer
  returns the \<open>svg\<close> element with ten children: the gridline from x = 80 to x = 970 at
  y = 610 with the label \<open>0\<close>, the gridline at y = 70 with the label \<open>0.05\<close>, the
  vertical axis at x = 80 from y = 70 to y = 610, the horizontal axis at y = 610 from
  x = 80 to x = 970, and the two legend items; it has no bar, its only rectangles are the
  two legend swatches. The single-line renderer returns the \<open>svg\<close> element with 23
  children: the background, ten gridlines from x = 80 to x = 970 at y = 610 - 190 k / 3
  for k from 0 to 9, each followed by its label element, the vertical axis at x = 80 from
  y = 40 to y = 610 and the horizontal axis at y = 610; it has no period label, no path
  and no circle. The text of the labels of the single-line chart is not part of the
  statement. A series that is \<open>null\<close> is drawn as the empty one.
\<close>

theorem charts_empty_series:
  "renderReferralsChart []
     = Some (Node ''svg''
         [(''viewBox'', AStr ''0 0 1000 680''), (''role'', AStr ''img''),
          (''aria-label'', AStr ''Referrals and accessed services'')]
         [Node ''line''
            [(''x1'', ANum (Fin 80)), (''x2'', ANum (Fin 970)), (''y1'', ANum (Fin 610)),
             (''y2'', ANum (Fin 610)), (''stroke'', AStr ''#d1d5db''),
             (''stroke-width'', ANum (Fin 1))]
            [] None,
          Node ''text''
            [(''x'', ANum (Fin 70)), (''y'', ANum (Fin 615)), (''text-anchor'', AStr ''end''),
             (''font-size'', ANum (Fin 16)), (''font-weight'', ANum (Fin 600)),
             (''fill'', AStr ''#d1d5db'')]
            [] (Some (NumText (Fin 0))),
          Node ''line''
            [(''x1'', ANum (Fin 80)), (''x2'', ANum (Fin 970)), (''y1'', ANum (Fin 70)),
             (''y2'', ANum (Fin 70)), (''stroke'', AStr ''#d1d5db''),
             (''stroke-width'', ANum (Fin 1))]
            [] None,
          Node ''text''
            [(''x'', ANum (Fin 70)), (''y'', ANum (Fin 75)), (''text-anchor'', AStr ''end''),
             (''font-size'', ANum (Fin 16)), (''font-weight'', ANum (Fin 600)),
             (''fill'', AStr ''#d1d5db'')]
            [] (Some (Text ''0.05'')),
          Node ''line''
            [(''x1'', ANum (Fin 80)), (''x2'', ANum (Fin 80)), (''y1'', ANum (Fin 70)),
             (''y2'', ANum (Fin 610)), (''stroke'', AStr ''#6b7280''),
             (''stroke-width'', ANum (Fin 1.5))]
            [] None,
          Node ''line''
            [(''x1'', ANum (Fin 80)), (''x2'', ANum (Fin 970)), (''y1'', ANum (Fin 610)),
             (''y2'', ANum (Fin 610)), (''stroke'', AStr ''#6b7280''),
             (''stroke-width'', ANum (Fin 1.5))]
            [] None,
          Node ''rect''
            [(''x'', ANum (Fin 340)), (''y'', ANum (Fin 20)), (''width'', ANum (Fin 14)),
             (''height'', ANum (Fin 14)), (''fill'', AStr REFERRALS_GREY)]
            [] None,
          Node ''text''
            [(''x'', ANum (Fin 360)), (''y'', ANum (Fin 32)), (''text-anchor'', AStr ''start''),
             (''font-size'', ANum (Fin 18)), (''font-weight'', ANum (Fin 700)),
             (''fill'', AStr ''#d1d5db'')]
            [] (Some (Text ''Referrals (m)'')),
          Node ''rect''
            [(''x'', ANum (Fin 510)), (''y'', ANum (Fin 20)), (''width'', ANum (Fin 14)),
             (''height'', ANum (Fin 14)), (''fill'', AStr BRAND_BLUE)]
            [] None,
          Node ''text''
            [(''x'', ANum (Fin 530)), (''y'', ANum (Fin 32)), (''text-anchor'', AStr ''start''),
             (''font-size'', ANum (Fin 18)), (''font-weight'', ANum (Fin 700)),
             (''fill'', AStr ''#d1d5db'')]
            [] (Some (Text ''Accessed services (m)''))]
         None)
   \<and> (\<exists>svg. renderSessionsChart (Some []) = Some svg
        \<and> tag svg = ''svg''
        \<and> attrs svg = [(''viewBox'', AStr ''0 0 1000 680''), (''role'', AStr ''img''),
                        (''aria-label'', AStr ''Average sessions per course'')]
        \<and> map (\<lambda>n. (tag n, attrs n, children n)) (children svg)
          = (''rect'',
             [(''x'', ANum (Fin 0)), (''y'', ANum (Fin 0)), (''width'', ANum (Fin 1000)),
              (''height'', ANum (Fin 680)), (''fill'', AStr ''#fafbfd'')], [])
            # concat (map (\<lambda>k.
                [(''line'',
                  [(''x1'', ANum (Fin 80)), (''x2'', ANum (Fin 970)),
                   (''y1'', ANum (Fin (610 - 190 * real k / 3))),
                   (''y2'', ANum (Fin (610 - 190 * real k / 3))), (''stroke'', AStr ''#d1d5db''),
                   (''stroke-width'', ANum (Fin 1))], []),
                 (''text'',
                  [(''x'', ANum (Fin 70)), (''y'', ANum (Fin (615 - 190 * real k / 3))),
                   (''text-anchor'', AStr ''end''), (''font-size'', ANum (Fin 18)),
                   (''font-weight'', ANum (Fin 600)), (''fill'', AStr ''#d1d5db'')], [])])
                [0, 1, 2, 3, 4, 5, 6, 7, 8, 9 :: nat])
            @ [(''line'',
                [(''x1'', ANum (Fin 80)), (''x2'', ANum (Fin 80)), (''y1'', ANum (Fin 40)),
                 (''y2'', ANum (Fin 610)), (''stroke'', AStr ''#6b7280''),
                 (''stroke-width'', ANum (Fin 1.5))], []),
               (''line'',
                [(''x1'', ANum (Fin 80)), (''x2'', ANum (Fin 970)), (''y1'', ANum (Fin 610)),
                 (''y2'', ANum (Fin 610)), (''stroke'', AStr ''#6b7280''),
                 (''stroke-width'', ANum (Fin 1.5))], [])])
   \<and> renderSessionsChart None = renderSessionsChart (Some [])"
proof -
  have "renderSessionsChart None = renderSessionsChart (Some [])"
    by (simp add: renderSessionsChart_def sessionsDrawing_def sessionsData_def)
  then show ?thesis
    unfolding referrals_empty sessions_empty
    by (simp add: el_node referralsGridline_def sessionsGridline_def gridLine_def gridText_def
        setTextContent_def axesLines_def referralsLegend_def legendItem_def sessionsBackground_def
        Let_def referralsYScale_def sessionsYScale_def referralsMargin_def sessionsMargin_def
        innerW_def innerH_def chartW_def chartH_def minus_jsnum_def referralsTick_empty
        del: toFixed.simps)
qed

lemma sessions_frame:
  "\<exists>marks. renderSessionsChart series
     = Some (el ''svg''
               [(''viewBox'', AStr ''0 0 1000 680''), (''role'', AStr ''img''),
                (''aria-label'', AStr ''Average sessions per course'')]
               (sessionsBackground
                # concat (map (sessionsGridline (Fin 7.6) (Fin 8.5))
                    [Fin 7.6, Fin 7.7, Fin 7.8, Fin 7.9, Fin 8, Fin 8.1, Fin 8.2, Fin 8.3, Fin 8.4, Fin 8.5])
                @ axesLines sessionsMargin (Fin 610) @ marks))"
proof -
  have y0: "sessionsYScale (Fin 7.6) (Fin 8.5) (Fin 7.6) = Fin 610"
    by (simp add: sessionsYScale_def sessionsMargin_def innerH_def chartH_def minus_jsnum_def)
  show ?thesis
    unfolding renderSessionsChart_def sessionsDrawing_def Let_def sessions_grid y0
    by (simp add: el_node)
qed

text \<open>
  C8, as amended. The range and the gridline step of the single-line renderer's vertical
  axis are constants fixed inside the renderer, 7.6, 8.5 and 0.1; they are neither derived
  from the input data nor supplied by the caller. For every series the renderer returns
  what the renderer of the specification returns when called with these three numbers,
  and its drawing starts with the same background, the same ten gridlines with their
  labels and the same two axis lines, whatever the series; only what follows them (the
  period labels, the line and the markers) depends on the series.
\<close>

theorem sessions_axis_fixed:
  "renderSessionsChart series = renderSessionsChart_spec series (Fin 7.6) (Fin 8.5) (Fin 0.1)
   \<and> (\<exists>marks. renderSessionsChart series
     = Some (el ''svg''
               [(''viewBox'', AStr ''0 0 1000 680''), (''role'', AStr ''img''),
                (''aria-label'', AStr ''Average sessions per course'')]
               (sessionsBackground
                # concat (map (sessionsGridline (Fin 7.6) (Fin 8.5))
                    [Fin 7.6, Fin 7.7, Fin 7.8, Fin 7.9, Fin 8, Fin 8.1, Fin 8.2, Fin 8.3, Fin 8.4, Fin 8.5])
                @ axesLines sessionsMargin (Fin 610) @ marks)))"
  using sessions_frame[of series]
  by (simp add: renderSessionsChart_def renderSessionsChart_spec_def Let_def)

lemma spec_grid:
  "gridLoop (sessionsGridline (Fin 0) (Fin 10)) (Fin 0) (Fin 10) (Fin 1) svg
     = Some (svg @ concat (map (sessionsGridline (Fin 0) (Fin 10))
          [Fin 0, Fin 1, Fin 2, Fin 3, Fin 4, Fin 5, Fin 6, Fin 7, Fin 8, Fin 9, Fin 10]))"
  by (simp add: gridLoop_unfold)

text \<open>
  The claim C8 as stated fails: the renderer has no parameter for the axis. A caller that
  wants the range 0 to 10 with step 1 for the empty series would get 11 gridlines, 25
  elements in all; the renderer draws its own 10 gridlines, 23 elements in all.
\<close>

theorem sessions_axis_caller_counterexample:
  "renderSessionsChart (Some []) \<noteq> renderSessionsChart_spec (Some []) (Fin 0) (Fin 10) (Fin 1)
   \<and> length (childTags (renderSessionsChart (Some []))) = 23
   \<and> length (childTags (renderSessionsChart_spec (Some []) (Fin 0) (Fin 10) (Fin 1))) = 25"
proof -
  have 1: "length (childTags (renderSessionsChart (Some []))) = 23"
    unfolding sessions_empty
    by (simp add: childTags_def el_node sessionsGridline_def axesLines_def Let_def)
  have 2: "length (childTags (renderSessionsChart_spec (Some []) (Fin 0) (Fin 10) (Fin 1))) = 25"
    unfolding renderSessionsChart_spec_def sessionsDrawing_def Let_def spec_grid
    by (simp add: childTags_def el_node sessionsGridline_def axesLines_def Let_def sessionsData_def
        sessionsMarks_def)
  have "renderSessionsChart (Some []) \<noteq> renderSessionsChart_spec (Some []) (Fin 0) (Fin 10) (Fin 1)"
    using 1 2 by auto
  then show ?thesis using 1 2 by blast
qed

lemma barsLoop_groups:
  "barsLoop yMax xBand y0 ds i
     = concat (map (\<lambda>j. barGroup yMax xBand y0 (ds ! j) (i + j)) [0..<length ds])"
proof (induction ds arbitrary: i)
  case Nil then show ?case by simp
next
  case (Cons d ds)
  have "map (\<lambda>j. barGroup yMax xBand y0 ((d # ds) ! j) (i + j)) [0..<length (d # ds)]
      = barGroup yMax xBand y0 d i # map (\<lambda>j. barGroup yMax xBand y0 (ds ! j) (i + 1 + j)) [0..<length ds]"
    by (simp add: upt_conv_Cons map_Suc_upt[symmetric] del: upt_Suc)
  then show ?case using Cons.IH[of "i + 1"] by simp
qed

lemma barGroup_shape:
  "\<exists>ref acc lbl. barGroup yMax xBand y0 d i = [ref, acc, lbl]
     \<and> tag ref = ''rect'' \<and> tag acc = ''rect''
     \<and> getAttribute ref ''y'' = Some (ANum (referralsYScale yMax (referralsM d)))
     \<and> getAttribute ref ''height'' = Some (ANum (Math_max [Fin 0, y0 - referralsYScale yMax (referralsM d)]))
     \<and> getAttribute acc ''y'' = Some (ANum (referralsYScale yMax (accessedM d)))
     \<and> getAttribute acc ''height'' = Some (ANum (Math_max [Fin 0, y0 - referralsYScale yMax (accessedM d)]))"
  by (simp add: barGroup_def Let_def el_node getAttribute_def)

lemma referrals_children:
  assumes "renderReferralsChart series = Some svg"
  shows "\<exists>grid yMax xBand y0. children svg
     = grid @ axesLines referralsMargin y0 @ referralsLegend
       @ concat (map (\<lambda>i. barGroup yMax xBand y0 (referralsDataM series ! i) i) [0..<length series])"
proof -
  define yMax where "yMax = axisMax (referralsMaxVal (referralsDataM series))
                              (gridStep (referralsMaxVal (referralsDataM series)))"
  define xBand where "xBand = innerW referralsMargin / Fin (real (length (referralsDataM series)))"
  define y0 where "y0 = referralsYScale yMax (Fin 0)"
  have len: "length (referralsDataM series) = length series" by (simp add: referralsDataM_def)
  obtain grid where "svg = el ''svg''
                     [(''viewBox'', AStr ''0 0 1000 680''), (''role'', AStr ''img''),
                      (''aria-label'', AStr ''Referrals and accessed services'')]
                     (grid @ axesLines referralsMargin y0 @ referralsLegend
                      @ barsLoop yMax xBand y0 (referralsDataM series) 0)"
    using assms unfolding renderReferralsChart_def Let_def yMax_def[symmetric] xBand_def[symmetric]
      y0_def[symmetric]
    by (auto split: option.splits)
  then have "children svg = grid @ axesLines referralsMargin y0 @ referralsLegend
       @ concat (map (\<lambda>i. barGroup yMax xBand y0 (referralsDataM series ! i) i) [0..<length series])"
    by (simp add: el_node barsLoop_groups len)
  then show ?thesis by blast
qed

lemma axis_finite:
  assumes "\<forall>d\<in>set series. isFinite (toNumber (referrals d)) \<and> isFinite (toNumber (accessed d))"
  shows "\<exists>step yMax. 0 < step \<and> 0 < yMax
           \<and> gridStep (referralsMaxVal (referralsDataM series)) = Fin step
           \<and> axisMax (referralsMaxVal (referralsDataM series)) (Fin step) = Fin yMax"
proof (cases "series = []")
  case True
  have "referralsMaxVal (referralsDataM []) = NInf"
    by (simp add: referralsMaxVal_def referralsDataM_def Math_max_def)
  moreover have "gridStep NInf = Fin 0.05" by (simp add: gridStep_def less_eq_jsnum_def)
  moreover have "axisMax NInf (Fin 0.05) = Fin 0.05"
    by (simp add: axisMax_def Math_max_def Math_max2_def)
  ultimately show ?thesis unfolding True by (intro exI[of _ "0.05"]) simp
next
  case False
  then have ne: "referralsDataM series \<noteq> []" by (simp add: referralsDataM_def)
  obtain m M where mv: "referralsMaxVal (referralsDataM series) = Fin M" and M: "M = max m 0"
    using maxVal_finite[OF ne dataM_finite[OF assms]] by blast
  define step :: real where
    "step = (if M \<le> 0.2 then 0.05 else if M \<le> 0.5 then 0.1 else if M \<le> 1 then 0.2 else 0.5)"
  have step_pos: "0 < step" by (simp add: step_def)
  have gs: "gridStep (referralsMaxVal (referralsDataM series)) = Fin step"
    unfolding mv gridStep_Fin step_def ..
  have M0: "0 \<le> M" by (simp add: M)
  obtain k :: int where k: "1 \<le> k" "max step (of_int \<lceil>M * 1.12 / step\<rceil> * step) = of_int k * step"
    using axisMax_multiple[OF step_pos M0] by blast
  have am: "axisMax (referralsMaxVal (referralsDataM series)) (Fin step) = Fin (of_int k * step)"
    unfolding mv axisMax_Fin[OF step_pos] k(2) ..
  have "0 < real_of_int k * step" using k(1) step_pos by simp
  then show ?thesis using step_pos gs am by blast
qed

lemma baseline:
  assumes "0 < yMax"
  shows "referralsYScale (Fin yMax) (Fin 0) = Fin 610"
  using assms
  by (simp add: referralsYScale_def referralsMargin_def innerH_def chartH_def minus_jsnum_def)

lemma zero_bar: "Math_max [Fin 0, Fin 610 - Fin 610] = Fin 0"
  by (simp add: Math_max_def Math_max2_def minus_jsnum_def)

lemma dataM_nth:
  assumes "i < length series"
  shows "referralsM (referralsDataM series ! i) = toNumber (referrals (series ! i)) / Fin 1000000"
    and "accessedM (referralsDataM series ! i) = toNumber (accessed (series ! i)) / Fin 1000000"
  using assms by (simp_all add: referralsDataM_def)

text \<open>
  C7, as amended. Whenever the grouped-bar renderer returns a drawing, every period of
  the series has its group of three elements at the end of the drawing, in order, and the
  first two of each group are the rectangles of the two bars: no bar is omitted. When
  every value of the series converts to a finite number of magnitude at most \<open>10^9\<close>
  (a number, or \<open>null\<close>, which converts to 0), the renderer returns a drawing whose
  baseline is at y = 610, and a value that converts to 0 gives a rectangle of height 0 at
  the baseline. A value that is absent (\<open>undefined\<close>) is outside this case. The bound
  keeps the axis maximum below 1121, where the gridline loop ends in binary64 as it does
  in exact arithmetic.
\<close>

theorem bars_zero_height:
  "(\<forall>svg. renderReferralsChart series = Some svg \<longrightarrow>
      (\<exists>grid yMax xBand y0.
          children svg = grid @ axesLines referralsMargin y0 @ referralsLegend
            @ concat (map (\<lambda>i. barGroup yMax xBand y0 (referralsDataM series ! i) i) [0..<length series])
        \<and> (\<forall>i<length series. \<exists>ref acc lbl.
              barGroup yMax xBand y0 (referralsDataM series ! i) i = [ref, acc, lbl]
            \<and> tag ref = ''rect'' \<and> tag acc = ''rect'')))
   \<and> ((\<forall>d\<in>set series. \<exists>r a. toNumber (referrals d) = Fin r \<and> \<bar>r\<bar> \<le> 10 ^ 9
                           \<and> toNumber (accessed d) = Fin a \<and> \<bar>a\<bar> \<le> 10 ^ 9) \<longrightarrow>
      (\<exists>svg grid yMax xBand.
          renderReferralsChart series = Some svg
        \<and> children svg = grid @ axesLines referralsMargin (Fin 610) @ referralsLegend
            @ concat (map (\<lambda>i. barGroup yMax xBand (Fin 610) (referralsDataM series ! i) i) [0..<length series])
        \<and> (\<forall>i<length series. \<exists>ref acc lbl.
              barGroup yMax xBand (Fin 610) (referralsDataM series ! i) i = [ref, acc, lbl]
            \<and> tag ref = ''rect'' \<and> tag acc = ''rect''
            \<and> (toNumber (referrals (series ! i)) = Fin 0 \<longrightarrow>
                 getAttribute ref ''height'' = Some (ANum (Fin 0))
               \<and> getAttribute ref ''y'' = Some (ANum (Fin 610)))
            \<and> (toNumber (accessed (series ! i)) = Fin 0 \<longrightarrow>
                 getAttribute acc ''height'' = Some (ANum (Fin 0))
               \<and> getAttribute acc ''y'' = Some (ANum (Fin 610))))))"
proof (intro conjI allI impI)
  fix svg assume r: "renderReferralsChart series = Some svg"
  obtain grid yMax xBand y0 where c: "children svg
     = grid @ axesLines referralsMargin y0 @ referralsLegend
       @ concat (map (\<lambda>i. barGroup yMax xBand y0 (referralsDataM series ! i) i) [0..<length series])"
    using referrals_children[OF r] by blast
  have "\<forall>i<length series. \<exists>ref acc lbl.
          barGroup yMax xBand y0 (referralsDataM series ! i) i = [ref, acc, lbl]
        \<and> tag ref = ''rect'' \<and> tag acc = ''rect''"
    using barGroup_shape by blast
  then show "\<exists>grid yMax xBand y0.
          children svg = grid @ axesLines referralsMargin y0 @ referralsLegend
            @ concat (map (\<lambda>i. barGroup yMax xBand y0 (referralsDataM series ! i) i) [0..<length series])
        \<and> (\<forall>i<length series. \<exists>ref acc lbl.
              barGroup yMax xBand y0 (referralsDataM series ! i) i = [ref, acc, lbl]
            \<and> tag ref = ''rect'' \<and> tag acc = ''rect'')"
    using c by blast
next
  assume bounded: "\<forall>d\<in>set series. \<exists>r a. toNumber (referrals d) = Fin r \<and> \<bar>r\<bar> \<le> 10 ^ 9
                           \<and> toNumber (accessed d) = Fin a \<and> \<bar>a\<bar> \<le> 10 ^ 9"
  have fin: "\<forall>d\<in>set series. isFinite (toNumber (referrals d)) \<and> isFinite (toNumber (accessed d))"
  proof
    fix d assume "d \<in> set series"
    then obtain r a where "toNumber (referrals d) = Fin r" "toNumber (accessed d) = Fin a"
      using bounded by blast
    then show "isFinite (toNumber (referrals d)) \<and> isFinite (toNumber (accessed d))" by simp
  qed
  obtain step yMax where pos: "0 < step" "0 < yMax"
    and gs: "gridStep (referralsMaxVal (referralsDataM series)) = Fin step"
    and am: "axisMax (referralsMaxVal (referralsDataM series)) (Fin step) = Fin yMax"
    using axis_finite[OF fin] by blast
  obtain n where grid: "gridLoop (referralsGridline (Fin yMax)) (Fin 0) (Fin yMax) (Fin step) []
      = Some ([] @ concat (map (\<lambda>i. referralsGridline (Fin yMax) (Fin (0 + real i * step))) [0..<n]))"
    using gridLoop_terminates[OF pos(1)] by blast
  obtain svg where r: "renderReferralsChart series = Some svg"
    unfolding renderReferralsChart_def Let_def gs am grid by simp
  define xBand where "xBand = innerW referralsMargin / Fin (real (length (referralsDataM series)))"
  have len: "length (referralsDataM series) = length series" by (simp add: referralsDataM_def)
  have "svg = el ''svg''
                     [(''viewBox'', AStr ''0 0 1000 680''), (''role'', AStr ''img''),
                      (''aria-label'', AStr ''Referrals and accessed services'')]
                     (([] @ concat (map (\<lambda>i. referralsGridline (Fin yMax) (Fin (0 + real i * step))) [0..<n]))
                      @ axesLines referralsMargin (Fin 610) @ referralsLegend
                      @ barsLoop (Fin yMax) xBand (Fin 610) (referralsDataM series) 0)"
    using r unfolding renderReferralsChart_def Let_def gs am grid baseline[OF pos(2)]
      xBand_def[symmetric]
    by simp
  then have c: "children svg
     = concat (map (\<lambda>i. referralsGridline (Fin yMax) (Fin (0 + real i * step))) [0..<n])
       @ axesLines referralsMargin (Fin 610) @ referralsLegend
       @ concat (map (\<lambda>i. barGroup (Fin yMax) xBand (Fin 610) (referralsDataM series ! i) i) [0..<length series])"
    by (simp add: el_node barsLoop_groups len)
  have bars: "\<exists>ref acc lbl.
              barGroup (Fin yMax) xBand (Fin 610) (referralsDataM series ! i) i = [ref, acc, lbl]
            \<and> tag ref = ''rect'' \<and> tag acc = ''rect''
            \<and> (toNumber (referrals (series ! i)) = Fin 0 \<longrightarrow>
                 getAttribute ref ''height'' = Some (ANum (Fin 0))
               \<and> getAttribute ref ''y'' = Some (ANum (Fin 610)))
            \<and> (toNumber (accessed (series ! i)) = Fin 0 \<longrightarrow>
                 getAttribute acc ''height'' = Some (ANum (Fin 0))
               \<and> getAttribute acc ''y'' = Some (ANum (Fin 610)))"
    if i: "i < length series" for i
  proof -
    obtain ref acc lbl where g: "barGroup (Fin yMax) xBand (Fin 610) (referralsDataM series ! i) i = [ref, acc, lbl]"
      "tag ref = ''rect''" "tag acc = ''rect''"
      "getAttribute ref ''y'' = Some (ANum (referralsYScale (Fin yMax) (referralsM (referralsDataM series ! i))))"
      "getAttribute ref ''height'' = Some (ANum (Math_max [Fin 0, Fin 610 - referralsYScale (Fin yMax) (referralsM (referralsDataM series ! i))]))"
      "getAttribute acc ''y'' = Some (ANum (referralsYScale (Fin yMax) (accessedM (referralsDataM series ! i))))"
      "getAttribute acc ''height'' = Some (ANum (Math_max [Fin 0, Fin 610 - referralsYScale (Fin yMax) (accessedM (referralsDataM series ! i))]))"
      using barGroup_shape[of "Fin yMax" xBand "Fin 610" "referralsDataM series ! i" i] by blast
    have z: "Fin 0 / Fin 1000000 = Fin 0" by simp
    have 1: "getAttribute ref ''height'' = Some (ANum (Fin 0)) \<and> getAttribute ref ''y'' = Some (ANum (Fin 610))"
      if "toNumber (referrals (series ! i)) = Fin 0"
      using g(4,5) unfolding dataM_nth(1)[OF i] that z baseline[OF pos(2)] zero_bar by simp
    have 2: "getAttribute acc ''height'' = Some (ANum (Fin 0)) \<and> getAttribute acc ''y'' = Some (ANum (Fin 610))"
      if "toNumber (accessed (series ! i)) = Fin 0"
      using g(6,7) unfolding dataM_nth(2)[OF i] that z baseline[OF pos(2)] zero_bar by simp
    show ?thesis using g(1,2,3) 1 2 by blast
  qed
  show "\<exists>svg grid yMax xBand.
          renderReferralsChart series = Some svg
        \<and> children svg = grid @ axesLines referralsMargin (Fin 610) @ referralsLegend
            @ concat (map (\<lambda>i. barGroup yMax xBand (Fin 610) (referralsDataM series ! i) i) [0..<length series])
        \<and> (\<forall>i<length series. \<exists>ref acc lbl.
              barGroup yMax xBand (Fin 610) (referralsDataM series ! i) i = [ref, acc, lbl]
            \<and> tag ref = ''rect'' \<and> tag acc = ''rect''
            \<and> (toNumber (referrals (series ! i)) = Fin 0 \<longrightarrow>
                 getAttribute ref ''height'' = Some (ANum (Fin 0))
               \<and> getAttribute ref ''y'' = Some (ANum (Fin 610)))
            \<and> (toNumber (accessed (series ! i)) = Fin 0 \<longrightarrow>
                 getAttribute acc ''height'' = Some (ANum (Fin 0))
               \<and> getAttribute acc ''y'' = Some (ANum (Fin 610))))"
    using r c bars by blast
qed

theorem bars_zero_height_witness:
  "set zeroSeries = {\<lparr>year = ''2021'', referrals = Num (Fin 0), accessed = Null\<rparr>}
   \<and> toNumber (Num (Fin 0)) = Fin 0 \<and> toNumber Null = Fin 0 \<and> \<bar>0 :: real\<bar> \<le> 10 ^ 9
   \<and> toNumber (referrals (zeroSeries ! 0)) = Fin 0 \<and> toNumber (accessed (zeroSeries ! 0)) = Fin 0
   \<and> (\<exists>svg grid yMax xBand ref acc lbl.
          renderReferralsChart zeroSeries = Some svg
        \<and> children svg = grid @ axesLines referralsMargin (Fin 610) @ referralsLegend @ [ref, acc, lbl]
        \<and> barGroup yMax xBand (Fin 610) (referralsDataM zeroSeries ! 0) 0 = [ref, acc, lbl]
        \<and> tag ref = ''rect'' \<and> tag acc = ''rect''
        \<and> getAttribute ref ''height'' = Some (ANum (Fin 0))
        \<and> getAttribute ref ''y'' = Some (ANum (Fin 610))
        \<and> getAttribute acc ''height'' = Some (ANum (Fin 0))
        \<and> getAttribute acc ''y'' = Some (ANum (Fin 610)))"
proof -
  have fin: "\<forall>d\<in>set zeroSeries. \<exists>r a. toNumber (referrals d) = Fin r \<and> \<bar>r\<bar> \<le> 10 ^ 9
                           \<and> toNumber (accessed d) = Fin a \<and> \<bar>a\<bar> \<le> 10 ^ 9"
    by (simp add: zeroSeries_def)
  have zs: "set zeroSeries = {\<lparr>year = ''2021'', referrals = Num (Fin 0), accessed = Null\<rparr>}"
    by (simp add: zeroSeries_def)
  have z: "toNumber (referrals (zeroSeries ! 0)) = Fin 0" "toNumber (accessed (zeroSeries ! 0)) = Fin 0"
    by (simp_all add: zeroSeries_def)
  have len: "length zeroSeries = 1" by (simp add: zeroSeries_def)
  obtain svg grid yMax xBand where r: "renderReferralsChart zeroSeries = Some svg"
    and c: "children svg = grid @ axesLines referralsMargin (Fin 610) @ referralsLegend
            @ concat (map (\<lambda>i. barGroup yMax xBand (Fin 610) (referralsDataM zeroSeries ! i) i) [0..<length zeroSeries])"
    and b: "\<forall>i<length zeroSeries. \<exists>ref acc lbl.
              barGroup yMax xBand (Fin 610) (referralsDataM zeroSeries ! i) i = [ref, acc, lbl]
            \<and> tag ref = ''rect'' \<and> tag acc = ''rect''
            \<and> (toNumber (referrals (zeroSeries ! i)) = Fin 0 \<longrightarrow>
                 getAttribute ref ''height'' = Some (ANum (Fin 0))
               \<and> getAttribute ref ''y'' = Some (ANum (Fin 610)))
            \<and> (toNumber (accessed (zeroSeries ! i)) = Fin 0 \<longrightarrow>
                 getAttribute acc ''height'' = Some (ANum (Fin 0))
               \<and> getAttribute acc ''y'' = Some (ANum (Fin 610)))"
    using bars_zero_height[of zeroSeries] fin by blast
  obtain ref acc lbl where g: "barGroup yMax xBand (Fin 610) (referralsDataM zeroSeries ! 0) 0 = [ref, acc, lbl]"
    "tag ref = ''rect''" "tag acc = ''rect''"
    "getAttribute ref ''height'' = Some (ANum (Fin 0))" "getAttribute ref ''y'' = Some (ANum (Fin 610))"
    "getAttribute acc ''height'' = Some (ANum (Fin 0))" "getAttribute acc ''y'' = Some (ANum (Fin 610))"
    using b z len by auto
  have c': "children svg = grid @ axesLines referralsMargin (Fin 610) @ referralsLegend @ [ref, acc, lbl]"
    using c g(1) by (simp add: len)
  show ?thesis using r c' g z zs by auto
qed

text \<open>
  The claim C7 as stated fails for a period whose referrals are absent: the value
  converts to \<open>NaN\<close>, the axis maximum and the baseline become \<open>NaN\<close>, no gridline is
  drawn, and the heights of both bars of the period are \<open>NaN\<close>, not 0.
\<close>

theorem bars_missing_counterexample:
  "renderReferralsChart missingSeries
     = Some (el ''svg''
               [(''viewBox'', AStr ''0 0 1000 680''), (''role'', AStr ''img''),
                (''aria-label'', AStr ''Referrals and accessed services'')]
               (axesLines referralsMargin NaN @ referralsLegend
                @ barGroup NaN (Fin 890) NaN
                    \<lparr>yearM = ''2021'', referralsM = NaN, accessedM = Fin 80 / Fin 1000000\<rparr> 0))
   \<and> getAttribute (barGroup NaN (Fin 890) NaN
         \<lparr>yearM = ''2021'', referralsM = NaN, accessedM = Fin 80 / Fin 1000000\<rparr> 0 ! 0) ''height''
       = Some (ANum NaN)
   \<and> getAttribute (barGroup NaN (Fin 890) NaN
         \<lparr>yearM = ''2021'', referralsM = NaN, accessedM = Fin 80 / Fin 1000000\<rparr> 0 ! 1) ''height''
       = Some (ANum NaN)"
proof -
  have xb: "innerW referralsMargin / Fin (real (length [\<lparr>yearM = ''2021'', referralsM = NaN,
              accessedM = Fin 80 / Fin 1000000\<rparr>])) = Fin 890"
    by (simp add: innerW_def referralsMargin_def chartW_def minus_jsnum_def)
  have 1: "renderReferralsChart missingSeries
     = Some (el ''svg''
               [(''viewBox'', AStr ''0 0 1000 680''), (''role'', AStr ''img''),
                (''aria-label'', AStr ''Referrals and accessed services'')]
               (axesLines referralsMargin NaN @ referralsLegend
                @ barGroup NaN (Fin 890) NaN
                    \<lparr>yearM = ''2021'', referralsM = NaN, accessedM = Fin 80 / Fin 1000000\<rparr> 0))"
    unfolding renderReferralsChart_def Let_def missing_facts gridLoop_NaN xb by simp
  have 2: "getAttribute (barGroup NaN (Fin 890) NaN
         \<lparr>yearM = ''2021'', referralsM = NaN, accessedM = Fin 80 / Fin 1000000\<rparr> 0 ! 0) ''height''
       = Some (ANum NaN)"
    by (simp add: barGroup_def Let_def el_node getAttribute_def Math_max_def Math_max2_def
        referralsYScale_def minus_jsnum_def plus_NaN_right referralsMargin_def innerH_def chartH_def)
  have 3: "getAttribute (barGroup NaN (Fin 890) NaN
         \<lparr>yearM = ''2021'', referralsM = NaN, accessedM = Fin 80 / Fin 1000000\<rparr> 0 ! 1) ''height''
       = Some (ANum NaN)"
    by (simp add: barGroup_def Let_def el_node getAttribute_def Math_max_def Math_max2_def
        referralsYScale_def minus_jsnum_def plus_NaN_right referralsMargin_def innerH_def chartH_def)
  show ?thesis using 1 2 3 by blast
qed


end
